theory Spec2Isabelle
  imports Complex_Main "HOL-Library.AList"
begin

section \<open>SecurePay Portal: the authentication and payment core\<close>

text \<open>
  The development embeds the two Express servers of the repository:
  the server with the in-memory fallback store and the signed-token path (called the
  fallback variant below) and \<^verbatim>\<open>src/server/index.ts\<close> (the base variant, MongoDB only).
  Handlers are functions from the server state and the request to a response and the
  new state. Everything the platform supplies (the clock, random draws, bcrypt,
  jsonwebtoken, the ObjectId parser) is an explicit argument.
\<close>

subsection \<open>JavaScript values and documents\<close>

text \<open>
  A stored document is a JavaScript object: a list of fields in insertion order.
  \<open>undefined\<close> is the absence of a value (\<open>None\<close>). Times are milliseconds since the
  epoch; numbers are the rationals that the binary64 values denote.
\<close>

datatype val =
    VNull
  | VBool bool
  | VNum rat
  | VStr string
  | VDate int
  | VOid string

type_synonym doc = "(string \<times> val) list"

definition fld :: "doc \<Rightarrow> string \<Rightarrow> val option" where
  "fld d k = map_of d k"

text \<open>Truthiness, as used by \<open>!x\<close>, \<open>!!x\<close>, \<open>x || y\<close> and \<open>if (x)\<close>.\<close>

fun truthy :: "val option \<Rightarrow> bool" where
  "truthy None = False"
| "truthy (Some VNull) = False"
| "truthy (Some (VBool b)) = b"
| "truthy (Some (VNum n)) = (n \<noteq> 0)"
| "truthy (Some (VStr s)) = (s \<noteq> [])"
| "truthy (Some (VDate t)) = True"
| "truthy (Some (VOid h)) = True"

text \<open>\<open>x || null\<close> as it is stored in a document.\<close>

definition or_null :: "val option \<Rightarrow> val" where
  "or_null x = (if truthy x then the x else VNull)"

text \<open>
  Strict equality \<open>===\<close>. Primitives compare by value. A \<open>Date\<close> or an \<open>ObjectId\<close> is an
  object and compares by identity; a query object is built afresh by every request, so
  such a query value is never identical to a stored one.
\<close>

fun strict_eq :: "val option \<Rightarrow> val option \<Rightarrow> bool" where
  "strict_eq None None = True"
| "strict_eq (Some VNull) (Some VNull) = True"
| "strict_eq (Some (VBool a)) (Some (VBool b)) = (a = b)"
| "strict_eq (Some (VNum a)) (Some (VNum b)) = (a = b)"
| "strict_eq (Some (VStr a)) (Some (VStr b)) = (a = b)"
| "strict_eq _ _ = False"

text \<open>
  The relational operators on the operands the program passes to \<open>$gt\<close> and \<open>$lt\<close>:
  dates and numbers (with \<open>null\<close> and booleans coerced as JavaScript does). \<open>undefined\<close>
  becomes \<open>NaN\<close>, on which every comparison is false. Strings and ObjectIds are not
  compared by any query of the program; the model answers false on them.
\<close>

fun to_number :: "val option \<Rightarrow> rat option" where
  "to_number (Some (VNum n)) = Some n"
| "to_number (Some (VDate t)) = Some (of_int t)"
| "to_number (Some VNull) = Some 0"
| "to_number (Some (VBool b)) = Some (if b then 1 else 0)"
| "to_number _ = None"

definition js_gt :: "val option \<Rightarrow> val option \<Rightarrow> bool" where
  "js_gt a b = (case (to_number a, to_number b) of (Some x, Some y) \<Rightarrow> x > y | _ \<Rightarrow> False)"

definition js_lt :: "val option \<Rightarrow> val option \<Rightarrow> bool" where
  "js_lt a b = (case (to_number a, to_number b) of (Some x, Some y) \<Rightarrow> x < y | _ \<Rightarrow> False)"

text \<open>
  Object spread \<open>{ ...a, ...b }\<close>: the fields of \<open>a\<close>, overwritten and extended by those
  of \<open>b\<close>. An assignment \<open>o.k = v\<close> is \<^const>\<open>AList.update\<close>.
\<close>

definition spread :: "doc \<Rightarrow> doc \<Rightarrow> doc" where
  "spread a b = foldr (\<lambda>(k, v). AList.update k v) b a"

subsection \<open>The in-memory store (\<open>createInMemoryDb\<close>)\<close>

text \<open>
  A query maps field names to a plain value, to an object with \<open>$gt\<close> and/or \<open>$lt\<close>
  (each bound present or not), or to a regular expression, given by its \<open>test\<close>.
\<close>

datatype qval =
    QEq "val option"
  | QRange "val option option" "val option option"
  | QRegExp "val option \<Rightarrow> bool"

type_synonym query = "(string \<times> qval) list"

fun match :: "doc \<Rightarrow> query \<Rightarrow> bool" where
  "match d [] = True"
| "match d ((key, QRange gt lt) # query) =
     (if gt \<noteq> None \<and> \<not> js_gt (fld d key) (the gt) then False
      else if lt \<noteq> None \<and> \<not> js_lt (fld d key) (the lt) then False
      else match d query)"
| "match d ((key, QRegExp test) # query) =
     (if \<not> test (fld d key) then False else match d query)"
| "match d ((key, QEq qv) # query) =
     (if \<not> strict_eq qv (fld d key) then False else match d query)"

definition findOne :: "doc list \<Rightarrow> query \<Rightarrow> doc option" where
  "findOne coll q = List.find (\<lambda>d. match d q) coll"

text \<open>\<open>insertOne\<close> takes the draw of \<open>crypto.randomUUID()\<close>; it returns the id and the collection.\<close>

definition insertOne :: "doc list \<Rightarrow> doc \<Rightarrow> string \<Rightarrow> val \<times> doc list" where
  "insertOne coll d uuid =
     (case fld d ''_id'' of
        None \<Rightarrow> (VStr uuid, coll @ [d @ [(''_id'', VStr uuid)]])
      | Some i \<Rightarrow> (i, coll @ [d]))"

fun findIndex :: "('a \<Rightarrow> bool) \<Rightarrow> 'a list \<Rightarrow> nat option" where
  "findIndex P [] = None"
| "findIndex P (x # xs) = (if P x then Some 0 else map_option Suc (findIndex P xs))"

text \<open>\<open>updateOne\<close> returns \<open>matchedCount\<close> and the collection.\<close>

definition updateOne :: "doc list \<Rightarrow> query \<Rightarrow> doc \<Rightarrow> nat \<times> doc list" where
  "updateOne coll flt set' =
     (case findIndex (\<lambda>d. match d flt) coll of
        None \<Rightarrow> (0, coll)
      | Some idx \<Rightarrow> (1, coll[idx := spread (coll ! idx) set']))"

text \<open>\<open>find(filter).sort(...).limit(...).toArray()\<close>: \<open>sort\<close> and \<open>limit\<close> return \<open>this\<close>.\<close>

definition find_toArray :: "doc list \<Rightarrow> query \<Rightarrow> doc list" where
  "find_toArray coll q = filter (\<lambda>d. match d q) coll"

text \<open>\<open>findOneAndUpdate\<close> returns \<open>value\<close> and the collection.\<close>

definition findOneAndUpdate :: "doc list \<Rightarrow> query \<Rightarrow> doc \<Rightarrow> doc option \<times> doc list" where
  "findOneAndUpdate coll flt set' =
     (case findIndex (\<lambda>d. match d flt) coll of
        None \<Rightarrow> (None, coll)
      | Some idx \<Rightarrow>
          (let coll' = coll[idx := spread (coll ! idx) set'] in (Some (coll' ! idx), coll')))"

subsection \<open>The durable store\<close>

text \<open>
  Modelled from the spec: the durable store. The MongoDB server and its driver are not
  in the repository; the servers only declare its indexes (\<open>connectToDatabase\<close>) and
  call it. The model follows the adapter contract of the specification: filter matching
  by value, unique indexes that reject a duplicate key with an error, \<open>sort\<close> by
  \<open>created_at\<close> descending and \<open>limit\<close>, and \<open>findOneAndUpdate\<close> answering with the
  updated record under \<open>value\<close>, as the handlers read it. An equality on \<open>null\<close> or
  \<open>undefined\<close> matches a missing field as well.
\<close>

definition bson_eq :: "val option \<Rightarrow> val option \<Rightarrow> bool" where
  "bson_eq qv dv =
     (if qv = None \<or> qv = Some VNull then dv = None \<or> dv = Some VNull else dv = qv)"

fun mongo_match :: "doc \<Rightarrow> query \<Rightarrow> bool" where
  "mongo_match d [] = True"
| "mongo_match d ((key, QRange gt lt) # query) =
     (if gt \<noteq> None \<and> \<not> js_gt (fld d key) (the gt) then False
      else if lt \<noteq> None \<and> \<not> js_lt (fld d key) (the lt) then False
      else mongo_match d query)"
| "mongo_match d ((key, QRegExp test) # query) =
     (if \<not> test (fld d key) then False else mongo_match d query)"
| "mongo_match d ((key, QEq qv) # query) =
     (if \<not> bson_eq qv (fld d key) then False else mongo_match d query)"

datatype index = Unique string | UniqueSparse string

text \<open>The key under which an index holds a document; \<open>None\<close> when it does not hold it.\<close>

fun index_key :: "index \<Rightarrow> doc \<Rightarrow> val option" where
  "index_key (Unique f) d = Some (case fld d f of None \<Rightarrow> VNull | Some v \<Rightarrow> v)"
| "index_key (UniqueSparse f) d = fld d f"

definition duplicate_key :: "index list \<Rightarrow> doc list \<Rightarrow> doc \<Rightarrow> bool" where
  "duplicate_key ixs coll d =
     (\<exists>ix \<in> set ixs. \<exists>e \<in> set coll. index_key ix d \<noteq> None \<and> index_key ix e = index_key ix d)"

datatype store_error = DuplicateKey

text \<open>
  \<open>insertOne\<close> on the durable store takes the ObjectId the driver generates. The
  primary key \<open>_id\<close> is a unique index of every collection.
\<close>

definition mongo_insertOne ::
  "index list \<Rightarrow> doc list \<Rightarrow> doc \<Rightarrow> string \<Rightarrow> store_error + (val \<times> doc list)" where
  "mongo_insertOne ixs coll d oid =
     (let toInsert = (if fld d ''_id'' = None then d @ [(''_id'', VOid oid)] else d);
          insertedId = (case fld d ''_id'' of None \<Rightarrow> VOid oid | Some i \<Rightarrow> i)
      in if duplicate_key (Unique ''_id'' # ixs) coll toInsert then Inl DuplicateKey
         else Inr (insertedId, coll @ [toInsert]))"

definition mongo_findOne :: "doc list \<Rightarrow> query \<Rightarrow> doc option" where
  "mongo_findOne coll q = List.find (\<lambda>d. mongo_match d q) coll"

definition mongo_updateOne :: "doc list \<Rightarrow> query \<Rightarrow> doc \<Rightarrow> nat \<times> doc list" where
  "mongo_updateOne coll flt set' =
     (case findIndex (\<lambda>d. mongo_match d flt) coll of
        None \<Rightarrow> (0, coll)
      | Some idx \<Rightarrow> (1, coll[idx := spread (coll ! idx) set']))"

definition mongo_findOneAndUpdate :: "doc list \<Rightarrow> query \<Rightarrow> doc \<Rightarrow> doc option \<times> doc list" where
  "mongo_findOneAndUpdate coll flt set' =
     (case findIndex (\<lambda>d. mongo_match d flt) coll of
        None \<Rightarrow> (None, coll)
      | Some idx \<Rightarrow>
          (let coll' = coll[idx := spread (coll ! idx) set'] in (Some (coll' ! idx), coll')))"

text \<open>Insertion of a document into a list that is descending in \<open>created_at\<close>.\<close>

definition created_at :: "doc \<Rightarrow> rat" where
  "created_at d = (case to_number (fld d ''created_at'') of None \<Rightarrow> 0 | Some t \<Rightarrow> t)"

fun insert_desc :: "doc \<Rightarrow> doc list \<Rightarrow> doc list" where
  "insert_desc d [] = [d]"
| "insert_desc d (e # es) =
     (if created_at e \<ge> created_at d then e # insert_desc d es else d # e # es)"

definition sort_created_desc :: "doc list \<Rightarrow> doc list" where
  "sort_created_desc ds = foldr insert_desc ds []"

definition mongo_find_sort_limit :: "doc list \<Rightarrow> query \<Rightarrow> nat \<Rightarrow> doc list" where
  "mongo_find_sort_limit coll q n = take n (sort_created_desc (filter (\<lambda>d. mongo_match d q) coll))"

subsection \<open>Rate limiter\<close>

record limit_entry =
  count :: int
  resetTime :: int

type_synonym rateLimitMap = "string \<rightharpoonup> limit_entry"

text \<open>
  \<open>checkRateLimit\<close> reads the clock (\<open>Date.now()\<close>, here \<open>now\<close>) and mutates the
  process-wide map; the model returns the answer and the new map.
\<close>

definition checkRateLimit ::
  "rateLimitMap \<Rightarrow> int \<Rightarrow> string \<Rightarrow> int \<Rightarrow> int \<Rightarrow> bool \<times> rateLimitMap" where
  "checkRateLimit m now key maxRequests windowMs =
     (case m key of
        None \<Rightarrow> (True, m(key \<mapsto> \<lparr>count = 1, resetTime = now + windowMs\<rparr>))
      | Some userLimit \<Rightarrow>
          if now > resetTime userLimit
          then (True, m(key \<mapsto> \<lparr>count = 1, resetTime = now + windowMs\<rparr>))
          else if count userLimit \<ge> maxRequests then (False, m)
          else (True, m(key \<mapsto> userLimit\<lparr>count := count userLimit + 1\<rparr>)))"

text \<open>A sequence of calls, each with its own key, limit, window and clock reading.\<close>

record rl_call =
  call_key :: string
  call_max :: int
  call_window :: int
  call_now :: int

fun run_calls :: "rateLimitMap \<Rightarrow> rl_call list \<Rightarrow> bool list \<times> rateLimitMap" where
  "run_calls m [] = ([], m)"
| "run_calls m (c # cs) =
     (let (r, m') = checkRateLimit m (call_now c) (call_key c) (call_max c) (call_window c);
          (rs, m'') = run_calls m' cs
      in (r # rs, m''))"

text \<open>The number of calls for \<open>key\<close> among the first \<open>i\<close> calls of a sequence.\<close>

definition calls_before :: "string \<Rightarrow> rl_call list \<Rightarrow> nat \<Rightarrow> nat" where
  "calls_before key cs i = length (filter (\<lambda>c. call_key c = key) (take i cs))"

subsection \<open>Reference numbers\<close>

text \<open>\<open>Number.prototype.toString()\<close> on an integer: its decimal digits, with a sign.\<close>

definition digit10 :: "nat \<Rightarrow> char" where
  "digit10 d = ''0123456789'' ! d"

fun nat_toString :: "nat \<Rightarrow> string" where
  "nat_toString n = (if n < 10 then [digit10 n] else nat_toString (n div 10) @ [digit10 (n mod 10)])"

declare nat_toString.simps [simp del]

definition int_toString :: "int \<Rightarrow> string" where
  "int_toString i = (if i < 0 then CHR ''-'' # nat_toString (nat (- i)) else nat_toString (nat i))"

text \<open>\<open>s.slice(-n)\<close> and \<open>s.substring(a, b)\<close> for \<open>a \<le> b\<close>.\<close>

definition slice_last :: "nat \<Rightarrow> string \<Rightarrow> string" where
  "slice_last n s = drop (length s - n) s"

definition substring :: "nat \<Rightarrow> nat \<Rightarrow> string \<Rightarrow> string" where
  "substring a b s = take (b - a) (drop a s)"

text \<open>\<open>toUpperCase\<close> on the characters that occur: ASCII letters are raised, the rest is kept.\<close>

definition upper_char :: "char \<Rightarrow> char" where
  "upper_char c =
     (case map_of (zip ''abcdefghijklmnopqrstuvwxyz'' ''ABCDEFGHIJKLMNOPQRSTUVWXYZ'') c of
        None \<Rightarrow> c
      | Some u \<Rightarrow> u)"

definition toUpperCase :: "string \<Rightarrow> string" where
  "toUpperCase s = map upper_char s"

text \<open>
  \<open>Math.random().toString(36)\<close>: a draw in \<open>[0, 1)\<close> prints as \<open>0\<close> when it is zero and
  otherwise as \<open>0.\<close> followed by its fractional digits in radix 36. The draw is given
  by these digits; the draw one half is the single digit 18 and prints as \<open>0.i\<close>.
\<close>

definition digit36 :: "nat \<Rightarrow> char" where
  "digit36 d = ''0123456789abcdefghijklmnopqrstuvwxyz'' ! d"

definition random_toString36 :: "nat list \<Rightarrow> string" where
  "random_toString36 ds = (if ds = [] then ''0'' else ''0.'' @ map digit36 ds)"

definition generateReferenceNumber :: "int \<Rightarrow> nat list \<Rightarrow> string" where
  "generateReferenceNumber now ds =
     (let timestamp = int_toString now;
          random = toUpperCase (substring 2 8 (random_toString36 ds))
      in ''INT'' @ slice_last 6 timestamp @ random)"

text \<open>The pattern \<open>INT\d{6}[A-Z0-9]{6}\<close>, anchored at both ends.\<close>

definition is_digit :: "char \<Rightarrow> bool" where
  "is_digit c = (c \<in> set ''0123456789'')"

definition is_upper36 :: "char \<Rightarrow> bool" where
  "is_upper36 c = (c \<in> set ''0123456789ABCDEFGHIJKLMNOPQRSTUVWXYZ'')"

definition reference_pattern :: "string \<Rightarrow> bool" where
  "reference_pattern s =
     (length s = 15 \<and> take 3 s = ''INT'' \<and> list_all is_digit (take 6 (drop 3 s))
      \<and> list_all is_upper36 (drop 9 s))"

subsection \<open>Binary64 arithmetic\<close>

text \<open>
  A JavaScript number is an IEEE 754 binary64 value. A finite one is a rational; the
  product of two numbers is the exact product rounded to the nearest binary64 value,
  ties to even. Products beyond the finite range do not arise: amounts are at most
  50000.
\<close>

fun bits :: "nat \<Rightarrow> nat" where
  "bits n = (if n = 0 then 0 else Suc (bits (n div 2)))"

declare bits.simps [simp del]

definition pow2 :: "int \<Rightarrow> rat" where
  "pow2 e = (if 0 \<le> e then 2 ^ nat e else 1 / 2 ^ nat (- e))"

text \<open>For \<open>a > 0\<close>, the integer \<open>k\<close> with \<open>2 ^ k \<le> a < 2 ^ (k + 1)\<close>.\<close>

definition floor_log2 :: "rat \<Rightarrow> int" where
  "floor_log2 a =
     (if 1 \<le> a then int (bits (nat \<lfloor>a\<rfloor>)) - 1 else - int (bits (nat \<lceil>1 / a\<rceil> - 1)))"

definition round_half_even :: "rat \<Rightarrow> int" where
  "round_half_even q =
     (let f = \<lfloor>q\<rfloor>; r = q - of_int f
      in if r < 1 / 2 then f else if 1 / 2 < r then f + 1 else if even f then f else f + 1)"

definition round_double :: "rat \<Rightarrow> rat" where
  "round_double x =
     (if x = 0 then 0
      else let a = \<bar>x\<bar>; e = max (floor_log2 a - 52) (- 1074)
           in sgn x * of_int (round_half_even (a / pow2 e)) * pow2 e)"

definition js_mul :: "rat \<Rightarrow> rat \<Rightarrow> rat" where
  "js_mul x y = round_double (x * y)"

text \<open>The literal \<open>0.02\<close>.\<close>

definition lit_0_02 :: rat where
  "lit_0_02 = round_double (2 / 100)"

subsection \<open>Server state, platform and HTTP\<close>

text \<open>
  The state of a server process: the store behind \<open>db\<close> (\<open>inMemory\<close> is its
  \<open>__inMemory\<close> flag) with its three collections, and the rate-limit map.
\<close>

record server =
  inMemory :: bool
  users :: "doc list"
  user_sessions :: "doc list"
  payment_transactions :: "doc list"
  rateLimitMap :: rateLimitMap

text \<open>The unique indexes that \<open>connectToDatabase\<close> declares on the durable store.\<close>

definition users_indexes :: "index list" where
  "users_indexes = [Unique ''email'', UniqueSparse ''username'']"

definition user_sessions_indexes :: "index list" where
  "user_sessions_indexes = [Unique ''session_token'']"

definition payment_transactions_indexes :: "index list" where
  "payment_transactions_indexes = [Unique ''reference_number'']"

text \<open>\<open>db.collection(name).op(...)\<close> on whichever store is connected.\<close>

definition db_findOne :: "bool \<Rightarrow> doc list \<Rightarrow> query \<Rightarrow> doc option" where
  "db_findOne mem coll q = (if mem then findOne coll q else mongo_findOne coll q)"

definition db_insertOne ::
  "bool \<Rightarrow> index list \<Rightarrow> doc list \<Rightarrow> doc \<Rightarrow> string \<Rightarrow> store_error + (val \<times> doc list)" where
  "db_insertOne mem ixs coll d newid =
     (if mem then Inr (insertOne coll d newid) else mongo_insertOne ixs coll d newid)"

definition db_updateOne :: "bool \<Rightarrow> doc list \<Rightarrow> query \<Rightarrow> doc \<Rightarrow> nat \<times> doc list" where
  "db_updateOne mem coll q set' = (if mem then updateOne coll q set' else mongo_updateOne coll q set')"

definition db_find_sort_limit :: "bool \<Rightarrow> doc list \<Rightarrow> query \<Rightarrow> nat \<Rightarrow> doc list" where
  "db_find_sort_limit mem coll q n =
     (if mem then find_toArray coll q else mongo_find_sort_limit coll q n)"

text \<open>
  What the platform and the libraries supply: the strict-binding switch of the
  environment, \<open>jwt.verify\<close> under the process secret (\<open>None\<close> when it throws, else the
  \<open>sub\<close> of the payload, if any), \<open>jwt.sign\<close>, bcrypt with its salt, \<open>ObjectId.isValid\<close>,
  \<open>String(x)\<close> on values that are neither strings nor ObjectIds, and zod's e-mail test.
\<close>

record platform =
  STRICT_BINDING :: bool
  jwt_verify :: "string \<Rightarrow> int \<Rightarrow> string option option"
  jwt_sign :: "string \<Rightarrow> int \<Rightarrow> string"
  bcrypt_hash :: "string \<Rightarrow> string \<Rightarrow> string"
  bcrypt_compare :: "string \<Rightarrow> string \<Rightarrow> bool"
  ObjectId_isValid :: "string \<Rightarrow> bool"
  String_other :: "val option \<Rightarrow> string"
  zod_email :: "string \<Rightarrow> bool"

definition js_String :: "platform \<Rightarrow> val option \<Rightarrow> string" where
  "js_String P v =
     (case v of Some (VStr s) \<Rightarrow> s | Some (VOid h) \<Rightarrow> h | _ \<Rightarrow> String_other P v)"

text \<open>
  A request as a handler sees it: the \<open>Authorization\<close> header, \<open>req.ip\<close>, the remote
  address of the connection, the \<open>User-Agent\<close> header, the parsed JSON body (after
  \<open>express.json\<close> and, in the fallback variant, \<open>sanitizeInput\<close>), \<open>req.params.id\<close>
  and \<open>req.query.status\<close>.
\<close>

record request =
  authorization :: "string option"
  ip :: "string option"
  remoteAddress :: "string option"
  user_agent :: "string option"
  body :: doc
  params_id :: string
  query_status :: "val option"

text \<open>A response: the HTTP status and the envelope \<open>{success, message?, error?, data?}\<close>.\<close>

datatype json = JVal val | JObj "(string \<times> json) list" | JArr "json list"

definition json_doc :: "doc \<Rightarrow> json" where
  "json_doc d = JObj (map (\<lambda>(k, v). (k, JVal v)) d)"

record response =
  status :: nat
  success :: bool
  message :: "string option"
  error :: "string option"
  data :: "json option"

definition error_response :: "nat \<Rightarrow> string \<Rightarrow> response" where
  "error_response st msg =
     \<lparr>status = st, success = False, message = None, error = Some msg, data = None\<rparr>"

definition ok_response :: "string option \<Rightarrow> json option \<Rightarrow> response" where
  "ok_response msg d = \<lparr>status = 200, success = True, message = msg, error = None, data = d\<rparr>"

definition truthy_str :: "string option \<Rightarrow> bool" where
  "truthy_str x = (x \<noteq> None \<and> x \<noteq> Some [])"

text \<open>\<open>req.ip || req.connection.remoteAddress || dflt\<close>.\<close>

definition clientIP :: "request \<Rightarrow> string \<Rightarrow> string" where
  "clientIP req dflt =
     (if truthy_str (ip req) then the (ip req)
      else if truthy_str (remoteAddress req) then the (remoteAddress req) else dflt)"

subsection \<open>Request schemas (\<open>shared/types.ts\<close>)\<close>

text \<open>
  Strings are sequences of 8-bit characters. \<open>\s\<close> is then the blank, the five
  control characters HT, LF, VT, FF, CR and the no-break space.
\<close>

definition is_lower :: "char \<Rightarrow> bool" where
  "is_lower c = (c \<in> set ''abcdefghijklmnopqrstuvwxyz'')"

definition is_upper :: "char \<Rightarrow> bool" where
  "is_upper c = (c \<in> set ''ABCDEFGHIJKLMNOPQRSTUVWXYZ'')"

definition is_letter :: "char \<Rightarrow> bool" where
  "is_letter c = (is_lower c \<or> is_upper c)"

definition is_space :: "char \<Rightarrow> bool" where
  "is_space c = ((of_char c :: nat) \<in> {9, 10, 11, 12, 13, 32, 160})"

text \<open>The character classes of the patterns.\<close>

definition name_char :: "char \<Rightarrow> bool" where
  "name_char c = (is_letter c \<or> is_space c \<or> c = CHR ''-'' \<or> c = CHR ''.'')"

definition account_char :: "char \<Rightarrow> bool" where
  "account_char c = (is_upper c \<or> is_digit c \<or> c = CHR ''-'')"

definition account_char_i :: "char \<Rightarrow> bool" where
  "account_char_i c = (is_letter c \<or> is_digit c \<or> c = CHR ''-'')"

definition country_char :: "char \<Rightarrow> bool" where
  "country_char c = (is_letter c \<or> is_space c)"

definition purpose_char :: "char \<Rightarrow> bool" where
  "purpose_char c =
     (is_letter c \<or> is_digit c \<or> is_space c \<or> c = CHR ''-'' \<or> c = CHR ''.'' \<or> c = CHR '','')"

definition password_symbol :: "char \<Rightarrow> bool" where
  "password_symbol c = (c \<in> set ''@$!%*?&'')"

definition password_char :: "char \<Rightarrow> bool" where
  "password_char c = (is_letter c \<or> is_digit c \<or> password_symbol c)"

text \<open>\<open>/^[A-Z]{6}[A-Z0-9]{2}([A-Z0-9]{3})?$/\<close>\<close>

definition swift_pattern :: "string \<Rightarrow> bool" where
  "swift_pattern s =
     ((length s = 8 \<or> length s = 11) \<and> list_all is_upper (take 6 s)
      \<and> list_all (\<lambda>c. is_upper c \<or> is_digit c) (drop 6 s))"

text \<open>\<open>/^(?=.*[a-z])(?=.*[A-Z])(?=.*\d)(?=.*[@$!%*?&])[A-Za-z\d@$!%*?&]+$/\<close>\<close>

definition password_pattern :: "string \<Rightarrow> bool" where
  "password_pattern s =
     (s \<noteq> [] \<and> list_all password_char s \<and> list_ex is_lower s \<and> list_ex is_upper s
      \<and> list_ex is_digit s \<and> list_ex password_symbol s)"

text \<open>
  zod: a value of the wrong type gives one issue; a value of the right type gives the
  message of every check that fails, in the order of the checks. \<open>validateRequest\<close>
  answers with the message of the first issue.
\<close>

definition zod_type_error :: "string \<Rightarrow> val option \<Rightarrow> string" where
  "zod_type_error expected v =
     (case v of
        None \<Rightarrow> ''Required''
      | Some VNull \<Rightarrow> ''Expected '' @ expected @ '', received null''
      | Some (VBool b) \<Rightarrow> ''Expected '' @ expected @ '', received boolean''
      | Some (VNum n) \<Rightarrow> ''Expected '' @ expected @ '', received number''
      | Some (VStr s) \<Rightarrow> ''Expected '' @ expected @ '', received string''
      | Some (VDate t) \<Rightarrow> ''Expected '' @ expected @ '', received date''
      | Some (VOid h) \<Rightarrow> ''Expected '' @ expected @ '', received object'')"

definition zod_string :: "val option \<Rightarrow> ((string \<Rightarrow> bool) \<times> string) list \<Rightarrow> string list" where
  "zod_string v checks =
     (case v of
        Some (VStr s) \<Rightarrow> map snd (filter (\<lambda>(ok, msg). \<not> ok s) checks)
      | _ \<Rightarrow> [zod_type_error ''string'' v])"

definition zod_number :: "val option \<Rightarrow> ((rat \<Rightarrow> bool) \<times> string) list \<Rightarrow> string list" where
  "zod_number v checks =
     (case v of
        Some (VNum n) \<Rightarrow> map snd (filter (\<lambda>(ok, msg). \<not> ok n) checks)
      | _ \<Rightarrow> [zod_type_error ''number'' v])"

definition zod_optional :: "val option \<Rightarrow> string list \<Rightarrow> string list" where
  "zod_optional v issues = (if v = None then [] else issues)"

text \<open>The parsed object keeps the declared keys that are present, in declared order.\<close>

definition zod_strip :: "string list \<Rightarrow> doc \<Rightarrow> doc" where
  "zod_strip keys b = concat (map (\<lambda>k. case fld b k of None \<Rightarrow> [] | Some v \<Rightarrow> [(k, v)]) keys)"

definition zod_result :: "string list \<Rightarrow> doc \<Rightarrow> string + doc" where
  "zod_result issues parsed = (case issues of [] \<Rightarrow> Inr parsed | m # _ \<Rightarrow> Inl m)"

definition RegisterSchema :: "platform \<Rightarrow> doc \<Rightarrow> string + doc" where
  "RegisterSchema P b =
     zod_result
       (zod_string (fld b ''email'')
          [(zod_email P, ''Invalid email format''), (\<lambda>s. length s \<le> 254, ''Email too long'')]
        @ zod_string (fld b ''password'')
          [(\<lambda>s. 8 \<le> length s, ''Password must be at least 8 characters''),
           (password_pattern, ''Password must contain at least one uppercase letter, one lowercase letter, one number and one special character'')])
       (zod_strip [''email'', ''password''] b)"

definition LoginSchema :: "platform \<Rightarrow> doc \<Rightarrow> string + doc" where
  "LoginSchema P b =
     (let issues =
        zod_optional (fld b ''email'') (zod_string (fld b ''email'')
          [(zod_email P, ''Invalid email format''), (\<lambda>s. length s \<le> 254, ''Email too long'')])
        @ zod_optional (fld b ''account_number'') (zod_string (fld b ''account_number'')
          [(\<lambda>s. 6 \<le> length s, ''Account number must be at least 6 characters''),
           (\<lambda>s. length s \<le> 64, ''Account number too long''),
           (\<lambda>s. s \<noteq> [] \<and> list_all account_char_i s, ''Invalid account number format'')])
        @ zod_string (fld b ''password'')
          [(\<lambda>s. 8 \<le> length s, ''Password must be at least 8 characters'')]
      in zod_result
           (if issues = [] \<and> \<not> (truthy (fld b ''email'') \<or> truthy (fld b ''account_number''))
            then [''Either email or account_number is required''] else issues)
           (zod_strip [''email'', ''account_number'', ''password''] b))"

definition CreatePaymentSchema :: "doc \<Rightarrow> string + doc" where
  "CreatePaymentSchema b =
     zod_result
       (zod_string (fld b ''recipient_name'')
          [(\<lambda>s. 2 \<le> length s, ''Recipient name must be at least 2 characters''),
           (\<lambda>s. length s \<le> 100, ''Recipient name too long''),
           (\<lambda>s. s \<noteq> [] \<and> list_all name_char s, ''Recipient name can only contain letters, spaces, hyphens and dots'')]
        @ zod_string (fld b ''recipient_account'')
          [(\<lambda>s. 8 \<le> length s, ''Account number must be at least 8 characters''),
           (\<lambda>s. length s \<le> 64, ''Account number too long''),
           (\<lambda>s. s \<noteq> [] \<and> list_all account_char s, ''Invalid account number format'')]
        @ zod_string (fld b ''recipient_bank'')
          [(\<lambda>s. 2 \<le> length s, ''Bank name is required''),
           (\<lambda>s. length s \<le> 100, ''Bank name too long''),
           (\<lambda>s. s \<noteq> [] \<and> list_all name_char s, ''Bank name can only contain letters, spaces, hyphens and dots'')]
        @ zod_string (fld b ''recipient_country'')
          [(\<lambda>s. 2 \<le> length s, ''Country is required''),
           (\<lambda>s. length s \<le> 56, ''Country name too long''),
           (\<lambda>s. s \<noteq> [] \<and> list_all country_char s, ''Country can only contain letters and spaces'')]
        @ zod_string (fld b ''swift_code'')
          [(\<lambda>s. 8 \<le> length s, ''SWIFT code must be 8 or 11 characters''),
           (\<lambda>s. length s \<le> 11, ''SWIFT code must be 8 or 11 characters''),
           (swift_pattern, ''Invalid SWIFT code format'')]
        @ zod_number (fld b ''amount'')
          [(\<lambda>n. 1 \<le> n, ''Amount must be at least 1''),
           (\<lambda>n. n \<le> 50000, ''Amount cannot exceed 50,000'')]
        @ zod_string (fld b ''currency'')
          [(\<lambda>s. length s = 3, ''Currency must be a 3-letter code''),
           (\<lambda>s. length s = 3 \<and> list_all is_upper s, ''Currency must be uppercase letters'')]
        @ zod_optional (fld b ''purpose'') (zod_string (fld b ''purpose'')
          [(\<lambda>s. length s \<le> 200, ''Purpose cannot exceed 200 characters''),
           (\<lambda>s. s \<noteq> [] \<and> list_all purpose_char s, ''Purpose contains invalid characters'')]))
       (zod_strip [''recipient_name'', ''recipient_account'', ''recipient_bank'',
                   ''recipient_country'', ''swift_code'', ''amount'', ''currency'', ''purpose''] b)"

text \<open>The fields of a document literal whose value is \<open>undefined\<close> are left out.\<close>

definition opt_field :: "string \<Rightarrow> val option \<Rightarrow> doc" where
  "opt_field k v = (case v of None \<Rightarrow> [] | Some x \<Rightarrow> [(k, x)])"

subsection \<open>Authentication (fallback variant)\<close>

text \<open>\<open>authorization.startsWith('Bearer ')\<close> and \<open>authorization.split(' ')[1]\<close>.\<close>

definition has_bearer :: "string option \<Rightarrow> bool" where
  "has_bearer a = (case a of None \<Rightarrow> False | Some h \<Rightarrow> h \<noteq> [] \<and> take 7 h = ''Bearer '')"

definition bearer_token :: "string \<Rightarrow> string" where
  "bearer_token h = takeWhile (\<lambda>c. c \<noteq> CHR '' '') (drop 7 h)"

definition findUserById :: "platform \<Rightarrow> server \<Rightarrow> string \<Rightarrow> doc option" where
  "findUserById P s id' =
     (if inMemory s then findOne (users s) [(''_id'', QEq (Some (VStr id')))]
      else if ObjectId_isValid P id' then mongo_findOne (users s) [(''_id'', QEq (Some (VOid id')))]
      else mongo_findOne (users s) [(''_id'', QEq (Some (VStr id')))])"

definition session_query :: "string \<Rightarrow> int \<Rightarrow> query" where
  "session_query token now =
     [(''session_token'', QEq (Some (VStr token))),
      (''is_active'', QEq (Some (VBool True))),
      (''expires_at'', QRange (Some (Some (VDate now))) None)]"

text \<open>
  \<open>authMiddleware\<close> either answers itself (\<open>Inl\<close>) or sets \<open>req.user\<close> and calls
  \<open>next()\<close> (\<open>Inr\<close> of \<open>req.user\<close>).
\<close>

definition authMiddleware :: "platform \<Rightarrow> server \<Rightarrow> request \<Rightarrow> int \<Rightarrow> response + doc" where
  "authMiddleware P s req now =
     (if \<not> has_bearer (authorization req) then Inl (error_response 401 ''Unauthorized'')
      else
        let token = bearer_token (the (authorization req)) in
        case db_findOne (inMemory s) (user_sessions s) (session_query token now) of
          Some session \<Rightarrow>
            (case findUserById P s (js_String P (fld session ''user_id'')) of
               None \<Rightarrow> Inl (error_response 401 ''User not found'')
             | Some user \<Rightarrow>
                 let incomingIP = clientIP req [];
                     incomingUA = (if truthy_str (user_agent req) then the (user_agent req) else [])
                 in if STRICT_BINDING P \<and> truthy (fld session ''ip_address'')
                       \<and> \<not> strict_eq (fld session ''ip_address'') (Some (VStr incomingIP))
                    then Inl (error_response 401 ''Session IP mismatch'')
                    else if STRICT_BINDING P \<and> truthy (fld session ''user_agent'')
                       \<and> js_String P (fld session ''user_agent'') \<noteq> incomingUA
                    then Inl (error_response 401 ''Session User-Agent mismatch'')
                    else Inr (AList.update ''is_staff'' (VBool (truthy (fld user ''is_staff'')))
                                (spread session user)))
        | None \<Rightarrow>
            (case jwt_verify P token now of
               None \<Rightarrow> Inl (error_response 401 ''Invalid or expired session'')
             | Some sub \<Rightarrow>
                 if \<not> truthy_str sub then Inl (error_response 401 ''Invalid token payload'')
                 else case findUserById P s (the sub) of
                        None \<Rightarrow> Inl (error_response 401 ''User not found'')
                      | Some user \<Rightarrow>
                          Inr (AList.update ''is_staff'' (VBool (truthy (fld user ''is_staff''))) user)))"

subsection \<open>Registration, login and logout (fallback variant)\<close>

text \<open>
  Each handler takes the clock reading \<open>now\<close> of the request and the random draws it
  consumes. A store operation that throws is answered by the handler's \<open>catch\<close>.
\<close>

text \<open>The document \<open>newUser\<close> that \<open>register\<close> builds; the optional fields are never set.\<close>

definition newUser :: "doc \<Rightarrow> string \<Rightarrow> int \<Rightarrow> doc" where
  "newUser b passwordHash now =
     opt_field ''email'' (fld b ''email'')
     @ [(''password_hash'', VStr passwordHash),
        (''is_verified'', VBool False),
        (''is_active'', VBool True),
        (''is_staff'', VBool False),
        (''created_at'', VDate now),
        (''updated_at'', VDate now)]"

definition register ::
  "platform \<Rightarrow> server \<Rightarrow> request \<Rightarrow> int \<Rightarrow> string \<Rightarrow> string \<Rightarrow> response \<times> server" where
  "register P s req now salt newid =
     (case RegisterSchema P (body req) of
        Inl msg \<Rightarrow> (error_response 400 msg, s)
      | Inr b \<Rightarrow>
          let (allowed, m) = checkRateLimit (rateLimitMap s) now
                               (''register:'' @ clientIP req ''unknown'') 3 300000;
              s1 = s\<lparr>rateLimitMap := m\<rparr>
          in if \<not> allowed
             then (error_response 429 ''Too many registration attempts. Please try again later.'', s1)
             else
               case db_findOne (inMemory s1) (users s1) [(''email'', QEq (fld b ''email''))] of
                 Some existingUser \<Rightarrow> (error_response 400 ''Email already registered'', s1)
               | None \<Rightarrow>
                   let passwordHash = bcrypt_hash P (js_String P (fld b ''password'')) salt;
                       newUser' = newUser b passwordHash now
                   in case db_insertOne (inMemory s1) users_indexes (users s1) newUser' newid of
                        Inl e \<Rightarrow> (error_response 500 ''Registration failed'', s1)
                      | Inr (insertedId, coll) \<Rightarrow>
                          (ok_response (Some ''Registration successful'')
                             (Some (JObj [(''userId'', JVal insertedId)])),
                           s1\<lparr>users := coll\<rparr>))"

definition login ::
  "platform \<Rightarrow> server \<Rightarrow> request \<Rightarrow> int \<Rightarrow> string \<Rightarrow> string \<Rightarrow> response \<times> server" where
  "login P s req now sessionToken newid =
     (case LoginSchema P (body req) of
        Inl msg \<Rightarrow> (error_response 400 msg, s)
      | Inr b \<Rightarrow>
          let clientIP' = clientIP req ''unknown'';
              userAgent = (if truthy_str (user_agent req) then the (user_agent req) else []);
              (allowed, m) = checkRateLimit (rateLimitMap s) now (''login:'' @ clientIP') 5 900000;
              s1 = s\<lparr>rateLimitMap := m\<rparr>
          in if \<not> allowed
             then (error_response 429 ''Too many login attempts. Please try again later.'', s1)
             else
               let q = [(''is_active'', QEq (Some (VBool True)))]
                       @ (if truthy (fld b ''account_number'')
                          then [(''account_number'', QEq (fld b ''account_number''))] else [])
                       @ (if truthy (fld b ''email'') then [(''email'', QEq (fld b ''email''))] else [])
               in case db_findOne (inMemory s1) (users s1) q of
                    None \<Rightarrow> (error_response 401 ''Invalid email or password'', s1)
                  | Some user \<Rightarrow>
                      (case fld user ''password_hash'' of
                         Some (VStr h) \<Rightarrow>
                           if \<not> bcrypt_compare P (js_String P (fld b ''password'')) h
                           then (error_response 401 ''Invalid email or password'', s1)
                           else
                             (case db_insertOne (inMemory s1) user_sessions_indexes (user_sessions s1)
                                     (opt_field ''user_id'' (fld user ''_id'')
                                      @ [(''session_token'', VStr sessionToken),
                                      (''expires_at'', VDate (now + 24 * 60 * 60 * 1000)),
                                      (''ip_address'', VStr clientIP'),
                                      (''user_agent'', VStr userAgent),
                                      (''is_active'', VBool True),
                                      (''created_at'', VDate now),
                                      (''updated_at'', VDate now)]) newid of
                                Inl e \<Rightarrow> (error_response 500 ''Login failed'', s1)
                              | Inr (insertedId, coll) \<Rightarrow>
                                  (ok_response (Some ''Login successful'')
                                     (Some (JObj
                                        [(''token'', JVal (VStr sessionToken)),
                                         (''jwt'', JVal (VStr (jwt_sign P (js_String P (fld user ''_id'')) now))),
                                         (''user'', JObj
                                            [(''id'', JVal (VStr (js_String P (fld user ''_id'')))),
                                             (''email'', JVal (or_null (fld user ''email''))),
                                             (''account_number'', JVal (or_null (fld user ''account_number''))),
                                             (''username'', JVal (or_null (fld user ''username''))),
                                             (''full_name'', JVal (or_null (fld user ''full_name''))),
                                             (''is_verified'', JVal (VBool (truthy (fld user ''is_verified'')))),
                                             (''is_staff'', JVal (VBool (truthy (fld user ''is_staff''))))])])),
                                   s1\<lparr>user_sessions := coll\<rparr>))
                       | _ \<Rightarrow> (error_response 500 ''Login failed'', s1)))"

definition logout :: "platform \<Rightarrow> server \<Rightarrow> request \<Rightarrow> int \<Rightarrow> response \<times> server" where
  "logout P s req now =
     (case authMiddleware P s req now of
        Inl r \<Rightarrow> (r, s)
      | Inr user \<Rightarrow>
          let (n, coll) = db_updateOne (inMemory s) (user_sessions s)
                            [(''session_token'', QEq (fld user ''session_token''))]
                            [(''is_active'', VBool False), (''updated_at'', VDate now)]
          in (ok_response (Some ''Logged out successfully'') None, s\<lparr>user_sessions := coll\<rparr>))"

subsection \<open>Payments (fallback variant)\<close>

text \<open>The whitelist patterns of the handler, each with a lower bound on the length.\<close>

definition whitelist_name :: "string \<Rightarrow> bool" where
  "whitelist_name s = (2 \<le> length s \<and> list_all name_char s)"

definition whitelist_account :: "string \<Rightarrow> bool" where
  "whitelist_account s = (8 \<le> length s \<and> list_all account_char_i s)"

definition whitelist_country :: "string \<Rightarrow> bool" where
  "whitelist_country s = (2 \<le> length s \<and> list_all country_char s)"

definition whitelist_error :: "platform \<Rightarrow> doc \<Rightarrow> string option" where
  "whitelist_error P paymentData =
     (if \<not> whitelist_name (js_String P (fld paymentData ''recipient_name''))
      then Some ''Invalid recipient name''
      else if \<not> whitelist_account (js_String P (fld paymentData ''recipient_account''))
      then Some ''Invalid recipient account format''
      else if \<not> whitelist_name (js_String P (fld paymentData ''recipient_bank''))
      then Some ''Invalid recipient bank name''
      else if \<not> whitelist_country (js_String P (fld paymentData ''recipient_country''))
      then Some ''Invalid recipient country''
      else None)"

text \<open>\<open>paymentData.amount * 0.02\<close>; the schema has made the amount a number.\<close>

definition transactionFee :: "doc \<Rightarrow> rat" where
  "transactionFee paymentData =
     (case fld paymentData ''amount'' of Some (VNum a) \<Rightarrow> js_mul a lit_0_02 | _ \<Rightarrow> 0)"

text \<open>The document that \<open>createPayment\<close> inserts.\<close>

definition transaction_doc :: "doc \<Rightarrow> doc \<Rightarrow> string \<Rightarrow> rat \<Rightarrow> int \<Rightarrow> doc" where
  "transaction_doc user paymentData referenceNumber fee now =
     (opt_field ''user_id'' (fld user ''_id'')
     @ [(''user_account'', or_null (fld user ''account_number'')),
        (''swift_code'', or_null (fld paymentData ''swift_code''))]
     @ opt_field ''recipient_name'' (fld paymentData ''recipient_name'')
     @ opt_field ''recipient_account'' (fld paymentData ''recipient_account'')
     @ opt_field ''recipient_bank'' (fld paymentData ''recipient_bank'')
     @ opt_field ''recipient_country'' (fld paymentData ''recipient_country'')
     @ opt_field ''amount'' (fld paymentData ''amount'')
     @ opt_field ''currency'' (fld paymentData ''currency'')
     @ [(''exchange_rate'', VNull),
        (''converted_amount'', VNull),
        (''purpose'', or_null (fld paymentData ''purpose'')),
        (''reference_number'', VStr referenceNumber),
        (''status'', VStr ''pending''),
        (''transaction_fee'', VNum fee),
        (''is_processed'', VBool False),
        (''processed_at'', VNull),
        (''created_at'', VDate now),
        (''updated_at'', VDate now)])"

definition payment_response :: "val \<Rightarrow> string \<Rightarrow> rat \<Rightarrow> response" where
  "payment_response insertedId referenceNumber fee =
     ok_response (Some ''Payment initiated successfully'')
       (Some (JObj [(''transactionId'', JVal insertedId),
                    (''referenceNumber'', JVal (VStr referenceNumber)),
                    (''transactionFee'', JVal (VNum fee)),
                    (''status'', JVal (VStr ''pending''))]))"

definition createPayment ::
  "platform \<Rightarrow> server \<Rightarrow> request \<Rightarrow> int \<Rightarrow> nat list \<Rightarrow> string \<Rightarrow> response \<times> server" where
  "createPayment P s req now draw newid =
     (case authMiddleware P s req now of
        Inl r \<Rightarrow> (r, s)
      | Inr user \<Rightarrow>
          (case CreatePaymentSchema (body req) of
             Inl msg \<Rightarrow> (error_response 400 msg, s)
           | Inr paymentData \<Rightarrow>
               let (allowed, m) = checkRateLimit (rateLimitMap s) now
                                    (''payments:'' @ clientIP req ''unknown'') 10 3600000;
                   s1 = s\<lparr>rateLimitMap := m\<rparr>
               in if \<not> allowed
                  then (error_response 429 ''Payment limit exceeded. Please try again later.'', s1)
                  else
                    case whitelist_error P paymentData of
                      Some msg \<Rightarrow> (error_response 400 msg, s1)
                    | None \<Rightarrow>
                        let referenceNumber = generateReferenceNumber now draw;
                            fee = transactionFee paymentData
                        in case db_insertOne (inMemory s1) payment_transactions_indexes
                                  (payment_transactions s1)
                                  (transaction_doc user paymentData referenceNumber fee now) newid of
                             Inl e \<Rightarrow> (error_response 500 ''Payment initiation failed'', s1)
                           | Inr (insertedId, coll) \<Rightarrow>
                               (payment_response insertedId referenceNumber fee,
                                s1\<lparr>payment_transactions := coll\<rparr>)))"

text \<open>\<open>GET /api/payments/history\<close>\<close>

definition history :: "platform \<Rightarrow> server \<Rightarrow> request \<Rightarrow> int \<Rightarrow> response" where
  "history P s req now =
     (case authMiddleware P s req now of
        Inl r \<Rightarrow> r
      | Inr user \<Rightarrow>
          ok_response None
            (Some (JArr (map json_doc
               (db_find_sort_limit (inMemory s) (payment_transactions s)
                  [(''user_id'', QEq (fld user ''_id''))] 50)))))"

text \<open>\<open>GET /api/payments/:id\<close>\<close>

definition getPayment :: "platform \<Rightarrow> server \<Rightarrow> request \<Rightarrow> int \<Rightarrow> response" where
  "getPayment P s req now =
     (case authMiddleware P s req now of
        Inl r \<Rightarrow> r
      | Inr user \<Rightarrow>
          let transactionId = params_id req in
          if inMemory s
          then (case findOne (payment_transactions s)
                       [(''_id'', QEq (Some (VStr transactionId))), (''user_id'', QEq (fld user ''_id''))] of
                  None \<Rightarrow> error_response 404 ''Transaction not found''
                | Some transaction \<Rightarrow> ok_response None (Some (json_doc transaction)))
          else if \<not> ObjectId_isValid P transactionId
          then error_response 400 ''Invalid transaction ID''
          else (case mongo_findOne (payment_transactions s)
                       [(''_id'', QEq (Some (VOid transactionId))), (''user_id'', QEq (fld user ''_id''))] of
                  None \<Rightarrow> error_response 404 ''Transaction not found''
                | Some transaction \<Rightarrow> ok_response None (Some (json_doc transaction))))"

subsection \<open>Staff endpoints (fallback variant)\<close>

text \<open>\<open>a || b || ''\<close> on two optional strings of documents.\<close>

definition first_truthy :: "val option \<Rightarrow> val option \<Rightarrow> val" where
  "first_truthy a b = (if truthy a then the a else if truthy b then the b else VStr [])"

definition adminTransactions :: "platform \<Rightarrow> server \<Rightarrow> request \<Rightarrow> int \<Rightarrow> response" where
  "adminTransactions P s req now =
     (case authMiddleware P s req now of
        Inl r \<Rightarrow> r
      | Inr user \<Rightarrow>
          if \<not> truthy (fld user ''is_staff'') then error_response 403 ''Forbidden''
          else
            let flt = (if truthy (query_status req) then [(''status'', QEq (query_status req))] else [])
            in if inMemory s
               then ok_response None (Some (JArr (map
                      (\<lambda>t. let submitter = findOne (users s) [(''_id'', QEq (fld t ''user_id''))]
                           in json_doc
                                (AList.update ''user_name''
                                   (first_truthy (case submitter of None \<Rightarrow> None | Some u \<Rightarrow> fld u ''full_name'')
                                      (fld t ''user_name''))
                                   (AList.update ''user_email''
                                      (first_truthy (case submitter of None \<Rightarrow> None | Some u \<Rightarrow> fld u ''email'')
                                         (fld t ''user_email''))
                                      t)))
                      (find_toArray (payment_transactions s) flt))))
               else ok_response None (Some (JArr (map
                      (\<lambda>t. let submitter = mongo_findOne (users s) [(''_id'', QEq (fld t ''user_id''))]
                           in json_doc
                                (AList.update ''user_name''
                                   (case (case submitter of None \<Rightarrow> None | Some u \<Rightarrow> fld u ''full_name'') of
                                      None \<Rightarrow> VStr [] | Some VNull \<Rightarrow> VStr [] | Some v \<Rightarrow> v)
                                   (AList.update ''user_email''
                                      (case (case submitter of None \<Rightarrow> None | Some u \<Rightarrow> fld u ''email'') of
                                         None \<Rightarrow> VStr [] | Some VNull \<Rightarrow> VStr [] | Some v \<Rightarrow> v)
                                      t)))
                      (mongo_find_sort_limit (payment_transactions s) flt 200)))))"

definition verify_set :: "int \<Rightarrow> doc" where
  "verify_set now =
     [(''is_processed'', VBool True), (''status'', VStr ''completed''),
      (''processed_at'', VDate now), (''updated_at'', VDate now)]"

text \<open>
  \<open>POST /api/admin/transactions/:id/verify\<close>. On the durable store \<open>new ObjectId(id)\<close>
  throws on an id that is not valid, which the handler's \<open>catch\<close> answers.
\<close>

definition verifyTransaction ::
  "platform \<Rightarrow> server \<Rightarrow> request \<Rightarrow> int \<Rightarrow> response \<times> server" where
  "verifyTransaction P s req now =
     (case authMiddleware P s req now of
        Inl r \<Rightarrow> (r, s)
      | Inr user \<Rightarrow>
          if \<not> truthy (fld user ''is_staff'') then (error_response 403 ''Forbidden'', s)
          else if \<not> inMemory s \<and> \<not> ObjectId_isValid P (params_id req)
          then (error_response 500 ''Failed to verify transaction'', s)
          else
            let (value, coll) =
                  (if inMemory s
                   then findOneAndUpdate (payment_transactions s)
                          [(''_id'', QEq (Some (VStr (params_id req))))] (verify_set now)
                   else mongo_findOneAndUpdate (payment_transactions s)
                          [(''_id'', QEq (Some (VOid (params_id req))))] (verify_set now))
            in case value of
                 None \<Rightarrow> (error_response 404 ''Transaction not found'', s\<lparr>payment_transactions := coll\<rparr>)
               | Some v \<Rightarrow> (ok_response None (Some (json_doc v)), s\<lparr>payment_transactions := coll\<rparr>))"

subsection \<open>The base variant (\<open>src/server/index.ts\<close>)\<close>

text \<open>
  The base server talks to the durable store only. It has no signed-token path and does
  not coerce \<open>is_staff\<close>; its rate-limit keys are the bare client address; \<open>register\<close>
  stores no \<open>is_staff\<close> and \<open>createPayment\<close> stores no \<open>swift_code\<close>.
\<close>

definition authMiddleware_base :: "server \<Rightarrow> request \<Rightarrow> int \<Rightarrow> response + doc" where
  "authMiddleware_base s req now =
     (if \<not> has_bearer (authorization req) then Inl (error_response 401 ''Unauthorized'')
      else
        let token = bearer_token (the (authorization req)) in
        case mongo_findOne (user_sessions s) (session_query token now) of
          None \<Rightarrow> Inl (error_response 401 ''Invalid or expired session'')
        | Some session \<Rightarrow>
            (case mongo_findOne (users s) [(''_id'', QEq (fld session ''user_id''))] of
               None \<Rightarrow> Inl (error_response 401 ''User not found'')
             | Some user \<Rightarrow> Inr (spread session user)))"

text \<open>The document \<open>newUser\<close> of the base variant.\<close>

definition newUser_base :: "doc \<Rightarrow> string \<Rightarrow> int \<Rightarrow> doc" where
  "newUser_base b passwordHash now =
     opt_field ''email'' (fld b ''email'')
     @ [(''password_hash'', VStr passwordHash),
        (''is_verified'', VBool False),
        (''is_active'', VBool True),
        (''created_at'', VDate now),
        (''updated_at'', VDate now)]"

definition register_base ::
  "platform \<Rightarrow> server \<Rightarrow> request \<Rightarrow> int \<Rightarrow> string \<Rightarrow> string \<Rightarrow> response \<times> server" where
  "register_base P s req now salt newid =
     (case RegisterSchema P (body req) of
        Inl msg \<Rightarrow> (error_response 400 msg, s)
      | Inr b \<Rightarrow>
          let (allowed, m) = checkRateLimit (rateLimitMap s) now (clientIP req ''unknown'') 3 300000;
              s1 = s\<lparr>rateLimitMap := m\<rparr>
          in if \<not> allowed
             then (error_response 429 ''Too many registration attempts. Please try again later.'', s1)
             else
               case mongo_findOne (users s1) [(''email'', QEq (fld b ''email''))] of
                 Some existingUser \<Rightarrow> (error_response 400 ''Email already registered'', s1)
               | None \<Rightarrow>
                   let passwordHash = bcrypt_hash P (js_String P (fld b ''password'')) salt;
                       newUser' = newUser_base b passwordHash now
                   in case mongo_insertOne users_indexes (users s1) newUser' newid of
                        Inl e \<Rightarrow> (error_response 500 ''Registration failed'', s1)
                      | Inr (insertedId, coll) \<Rightarrow>
                          (ok_response (Some ''Registration successful'')
                             (Some (JObj [(''userId'', JVal insertedId)])),
                           s1\<lparr>users := coll\<rparr>))"

text \<open>The document that \<open>createPayment\<close> of the base variant inserts.\<close>

definition transaction_doc_base :: "doc \<Rightarrow> doc \<Rightarrow> string \<Rightarrow> rat \<Rightarrow> int \<Rightarrow> doc" where
  "transaction_doc_base user paymentData referenceNumber fee now =
     (opt_field ''user_id'' (fld user ''_id'')
     @ [(''user_account'', or_null (fld user ''account_number''))]
     @ opt_field ''recipient_name'' (fld paymentData ''recipient_name'')
     @ opt_field ''recipient_account'' (fld paymentData ''recipient_account'')
     @ opt_field ''recipient_bank'' (fld paymentData ''recipient_bank'')
     @ opt_field ''recipient_country'' (fld paymentData ''recipient_country'')
     @ opt_field ''amount'' (fld paymentData ''amount'')
     @ opt_field ''currency'' (fld paymentData ''currency'')
     @ [(''exchange_rate'', VNull),
        (''converted_amount'', VNull),
        (''purpose'', or_null (fld paymentData ''purpose'')),
        (''reference_number'', VStr referenceNumber),
        (''status'', VStr ''pending''),
        (''transaction_fee'', VNum fee),
        (''is_processed'', VBool False),
        (''processed_at'', VNull),
        (''created_at'', VDate now),
        (''updated_at'', VDate now)])"

definition createPayment_base ::
  "platform \<Rightarrow> server \<Rightarrow> request \<Rightarrow> int \<Rightarrow> nat list \<Rightarrow> string \<Rightarrow> response \<times> server" where
  "createPayment_base P s req now draw newid =
     (case authMiddleware_base s req now of
        Inl r \<Rightarrow> (r, s)
      | Inr user \<Rightarrow>
          (case CreatePaymentSchema (body req) of
             Inl msg \<Rightarrow> (error_response 400 msg, s)
           | Inr paymentData \<Rightarrow>
               let (allowed, m) = checkRateLimit (rateLimitMap s) now
                                    (clientIP req ''unknown'') 10 3600000;
                   s1 = s\<lparr>rateLimitMap := m\<rparr>
               in if \<not> allowed
                  then (error_response 429 ''Payment limit exceeded. Please try again later.'', s1)
                  else
                    case whitelist_error P paymentData of
                      Some msg \<Rightarrow> (error_response 400 msg, s1)
                    | None \<Rightarrow>
                        let referenceNumber = generateReferenceNumber now draw;
                            fee = transactionFee paymentData
                        in case mongo_insertOne payment_transactions_indexes
                                  (payment_transactions s1)
                                  (transaction_doc_base user paymentData referenceNumber fee now) newid of
                             Inl e \<Rightarrow> (error_response 500 ''Payment initiation failed'', s1)
                           | Inr (insertedId, coll) \<Rightarrow>
                               (payment_response insertedId referenceNumber fee,
                                s1\<lparr>payment_transactions := coll\<rparr>)))"

definition getPayment_base :: "platform \<Rightarrow> server \<Rightarrow> request \<Rightarrow> int \<Rightarrow> response" where
  "getPayment_base P s req now =
     (case authMiddleware_base s req now of
        Inl r \<Rightarrow> r
      | Inr user \<Rightarrow>
          if \<not> ObjectId_isValid P (params_id req)
          then error_response 400 ''Invalid transaction ID''
          else (case mongo_findOne (payment_transactions s)
                       [(''_id'', QEq (Some (VOid (params_id req)))), (''user_id'', QEq (fld user ''_id''))] of
                  None \<Rightarrow> error_response 404 ''Transaction not found''
                | Some transaction \<Rightarrow> ok_response None (Some (json_doc transaction))))"

definition adminTransactions_base :: "server \<Rightarrow> request \<Rightarrow> int \<Rightarrow> response" where
  "adminTransactions_base s req now =
     (case authMiddleware_base s req now of
        Inl r \<Rightarrow> r
      | Inr user \<Rightarrow>
          if \<not> truthy (fld user ''is_staff'') then error_response 403 ''Forbidden''
          else
            let flt = (if truthy (query_status req) then [(''status'', QEq (query_status req))] else [])
            in ok_response None (Some (JArr (map json_doc
                 (mongo_find_sort_limit (payment_transactions s) flt 200)))))"

definition verifyTransaction_base ::
  "platform \<Rightarrow> server \<Rightarrow> request \<Rightarrow> int \<Rightarrow> response \<times> server" where
  "verifyTransaction_base P s req now =
     (case authMiddleware_base s req now of
        Inl r \<Rightarrow> (r, s)
      | Inr user \<Rightarrow>
          if \<not> truthy (fld user ''is_staff'') then (error_response 403 ''Forbidden'', s)
          else if \<not> ObjectId_isValid P (params_id req)
          then (error_response 500 ''Failed to verify transaction'', s)
          else
            let (value, coll) = mongo_findOneAndUpdate (payment_transactions s)
                                  [(''_id'', QEq (Some (VOid (params_id req))))] (verify_set now)
            in case value of
                 None \<Rightarrow> (error_response 404 ''Transaction not found'', s\<lparr>payment_transactions := coll\<rparr>)
               | Some v \<Rightarrow> (ok_response None (Some (json_doc v)), s\<lparr>payment_transactions := coll\<rparr>))"

text \<open>The session record that \<open>login\<close> of the base variant inserts.\<close>

definition newSession :: "doc \<Rightarrow> string \<Rightarrow> string \<Rightarrow> string \<Rightarrow> int \<Rightarrow> doc" where
  "newSession user sessionToken clientIP' userAgent now =
     opt_field ''user_id'' (fld user ''_id'')
     @ [(''session_token'', VStr sessionToken),
        (''expires_at'', VDate (now + 24 * 60 * 60 * 1000)),
        (''ip_address'', VStr clientIP'),
        (''user_agent'', VStr userAgent),
        (''is_active'', VBool True),
        (''created_at'', VDate now),
        (''updated_at'', VDate now)]"

text \<open>
  \<open>POST /api/auth/login\<close> of the base variant: no signed token is issued, and the
  user in the answer has no \<open>is_staff\<close>.
\<close>

definition login_base ::
  "platform \<Rightarrow> server \<Rightarrow> request \<Rightarrow> int \<Rightarrow> string \<Rightarrow> string \<Rightarrow> response \<times> server" where
  "login_base P s req now sessionToken newid =
     (case LoginSchema P (body req) of
        Inl msg \<Rightarrow> (error_response 400 msg, s)
      | Inr b \<Rightarrow>
          let clientIP' = clientIP req ''unknown'';
              userAgent = (if truthy_str (user_agent req) then the (user_agent req) else []);
              (allowed, m) = checkRateLimit (rateLimitMap s) now clientIP' 5 900000;
              s1 = s\<lparr>rateLimitMap := m\<rparr>
          in if \<not> allowed
             then (error_response 429 ''Too many login attempts. Please try again later.'', s1)
             else
               let q = [(''is_active'', QEq (Some (VBool True)))]
                       @ (if truthy (fld b ''account_number'')
                          then [(''account_number'', QEq (fld b ''account_number''))] else [])
                       @ (if truthy (fld b ''email'') then [(''email'', QEq (fld b ''email''))] else [])
               in case mongo_findOne (users s1) q of
                    None \<Rightarrow> (error_response 401 ''Invalid email or password'', s1)
                  | Some user \<Rightarrow>
                      (case fld user ''password_hash'' of
                         Some (VStr h) \<Rightarrow>
                           if \<not> bcrypt_compare P (js_String P (fld b ''password'')) h
                           then (error_response 401 ''Invalid email or password'', s1)
                           else
                             (case mongo_insertOne user_sessions_indexes (user_sessions s1)
                                     (newSession user sessionToken clientIP' userAgent now) newid of
                                Inl e \<Rightarrow> (error_response 500 ''Login failed'', s1)
                              | Inr (insertedId, coll) \<Rightarrow>
                                  (ok_response (Some ''Login successful'')
                                     (Some (JObj
                                        [(''token'', JVal (VStr sessionToken)),
                                         (''user'', JObj
                                            [(''id'', JVal (VStr (js_String P (fld user ''_id'')))),
                                             (''email'', JVal (or_null (fld user ''email''))),
                                             (''account_number'', JVal (or_null (fld user ''account_number''))),
                                             (''username'', JVal (or_null (fld user ''username''))),
                                             (''full_name'', JVal (or_null (fld user ''full_name''))),
                                             (''is_verified'', JVal (VBool (truthy (fld user ''is_verified''))))])])),
                                   s1\<lparr>user_sessions := coll\<rparr>))
                       | _ \<Rightarrow> (error_response 500 ''Login failed'', s1)))"

text \<open>\<open>POST /api/auth/logout\<close> of the base variant.\<close>

definition logout_base :: "server \<Rightarrow> request \<Rightarrow> int \<Rightarrow> response \<times> server" where
  "logout_base s req now =
     (case authMiddleware_base s req now of
        Inl r \<Rightarrow> (r, s)
      | Inr user \<Rightarrow>
          let (n, coll) = mongo_updateOne (user_sessions s)
                            [(''session_token'', QEq (fld user ''session_token''))]
                            [(''is_active'', VBool False), (''updated_at'', VDate now)]
          in (ok_response (Some ''Logged out successfully'') None, s\<lparr>user_sessions := coll\<rparr>))"

subsection \<open>Sequences of requests\<close>

text \<open>
  The requests that change the state of a server, each with the clock reading and the
  random draws of its handler, and the state after a sequence of them. The other
  endpoints (profile, history, payment by id, the staff listing, health) only read.
\<close>

datatype call =
    Register request int string string
  | Login request int string string
  | Logout request int
  | CreatePayment request int "nat list" string
  | VerifyTransaction request int

fun serve :: "platform \<Rightarrow> server \<Rightarrow> call \<Rightarrow> server" where
  "serve P s (Register req now salt newid) = snd (register P s req now salt newid)"
| "serve P s (Login req now sessionToken newid) = snd (login P s req now sessionToken newid)"
| "serve P s (Logout req now) = snd (logout P s req now)"
| "serve P s (CreatePayment req now draw newid) = snd (createPayment P s req now draw newid)"
| "serve P s (VerifyTransaction req now) = snd (verifyTransaction P s req now)"

fun serve_base :: "platform \<Rightarrow> server \<Rightarrow> call \<Rightarrow> server" where
  "serve_base P s (Register req now salt newid) = snd (register_base P s req now salt newid)"
| "serve_base P s (Login req now sessionToken newid) = snd (login_base P s req now sessionToken newid)"
| "serve_base P s (Logout req now) = snd (logout_base s req now)"
| "serve_base P s (CreatePayment req now draw newid) = snd (createPayment_base P s req now draw newid)"
| "serve_base P s (VerifyTransaction req now) = snd (verifyTransaction_base P s req now)"

definition run :: "platform \<Rightarrow> server \<Rightarrow> call list \<Rightarrow> server" where
  "run P s cs = foldl (serve P) s cs"

definition run_base :: "platform \<Rightarrow> server \<Rightarrow> call list \<Rightarrow> server" where
  "run_base P s cs = foldl (serve_base P) s cs"

subsection \<open>Uniqueness of indexed fields\<close>

text \<open>
  A field is unique in a collection when no two documents that the index holds have
  the same key.
\<close>

definition unique_on :: "index \<Rightarrow> doc list \<Rightarrow> bool" where
  "unique_on ix coll = distinct (List.map_filter (index_key ix) coll)"

text \<open>A sequence of inserts into the durable store; a rejected insert stores nothing.\<close>

fun run_inserts :: "index list \<Rightarrow> doc list \<Rightarrow> (doc \<times> string) list \<Rightarrow> doc list" where
  "run_inserts ixs coll [] = coll"
| "run_inserts ixs coll ((d, oid) # rest) =
     (case mongo_insertOne ixs coll d oid of
        Inl e \<Rightarrow> run_inserts ixs coll rest
      | Inr (insertedId, coll') \<Rightarrow> run_inserts ixs coll' rest)"

subsection \<open>Sample data\<close>

text \<open>
  The end-to-end scenario of the specification: the user \<open>a@x.com\<close>, logged in from
  203.0.113.4, and the payment of 1500 USD to JOHN SMITH. The sample platform accepts the
  signed token \<open>jwt-u1\<close> for one hour.
\<close>

definition sample_platform :: platform where
  "sample_platform =
     \<lparr>STRICT_BINDING = True,
      jwt_verify = (\<lambda>token now. if token = ''jwt-u1'' \<and> now < 1700003600000 then Some (Some ''u1'') else None),
      jwt_sign = (\<lambda>sub now. ''jwt-'' @ sub),
      bcrypt_hash = (\<lambda>password salt. salt @ password),
      bcrypt_compare = (\<lambda>password h. drop 4 h = password),
      ObjectId_isValid = (\<lambda>s. length s = 24),
      String_other = (\<lambda>v. ''null''),
      zod_email = (\<lambda>s. CHR ''@'' \<in> set s)\<rparr>"

definition sample_user :: "val \<Rightarrow> doc" where
  "sample_user uid =
     [(''email'', VStr ''a@x.com''), (''password_hash'', VStr ''saltAbc12345!''),
      (''is_verified'', VBool False), (''is_active'', VBool True), (''is_staff'', VBool False),
      (''created_at'', VDate 1700000000000), (''updated_at'', VDate 1700000000000),
      (''_id'', uid)]"

definition sample_session :: "val \<Rightarrow> val \<Rightarrow> doc" where
  "sample_session uid sid =
     [(''user_id'', uid), (''session_token'', VStr ''5e55''),
      (''expires_at'', VDate 1700086400000), (''ip_address'', VStr ''203.0.113.4''),
      (''user_agent'', VStr ''curl''), (''is_active'', VBool True),
      (''created_at'', VDate 1700000000000), (''updated_at'', VDate 1700000000000),
      (''_id'', sid)]"

definition sample_server :: "bool \<Rightarrow> server" where
  "sample_server mem =
     \<lparr>inMemory = mem,
      users = [sample_user (if mem then VStr ''u1'' else VOid ''65a000000000000000000001'')],
      user_sessions = [sample_session (if mem then VStr ''u1'' else VOid ''65a000000000000000000001'')
                         (if mem then VStr ''s1'' else VOid ''65a000000000000000000002'')],
      payment_transactions = [],
      rateLimitMap = Map.empty\<rparr>"

definition sample_payment :: request where
  "sample_payment =
     \<lparr>authorization = Some ''Bearer 5e55'', ip = Some ''203.0.113.4'', remoteAddress = None,
      user_agent = Some ''curl'',
      body = [(''recipient_name'', VStr ''JOHN SMITH''), (''recipient_account'', VStr ''GB82WEST123''),
              (''recipient_bank'', VStr ''HSBC Bank''), (''recipient_country'', VStr ''United Kingdom''),
              (''swift_code'', VStr ''NWBKGB2L''), (''amount'', VNum 1500), (''currency'', VStr ''USD'')],
      params_id = [], query_status = None\<rparr>"

definition sample_transaction :: "val \<Rightarrow> val \<Rightarrow> int \<Rightarrow> doc" where
  "sample_transaction owner tid t =
     [(''user_id'', owner), (''amount'', VNum 1500), (''currency'', VStr ''USD''),
      (''status'', VStr ''pending''), (''is_processed'', VBool False), (''processed_at'', VNull),
      (''created_at'', VDate t), (''updated_at'', VDate t), (''_id'', tid)]"

text \<open>The staff account that \<open>connectToDatabase\<close> seeds into the in-memory store.\<close>

definition sample_staff :: doc where
  "sample_staff =
     [(''email'', VStr ''test12345@gmail.com''), (''password_hash'', VStr ''saltP@ssw0rd!''),
      (''full_name'', VStr ''Demo Staff''), (''is_verified'', VBool True), (''is_active'', VBool True),
      (''is_staff'', VBool True), (''created_at'', VDate 1700000000000),
      (''updated_at'', VDate 1700000000000), (''_id'', VStr ''u0'')]"

definition sample_staff_session :: doc where
  "sample_staff_session =
     [(''user_id'', VStr ''u0''), (''session_token'', VStr ''57aff''),
      (''expires_at'', VDate 1700086400000), (''ip_address'', VStr ''198.51.100.7''),
      (''user_agent'', VStr ''curl''), (''is_active'', VBool True),
      (''created_at'', VDate 1700000000000), (''updated_at'', VDate 1700000000000),
      (''_id'', VStr ''s0'')]"

definition sample_staff_server :: server where
  "sample_staff_server =
     \<lparr>inMemory = True,
      users = [sample_staff, sample_user (VStr ''u1'')],
      user_sessions = [sample_staff_session, sample_session (VStr ''u1'') (VStr ''s1'')],
      payment_transactions = [sample_transaction (VStr ''u1'') (VStr ''tx9'') 1700000000500],
      rateLimitMap = Map.empty\<rparr>"

definition sample_verify :: request where
  "sample_verify =
     \<lparr>authorization = Some ''Bearer 57aff'', ip = Some ''198.51.100.7'', remoteAddress = None,
      user_agent = Some ''curl'', body = [], params_id = ''tx9'', query_status = None\<rparr>"

definition sample_register :: request where
  "sample_register =
     \<lparr>authorization = None, ip = Some ''203.0.113.4'', remoteAddress = None,
      user_agent = Some ''curl'',
      body = [(''email'', VStr ''b@x.com''), (''password'', VStr ''Abc12345!'')],
      params_id = [], query_status = None\<rparr>"

text \<open>The same payment with the amount 35.\<close>

definition sample_payment_35 :: request where
  "sample_payment_35 =
     sample_payment\<lparr>body :=
       [(''recipient_name'', VStr ''JOHN SMITH''), (''recipient_account'', VStr ''GB82WEST123''),
        (''recipient_bank'', VStr ''HSBC Bank''), (''recipient_country'', VStr ''United Kingdom''),
        (''swift_code'', VStr ''NWBKGB2L''), (''amount'', VNum 35), (''currency'', VStr ''USD'')]\<rparr>"

text \<open>
  The registration of \<open>b@x.com\<close> on the sample servers, the login of that user
  with the same password, and a request to a staff endpoint with the session token of
  that login.
\<close>

definition sample_registered :: server where
  "sample_registered =
     snd (register sample_platform (sample_server True) sample_register 1700000123456 ''salt'' ''u2'')"

definition sample_registered_base :: server where
  "sample_registered_base =
     snd (register_base sample_platform (sample_server False) sample_register 1700000123456 ''salt''
            ''65a000000000000000000005'')"

definition sample_logged_in :: server where
  "sample_logged_in =
     run sample_platform sample_registered [Login sample_register 1700000200000 ''70ken'' ''s2'']"

definition sample_logged_in_base :: server where
  "sample_logged_in_base =
     run_base sample_platform sample_registered_base
       [Login sample_register 1700000200000 ''70ken'' ''65a000000000000000000006'']"

definition sample_admin :: request where
  "sample_admin =
     \<lparr>authorization = Some ''Bearer 70ken'', ip = Some ''203.0.113.4'', remoteAddress = None,
      user_agent = Some ''curl'', body = [], params_id = ''tx9'', query_status = None\<rparr>"

section \<open>Properties\<close>

subsection \<open>Helper lemmas\<close>

lemma length_run_calls: "length (fst (run_calls m cs)) = length cs"
proof (induction cs arbitrary: m)
  case Nil
  then show ?case by simp
next
  case (Cons c cs)
  obtain r m' where step:
    "checkRateLimit m (call_now c) (call_key c) (call_max c) (call_window c) = (r, m')"
    by (cases "checkRateLimit m (call_now c) (call_key c) (call_max c) (call_window c)")
  obtain rs m'' where rest: "run_calls m' cs = (rs, m'')"
    by (cases "run_calls m' cs")
  from Cons.IH[of m'] rest have "length rs = length cs" by simp
  then show ?case using step rest by simp
qed

lemma run_calls_window:
  assumes "m key = Some e"
    and "\<forall>c\<in>set cs. call_key c = key \<longrightarrow> call_now c \<le> resetTime e \<and> call_max c = mx"
  shows "(\<forall>i<length cs. call_key (cs ! i) = key \<longrightarrow>
            fst (run_calls m cs) ! i = (count e + int (calls_before key cs i) < mx))
         \<and> (\<exists>e'. snd (run_calls m cs) key = Some e' \<and> resetTime e' = resetTime e)"
  using assms
proof (induction cs arbitrary: m e)
  case Nil
  then show ?case by simp
next
  case (Cons c cs)
  obtain r m' where step:
    "checkRateLimit m (call_now c) (call_key c) (call_max c) (call_window c) = (r, m')"
    by (cases "checkRateLimit m (call_now c) (call_key c) (call_max c) (call_window c)")
  obtain rs m'' where rest: "run_calls m' cs = (rs, m'')"
    by (cases "run_calls m' cs")
  have run: "run_calls m (c # cs) = (r # rs, m'')"
    using step rest by simp
  have tl: "\<forall>c\<in>set cs. call_key c = key \<longrightarrow> call_now c \<le> resetTime e \<and> call_max c = mx"
    using Cons.prems(2) by simp
  show ?case
  proof (cases "call_key c = key")
    case False
    then have m'key: "m' key = Some e"
      using step Cons.prems(1)
      by (auto simp: checkRateLimit_def split: option.splits if_splits)
    have cb: "\<And>i. calls_before key (c # cs) (Suc i) = calls_before key cs i"
      using False by (simp add: calls_before_def)
    from Cons.IH[of m' e, OF m'key tl] rest
    have IH: "(\<forall>i<length cs. call_key (cs ! i) = key \<longrightarrow>
            rs ! i = (count e + int (calls_before key cs i) < mx))
         \<and> (\<exists>e'. m'' key = Some e' \<and> resetTime e' = resetTime e)" by simp
    show ?thesis
      unfolding run using IH False cb
      by (auto simp: nth_Cons split: nat.splits)
  next
    case True
    then have inwin: "call_now c \<le> resetTime e" and mxc: "call_max c = mx"
      using Cons.prems(2) by auto
    define e' where "e' = (if count e \<ge> mx then e else e\<lparr>count := count e + 1\<rparr>)"
    have r: "r = (count e < mx)" and m'key: "m' key = Some e'"
      using step Cons.prems(1) True inwin mxc
      by (auto simp: checkRateLimit_def e'_def split: if_splits)
    have rt: "resetTime e' = resetTime e" by (simp add: e'_def)
    have tl': "\<forall>c\<in>set cs. call_key c = key \<longrightarrow> call_now c \<le> resetTime e' \<and> call_max c = mx"
      using tl rt by simp
    have cb: "\<And>i. calls_before key (c # cs) (Suc i) = Suc (calls_before key cs i)"
      using True by (simp add: calls_before_def)
    from Cons.IH[of m' e', OF m'key tl'] rest
    have IH: "(\<forall>i<length cs. call_key (cs ! i) = key \<longrightarrow>
            rs ! i = (count e' + int (calls_before key cs i) < mx))
         \<and> (\<exists>e''. m'' key = Some e'' \<and> resetTime e'' = resetTime e')" by simp
    have shift: "\<And>n::nat. (count e' + int n < mx) = (count e + int (Suc n) < mx)"
      by (auto simp: e'_def)
    have c0: "calls_before key (c # cs) 0 = 0" by (simp add: calls_before_def)
    show ?thesis
      unfolding run using IH r rt cb shift c0
      by (auto simp: nth_Cons split: nat.splits)
  qed
qed

lemma digit10_is_digit: "d < 10 \<Longrightarrow> is_digit (digit10 d)"
  unfolding is_digit_def digit10_def by (rule nth_mem) simp

lemma nat_toString_digits: "list_all is_digit (nat_toString n)"
proof (induction n rule: nat_toString.induct)
  case (1 n)
  show ?case
  proof (cases "n < 10")
    case True
    then show ?thesis by (subst nat_toString.simps) (simp add: digit10_is_digit)
  next
    case False
    have "n mod 10 < 10" by simp
    then have "is_digit (digit10 (n mod 10))" by (rule digit10_is_digit)
    with False 1 show ?thesis by (subst nat_toString.simps) simp
  qed
qed

lemma nat_toString_length: "10 ^ k \<le> n \<Longrightarrow> k < length (nat_toString n)"
proof (induction k arbitrary: n)
  case 0
  show ?case by (subst nat_toString.simps) simp
next
  case (Suc k)
  then have "10 ^ k \<le> n div 10" by simp
  from Suc.IH[OF this] have "k < length (nat_toString (n div 10))" .
  moreover have "(1::nat) \<le> 10 ^ k" by simp
  then have "(10::nat) \<le> 10 ^ Suc k" by simp
  then have "\<not> n < 10" using Suc.prems by linarith
  ultimately show ?case by (subst nat_toString.simps) simp
qed

lemma upper_digit36: "d < 36 \<Longrightarrow> is_upper36 (upper_char (digit36 d))"
proof -
  assume d: "d < 36"
  have m: "map upper_char ''0123456789abcdefghijklmnopqrstuvwxyz'' = ''0123456789ABCDEFGHIJKLMNOPQRSTUVWXYZ''"
    by (simp add: upper_char_def)
  have "upper_char (digit36 d) = map upper_char ''0123456789abcdefghijklmnopqrstuvwxyz'' ! d"
    unfolding digit36_def using d by (subst nth_map) simp_all
  also have "\<dots> = ''0123456789ABCDEFGHIJKLMNOPQRSTUVWXYZ'' ! d" by (simp only: m)
  also have "\<dots> \<in> set ''0123456789ABCDEFGHIJKLMNOPQRSTUVWXYZ''"
    by (rule nth_mem) (use d in simp)
  finally show ?thesis by (simp only: is_upper36_def)
qed

lemma int_toString_example: "int_toString 1700000123456 = ''1700000123456''"
  by (simp add: int_toString_def nat_toString.simps digit10_def)

lemma fld_Nil: "fld [] k = None"
  by (simp add: fld_def)

lemma fld_Cons: "fld ((k, v) # d) k' = (if k' = k then Some v else fld d k')"
  by (simp add: fld_def)

lemma fld_opt_field: "fld (opt_field k v @ d) k' = (if k' = k \<and> v \<noteq> None then v else fld d k')"
  by (cases v) (simp_all add: opt_field_def fld_def)

lemmas fld_simps = fld_Nil fld_Cons fld_opt_field

lemma lit_0_02_value: "lit_0_02 = 5764607523034235 / 288230376151711744"
  by code_simp

lemma fee_1500: "js_mul 1500 lit_0_02 = 30"
  by code_simp

lemma sample_schema:
  "CreatePaymentSchema (body sample_payment) = Inr (body sample_payment)"
  by (simp add: CreatePaymentSchema_def sample_payment_def zod_result_def zod_string_def
      zod_number_def zod_optional_def zod_strip_def fld_simps name_char_def account_char_def
      country_char_def is_letter_def is_lower_def is_upper_def is_digit_def is_space_def
      swift_pattern_def)

lemma sample_auth_mem:
  "authMiddleware sample_platform (sample_server True) sample_payment 1700000123456
     = Inr (AList.update ''is_staff'' (VBool False) (spread (sample_session (VStr ''u1'') (VStr ''s1'')) (sample_user (VStr ''u1''))))"
  by (simp add: authMiddleware_def sample_platform_def sample_server_def sample_payment_def
      has_bearer_def bearer_token_def db_findOne_def findOne_def session_query_def
      sample_session_def sample_user_def fld_simps js_gt_def js_String_def findUserById_def
      clientIP_def truthy_str_def Let_def)

lemma status_error_response: "status (error_response st msg) = st"
  by (simp add: error_response_def)

lemma zod_result_Inr: "zod_result issues parsed = Inr pd \<Longrightarrow> issues = [] \<and> pd = parsed"
  by (cases issues) (simp_all add: zod_result_def)

lemma zod_string_Nil:
  "zod_string v checks = [] \<Longrightarrow> \<exists>s. v = Some (VStr s) \<and> (\<forall>(ok, msg)\<in>set checks. ok s)"
  by (auto simp: zod_string_def filter_empty_conv split: option.splits val.splits)

lemma zod_number_Nil:
  "zod_number v checks = [] \<Longrightarrow> \<exists>n. v = Some (VNum n) \<and> (\<forall>(ok, msg)\<in>set checks. ok n)"
  by (auto simp: zod_number_def filter_empty_conv split: option.splits val.splits)

lemma fld_zod_strip: "fld (zod_strip keys b) k = (if k \<in> set keys then fld b k else None)"
  by (induction keys) (auto simp: zod_strip_def fld_def split: option.splits)

lemma CreatePaymentSchema_Inr:
  assumes "CreatePaymentSchema b = Inr pd"
  shows "fld pd ''swift_code'' = fld b ''swift_code''"
    and "\<exists>w. fld b ''swift_code'' = Some (VStr w) \<and> swift_pattern w"
    and "fld pd ''amount'' = fld b ''amount''"
    and "\<exists>a. fld b ''amount'' = Some (VNum a) \<and> 1 \<le> a \<and> a \<le> 50000"
proof -
  from assms have pd: "pd = zod_strip [''recipient_name'', ''recipient_account'', ''recipient_bank'',
                   ''recipient_country'', ''swift_code'', ''amount'', ''currency'', ''purpose''] b"
    unfolding CreatePaymentSchema_def by (auto dest: zod_result_Inr)
  from assms have sw: "zod_string (fld b ''swift_code'')
          [(\<lambda>s. 8 \<le> length s, ''SWIFT code must be 8 or 11 characters''),
           (\<lambda>s. length s \<le> 11, ''SWIFT code must be 8 or 11 characters''),
           (swift_pattern, ''Invalid SWIFT code format'')] = []"
    and am: "zod_number (fld b ''amount'')
          [(\<lambda>n. 1 \<le> n, ''Amount must be at least 1''),
           (\<lambda>n. n \<le> 50000, ''Amount cannot exceed 50,000'')] = []"
    unfolding CreatePaymentSchema_def by (auto dest!: zod_result_Inr)
  show "fld pd ''swift_code'' = fld b ''swift_code''" and "fld pd ''amount'' = fld b ''amount''"
    unfolding pd by (simp_all add: fld_zod_strip)
  from zod_string_Nil[OF sw] show "\<exists>w. fld b ''swift_code'' = Some (VStr w) \<and> swift_pattern w"
    by auto
  from zod_number_Nil[OF am] show "\<exists>a. fld b ''amount'' = Some (VNum a) \<and> 1 \<le> a \<and> a \<le> 50000"
    by auto
qed

lemma transaction_doc_no_id: "fld (transaction_doc user pd ref fee now) ''_id'' = None"
  by (simp add: transaction_doc_def fld_simps)

lemma transaction_doc_base_no_id: "fld (transaction_doc_base user pd ref fee now) ''_id'' = None"
  by (simp add: transaction_doc_base_def fld_simps)

lemma fld_snoc_other: "k' \<noteq> k \<Longrightarrow> fld (d @ [(k, v)]) k' = fld d k'"
  by (simp add: fld_def map_add_def split: option.splits)

lemma authMiddleware_Inl: "authMiddleware P s req now = Inl r \<Longrightarrow> status r = 401"
  by (auto simp: authMiddleware_def Let_def status_error_response
      split: option.splits if_splits)

lemma authMiddleware_base_Inl: "authMiddleware_base s req now = Inl r \<Longrightarrow> status r = 401"
  by (auto simp: authMiddleware_base_def Let_def status_error_response
      split: option.splits if_splits)

lemma createPayment_accepted:
  assumes "createPayment P s req now draw newid = (r, s')" and "status r = 200"
  shows "\<exists>user pd tid. authMiddleware P s req now = Inr user
           \<and> CreatePaymentSchema (body req) = Inr pd
           \<and> r = payment_response tid (generateReferenceNumber now draw) (transactionFee pd)
           \<and> payment_transactions s' = payment_transactions s
                @ [transaction_doc user pd (generateReferenceNumber now draw) (transactionFee pd) now
                   @ [(''_id'', tid)]]"
  using assms
  by (auto simp: createPayment_def Let_def status_error_response db_insertOne_def insertOne_def
      mongo_insertOne_def transaction_doc_no_id
      dest: authMiddleware_Inl
      split: sum.splits option.splits prod.splits if_splits)

lemma createPayment_base_accepted:
  assumes "createPayment_base P s req now draw newid = (r, s')" and "status r = 200"
  shows "\<exists>user pd tid. authMiddleware_base s req now = Inr user
           \<and> CreatePaymentSchema (body req) = Inr pd
           \<and> r = payment_response tid (generateReferenceNumber now draw) (transactionFee pd)
           \<and> payment_transactions s' = payment_transactions s
                @ [transaction_doc_base user pd (generateReferenceNumber now draw) (transactionFee pd) now
                   @ [(''_id'', tid)]]"
  using assms
  by (auto simp: createPayment_base_def Let_def status_error_response
      mongo_insertOne_def transaction_doc_base_no_id
      dest: authMiddleware_base_Inl
      split: sum.splits option.splits prod.splits if_splits)

lemma sample_auth_base:
  "authMiddleware_base (sample_server False) sample_payment 1700000123456
     = Inr (spread (sample_session (VOid ''65a000000000000000000001'') (VOid ''65a000000000000000000002''))
              (sample_user (VOid ''65a000000000000000000001'')))"
  by (simp add: authMiddleware_base_def sample_server_def sample_payment_def
      has_bearer_def bearer_token_def mongo_findOne_def session_query_def bson_eq_def
      sample_session_def sample_user_def fld_simps js_gt_def Let_def)

lemma sample_whitelist: "whitelist_error sample_platform (body sample_payment) = None"
  by (simp add: whitelist_error_def sample_payment_def fld_simps js_String_def
      whitelist_name_def whitelist_account_def whitelist_country_def name_char_def
      account_char_i_def country_char_def is_letter_def is_lower_def is_upper_def is_digit_def
      is_space_def)

lemma sample_server_fields:
  "inMemory (sample_server mem) = mem"
  "payment_transactions (sample_server mem) = []"
  "rateLimitMap (sample_server mem) = Map.empty"
  by (simp_all add: sample_server_def)

lemma sample_createPayment_status:
  "status (fst (createPayment sample_platform (sample_server True) sample_payment 1700000123456
                  [10, 1, 35, 0, 18, 7, 3, 3] ''tx1'')) = 200"
  by (simp add: createPayment_def sample_auth_mem sample_schema sample_whitelist Let_def
      checkRateLimit_def db_insertOne_def insertOne_def transaction_doc_no_id
      payment_response_def ok_response_def sample_server_fields)

lemma sample_createPayment_base_status:
  "status (fst (createPayment_base sample_platform (sample_server False) sample_payment 1700000123456
                  [10, 1, 35, 0, 18, 7, 3, 3] ''65a000000000000000000003'')) = 200"
  by (simp add: createPayment_base_def sample_auth_base sample_schema sample_whitelist Let_def
      checkRateLimit_def mongo_insertOne_def duplicate_key_def transaction_doc_base_no_id
      payment_response_def ok_response_def sample_server_fields)

lemma CreatePaymentSchema_fee:
  assumes "CreatePaymentSchema b = Inr pd"
  shows "\<exists>a. fld b ''amount'' = Some (VNum a) \<and> 1 \<le> a \<and> a \<le> 50000
             \<and> transactionFee pd = js_mul a lit_0_02"
proof -
  from CreatePaymentSchema_Inr(4)[OF assms] obtain a
    where a: "fld b ''amount'' = Some (VNum a)" "1 \<le> a" "a \<le> 50000" by blast
  have "fld pd ''amount'' = Some (VNum a)" using CreatePaymentSchema_Inr(3)[OF assms] a(1) by simp
  then have "transactionFee pd = js_mul a lit_0_02" by (simp add: transactionFee_def)
  with a show ?thesis by blast
qed

lemma fld_transaction_fee:
  "fld (transaction_doc user pd ref fee now @ [(''_id'', tid)]) ''transaction_fee'' = Some (VNum fee)"
  "fld (transaction_doc_base user pd ref fee now @ [(''_id'', tid)]) ''transaction_fee'' = Some (VNum fee)"
  by (simp_all add: fld_snoc_other transaction_doc_def transaction_doc_base_def fld_simps)

lemma strict_eq_imp_eq: "strict_eq a b \<Longrightarrow> a = b"
  by (induction a b rule: strict_eq.induct) simp_all

lemma strict_eq_VStr: "strict_eq (Some (VStr a)) x = (x = Some (VStr a))"
  by (cases x; cases "the x") auto

lemma bson_eq_Some: "v \<noteq> VNull \<Longrightarrow> bson_eq (Some v) x = (x = Some v)"
  by (auto simp: bson_eq_def)

lemma authMiddleware_cong:
  "inMemory s = inMemory s' \<Longrightarrow> users s = users s' \<Longrightarrow> user_sessions s = user_sessions s' \<Longrightarrow>
   authorization req = authorization req' \<Longrightarrow> ip req = ip req' \<Longrightarrow>
   remoteAddress req = remoteAddress req' \<Longrightarrow> user_agent req = user_agent req' \<Longrightarrow>
   authMiddleware P s req now = authMiddleware P s' req' now"
  by (simp add: authMiddleware_def findUserById_def clientIP_def Let_def
      cong: option.case_cong if_cong)

lemma authMiddleware_base_cong:
  "users s = users s' \<Longrightarrow> user_sessions s = user_sessions s' \<Longrightarrow>
   authorization req = authorization req' \<Longrightarrow>
   authMiddleware_base s req now = authMiddleware_base s' req' now"
  by (simp add: authMiddleware_base_def Let_def cong: option.case_cong if_cong)

lemma find_None: "List.find Q xs = None \<longleftrightarrow> (\<forall>x\<in>set xs. \<not> Q x)"
  by (auto simp: find_None_iff)

lemma sample_principal_id:
  "fld (AList.update ''is_staff'' (VBool False)
          (spread (sample_session (VStr ''u1'') (VStr ''s1'')) (sample_user (VStr ''u1'')))) ''_id''
     = Some (VStr ''u1'')"
  by (simp add: spread_def sample_session_def sample_user_def fld_def update_conv')

lemma findIndex_None: "findIndex Q xs = None \<longleftrightarrow> (\<forall>x\<in>set xs. \<not> Q x)"
  by (induction xs) auto

lemma findIndex_Some:
  "findIndex Q xs = Some i \<Longrightarrow> i < length xs \<and> Q (xs ! i) \<and> (\<forall>j<i. \<not> Q (xs ! j))"
proof (induction xs arbitrary: i)
  case Nil
  then show ?case by simp
next
  case (Cons x xs)
  show ?case
  proof (cases "Q x")
    case True
    with Cons.prems show ?thesis by simp
  next
    case False
    with Cons.prems obtain k where k: "findIndex Q xs = Some k" "i = Suc k" by auto
    from Cons.IH[OF k(1)] False k(2) show ?thesis
      by (auto simp: nth_Cons split: nat.splits)
  qed
qed

lemma findIndex_update:
  "findIndex Q xs = Some i \<Longrightarrow> Q y \<Longrightarrow> findIndex Q (xs[i := y]) = Some i"
proof (induction xs arbitrary: i)
  case Nil
  then show ?case by simp
next
  case (Cons x xs)
  show ?case
  proof (cases "Q x")
    case True
    with Cons.prems show ?thesis by simp
  next
    case False
    with Cons.prems obtain k where k: "findIndex Q xs = Some k" "i = Suc k" by auto
    from Cons.IH[OF k(1) Cons.prems(2)] False k(2) show ?thesis by simp
  qed
qed

lemma fld_spread_verify_set:
  "fld (spread d (verify_set now)) k =
     (if k = ''updated_at'' then Some (VDate now)
      else if k = ''processed_at'' then Some (VDate now)
      else if k = ''status'' then Some (VStr ''completed'')
      else if k = ''is_processed'' then Some (VBool True)
      else fld d k)"
  by (simp add: spread_def verify_set_def fld_def update_conv')

lemma findIndex_ex: "\<exists>x\<in>set xs. Q x \<Longrightarrow> \<exists>i. findIndex Q xs = Some i"
  using findIndex_None[of Q xs] by (cases "findIndex Q xs") auto

lemma match_id: "match d [(''_id'', QEq (Some (VStr i)))] = (fld d ''_id'' = Some (VStr i))"
  by (simp add: strict_eq_VStr)

lemma mongo_match_id: "mongo_match d [(''_id'', QEq (Some (VOid i)))] = (fld d ''_id'' = Some (VOid i))"
  by (simp add: bson_eq_Some)

lemma verify_step:
  assumes auth: "authMiddleware P s req now = Inr user" and staff: "truthy (fld user ''is_staff'')"
    and wf: "inMemory s \<or> ObjectId_isValid P (params_id req)"
    and tid: "tid = (if inMemory s then VStr (params_id req) else VOid (params_id req))"
    and idx: "findIndex (\<lambda>d. fld d ''_id'' = Some tid) (payment_transactions s) = Some i"
  shows "verifyTransaction P s req now =
           (ok_response None (Some (json_doc (spread (payment_transactions s ! i) (verify_set now)))),
            s\<lparr>payment_transactions :=
                 (payment_transactions s)[i := spread (payment_transactions s ! i) (verify_set now)]\<rparr>)"
proof -
  let ?txs = "payment_transactions s"
  have lt: "i < length ?txs" using findIndex_Some[OF idx] by simp
  show ?thesis
  proof (cases "inMemory s")
    case True
    have "findIndex (\<lambda>d. match d [(''_id'', QEq (Some (VStr (params_id req))))]) ?txs = Some i"
      using idx tid True unfolding match_id by simp
    then have "findOneAndUpdate ?txs [(''_id'', QEq (Some (VStr (params_id req))))] (verify_set now)
                 = (Some (spread (?txs ! i) (verify_set now)), ?txs[i := spread (?txs ! i) (verify_set now)])"
      using lt unfolding findOneAndUpdate_def by (simp add: Let_def)
    then show ?thesis
      using auth staff True unfolding verifyTransaction_def by (simp del: match.simps)
  next
    case False
    have "findIndex (\<lambda>d. mongo_match d [(''_id'', QEq (Some (VOid (params_id req))))]) ?txs = Some i"
      using idx tid False unfolding mongo_match_id by simp
    then have "mongo_findOneAndUpdate ?txs [(''_id'', QEq (Some (VOid (params_id req))))] (verify_set now)
                 = (Some (spread (?txs ! i) (verify_set now)), ?txs[i := spread (?txs ! i) (verify_set now)])"
      using lt unfolding mongo_findOneAndUpdate_def by (simp add: Let_def)
    then show ?thesis
      using auth staff False wf unfolding verifyTransaction_def by (simp del: mongo_match.simps)
  qed
qed

lemma sample_staff_auth:
  "authMiddleware sample_platform sample_staff_server sample_verify 1700000123456
     = Inr (AList.update ''is_staff'' (VBool True) (spread sample_staff_session sample_staff))"
  "authMiddleware sample_platform sample_staff_server sample_verify 1700000200000
     = Inr (AList.update ''is_staff'' (VBool True) (spread sample_staff_session sample_staff))"
  by (simp_all add: authMiddleware_def sample_platform_def sample_staff_server_def
      sample_verify_def has_bearer_def bearer_token_def db_findOne_def findOne_def session_query_def
      sample_staff_session_def sample_staff_def fld_simps js_gt_def js_String_def findUserById_def
      clientIP_def truthy_str_def Let_def)

lemma fld_update: "fld (AList.update k v d) k' = (if k' = k then Some v else fld d k')"
  by (simp add: fld_def update_conv')

lemma fld_spread: "fld (spread a b) k = (case fld b k of None \<Rightarrow> fld a k | Some v \<Rightarrow> Some v)"
proof (induction b)
  case Nil
  then show ?case by (simp add: spread_def fld_def)
next
  case (Cons x b)
  obtain k' v where x: "x = (k', v)" by (cases x)
  have "spread a (x # b) = AList.update k' v (spread a b)"
    by (simp add: spread_def x)
  then show ?case using Cons by (simp add: fld_update x fld_Cons)
qed

lemma find_Some: "List.find Q xs = Some x \<Longrightarrow> x \<in> set xs \<and> Q x"
  by (auto simp: find_Some_iff)

lemma findUserById_Some:
  assumes "findUserById P s i = Some u"
  shows "u \<in> set (users s) \<and> (fld u ''_id'' = Some (VStr i) \<or> (\<not> inMemory s \<and> fld u ''_id'' = Some (VOid i)))"
proof (cases "inMemory s")
  case True
  with assms have "List.find (\<lambda>d. match d [(''_id'', QEq (Some (VStr i)))]) (users s) = Some u"
    by (simp add: findUserById_def findOne_def del: match.simps)
  from find_Some[OF this] show ?thesis unfolding match_id by simp
next
  case False
  show ?thesis
  proof (cases "ObjectId_isValid P i")
    case True
    with assms False have "List.find (\<lambda>d. mongo_match d [(''_id'', QEq (Some (VOid i)))]) (users s) = Some u"
      by (simp add: findUserById_def mongo_findOne_def del: mongo_match.simps)
    from find_Some[OF this] False show ?thesis unfolding mongo_match_id by simp
  next
    case nv: False
    with assms False have "List.find (\<lambda>d. mongo_match d [(''_id'', QEq (Some (VStr i)))]) (users s) = Some u"
      by (simp add: findUserById_def mongo_findOne_def del: mongo_match.simps)
    from find_Some[OF this] show ?thesis by (auto simp: bson_eq_Some split: if_splits)
  qed
qed

lemma authMiddleware_principal:
  assumes "authMiddleware P s req now = Inr p"
  shows "\<exists>u\<in>set (users s). \<exists>i.
           (fld u ''_id'' = Some (VStr i) \<or> (\<not> inMemory s \<and> fld u ''_id'' = Some (VOid i)))
         \<and> fld p ''_id'' = fld u ''_id''
         \<and> fld p ''is_staff'' = Some (VBool (truthy (fld u ''is_staff'')))"
proof -
  from assms obtain i u session where u: "findUserById P s i = Some u"
    and p: "p = AList.update ''is_staff'' (VBool (truthy (fld u ''is_staff''))) (spread session u)
          \<or> p = AList.update ''is_staff'' (VBool (truthy (fld u ''is_staff''))) u"
    unfolding authMiddleware_def
    by (auto simp: Let_def split: if_splits option.splits)
  from findUserById_Some[OF u] have us: "u \<in> set (users s)"
    and id: "fld u ''_id'' = Some (VStr i) \<or> (\<not> inMemory s \<and> fld u ''_id'' = Some (VOid i))"
    by simp_all
  from id have some: "fld u ''_id'' \<noteq> None" by auto
  from p some have "fld p ''_id'' = fld u ''_id''"
    by (auto simp: fld_update fld_spread split: option.splits)
  moreover from p have "fld p ''is_staff'' = Some (VBool (truthy (fld u ''is_staff'')))"
    by (auto simp: fld_update)
  ultimately show ?thesis using us id by blast
qed

lemma set_insert_desc: "set (insert_desc d es) = insert d (set es)"
  by (induction es) auto

lemma length_insert_desc: "length (insert_desc d es) = Suc (length es)"
  by (induction es) auto

lemma sorted_insert_desc:
  "sorted_wrt (\<lambda>a b. created_at a \<ge> created_at b) es \<Longrightarrow>
   sorted_wrt (\<lambda>a b. created_at a \<ge> created_at b) (insert_desc d es)"
  by (induction es) (auto simp: set_insert_desc)

lemma sort_created_desc_props:
  "set (sort_created_desc ds) = set ds"
  "length (sort_created_desc ds) = length ds"
  "sorted_wrt (\<lambda>a b. created_at a \<ge> created_at b) (sort_created_desc ds)"
  by (induction ds) (simp_all add: sort_created_desc_def set_insert_desc length_insert_desc
      sorted_insert_desc)

lemma history_in_memory:
  assumes "authMiddleware P s req now = Inr user" and "inMemory s"
  shows "\<exists>i. fld user ''_id'' = Some (VStr i)
           \<and> history P s req now = ok_response None (Some (JArr (map json_doc
                 (filter (\<lambda>d. fld d ''user_id'' = Some (VStr i)) (payment_transactions s)))))"
proof -
  from authMiddleware_principal[OF assms(1)] assms(2)
  obtain i where i: "fld user ''_id'' = Some (VStr i)" by auto
  have "find_toArray (payment_transactions s) [(''user_id'', QEq (fld user ''_id''))]
          = filter (\<lambda>d. fld d ''user_id'' = Some (VStr i)) (payment_transactions s)"
    unfolding find_toArray_def i by (simp add: strict_eq_VStr)
  then show ?thesis
    using assms i by (simp add: history_def db_find_sort_limit_def del: match.simps)
qed

lemma history_durable:
  assumes "authMiddleware P s req now = Inr user" and "\<not> inMemory s"
  shows "\<exists>uid. fld user ''_id'' = Some uid
           \<and> history P s req now = ok_response None (Some (JArr (map json_doc
                 (take 50 (sort_created_desc
                    (filter (\<lambda>d. fld d ''user_id'' = Some uid) (payment_transactions s)))))))"
proof -
  from authMiddleware_principal[OF assms(1)]
  obtain uid where i: "fld user ''_id'' = Some uid" "uid \<noteq> VNull" by auto
  have "mongo_find_sort_limit (payment_transactions s) [(''user_id'', QEq (fld user ''_id''))] 50
          = take 50 (sort_created_desc
              (filter (\<lambda>d. fld d ''user_id'' = Some uid) (payment_transactions s)))"
    unfolding mongo_find_sort_limit_def i(1) using i(2) by (simp add: bson_eq_Some)
  then show ?thesis
    using assms i by (simp add: history_def db_find_sort_limit_def del: mongo_match.simps)
qed

lemma sample_auth_durable:
  "authMiddleware sample_platform
     ((sample_server False)\<lparr>payment_transactions := txs\<rparr>) sample_payment 1700000123456
     = Inr (AList.update ''is_staff'' (VBool False)
             (spread (sample_session (VOid ''65a000000000000000000001'') (VOid ''65a000000000000000000002''))
                (sample_user (VOid ''65a000000000000000000001''))))"
  by (simp add: authMiddleware_def sample_platform_def sample_server_def sample_payment_def
      has_bearer_def bearer_token_def db_findOne_def mongo_findOne_def session_query_def
      sample_session_def sample_user_def fld_simps js_gt_def js_String_def findUserById_def
      clientIP_def truthy_str_def Let_def bson_eq_def)

lemma sample_principal_durable_id:
  "fld (AList.update ''is_staff'' (VBool False)
          (spread (sample_session (VOid ''65a000000000000000000001'') (VOid ''65a000000000000000000002''))
                (sample_user (VOid ''65a000000000000000000001'')))) ''_id''
     = Some (VOid ''65a000000000000000000001'')"
  by (simp add: fld_update fld_spread sample_user_def fld_simps)

lemma unique_on_snoc:
  assumes "unique_on ix coll" and "\<forall>e\<in>set coll. index_key ix d = None \<or> index_key ix e \<noteq> index_key ix d"
  shows "unique_on ix (coll @ [d])"
proof (cases "index_key ix d")
  case None
  then show ?thesis using assms(1) by (simp add: unique_on_def map_filter_def)
next
  case (Some k)
  have "k \<notin> set (List.map_filter (index_key ix) coll)"
    using assms(2) Some by (auto simp: map_filter_def)
  then show ?thesis using assms(1) Some by (simp add: unique_on_def map_filter_def)
qed

lemma mongo_insertOne_Inr:
  assumes "mongo_insertOne ixs coll d oid = Inr (i, coll')"
  shows "\<exists>d'. coll' = coll @ [d'] \<and> (d' = d \<or> d' = d @ [(''_id'', VOid oid)])
           \<and> \<not> duplicate_key (Unique ''_id'' # ixs) coll d'"
  using assms by (auto simp: mongo_insertOne_def Let_def split: if_splits)

lemma mongo_insertOne_unique:
  assumes "mongo_insertOne ixs coll d oid = Inr (i, coll')" and "ix \<in> set ixs" and "unique_on ix coll"
  shows "unique_on ix coll'"
proof -
  from mongo_insertOne_Inr[OF assms(1)] obtain d' where d': "coll' = coll @ [d']"
    "\<not> duplicate_key (Unique ''_id'' # ixs) coll d'" by blast
  from d'(2) assms(2) have "\<forall>e\<in>set coll. index_key ix d' = None \<or> index_key ix e \<noteq> index_key ix d'"
    by (auto simp: duplicate_key_def)
  from unique_on_snoc[OF assms(3) this] show ?thesis by (simp add: d'(1))
qed

lemma run_inserts_unique:
  "ix \<in> set ixs \<Longrightarrow> unique_on ix coll \<Longrightarrow> unique_on ix (run_inserts ixs coll ds)"
proof (induction ds arbitrary: coll)
  case Nil
  then show ?case by simp
next
  case (Cons x ds)
  obtain d oid where x: "x = (d, oid)" by (cases x)
  show ?case
  proof (cases "mongo_insertOne ixs coll d oid")
    case (Inl e)
    then show ?thesis using Cons x by simp
  next
    case (Inr y)
    obtain i coll' where y: "y = (i, coll')" by (cases y)
    from mongo_insertOne_unique[OF Inr[unfolded y] Cons.prems] have "unique_on ix coll'" .
    from Cons.IH[OF Cons.prems(1) this] show ?thesis using Inr x y by simp
  qed
qed

lemma newUser_fields:
  "fld (newUser b pw now) ''_id'' = None"
  "fld (newUser b pw now @ [(''_id'', i)]) ''is_staff'' = Some (VBool False)"
  "fld (newUser b pw now @ [(''_id'', i)]) ''_id'' = Some i"
  "fld (newUser_base b pw now) ''_id'' = None"
  "fld (newUser_base b pw now @ [(''_id'', i)]) ''is_staff'' = None"
  "fld (newUser_base b pw now @ [(''_id'', i)]) ''_id'' = Some i"
  by (simp_all add: newUser_def newUser_base_def fld_def opt_field_def split: option.splits)

lemma register_accepted:
  assumes "register P s req now salt newid = (r, s')" and "status r = 200"
  shows "\<exists>b pw i. users s' = users s @ [newUser b pw now @ [(''_id'', i)]]"
  using assms
  by (auto simp: register_def Let_def status_error_response db_insertOne_def insertOne_def
      mongo_insertOne_def newUser_fields
      split: sum.splits option.splits prod.splits if_splits) blast+

lemma register_base_accepted:
  assumes "register_base P s req now salt newid = (r, s')" and "status r = 200"
  shows "\<exists>b pw i. users s' = users s @ [newUser_base b pw now @ [(''_id'', i)]]"
  using assms
  by (auto simp: register_base_def Let_def status_error_response
      mongo_insertOne_def newUser_fields
      split: sum.splits option.splits prod.splits if_splits) blast+

lemma authMiddleware_base_principal:
  assumes "authMiddleware_base s req now = Inr p"
  shows "\<exists>session\<in>set (user_sessions s). \<exists>u\<in>set (users s). p = spread session u"
proof -
  from assms obtain session u where
    se: "mongo_findOne (user_sessions s) (session_query (bearer_token (the (authorization req))) now) = Some session"
    and u: "mongo_findOne (users s) [(''_id'', QEq (fld session ''user_id''))] = Some u"
    and p: "p = spread session u"
    unfolding authMiddleware_base_def
    by (auto simp: Let_def split: if_splits option.splits)
  from find_Some[OF se[unfolded mongo_findOne_def]] find_Some[OF u[unfolded mongo_findOne_def]] p
  show ?thesis by blast
qed

lemma sample_register_schema:
  "RegisterSchema sample_platform (body sample_register) = Inr (body sample_register)"
  by (simp add: RegisterSchema_def sample_register_def sample_platform_def zod_result_def
      zod_string_def zod_strip_def fld_simps password_pattern_def password_char_def
      password_symbol_def is_letter_def is_lower_def is_upper_def is_digit_def)

lemma sample_register_lookup:
  "db_findOne True (users (sample_server True)) [(''email'', QEq (fld (body sample_register) ''email''))] = None"
  "mongo_findOne (users (sample_server False)) [(''email'', QEq (fld (body sample_register) ''email''))] = None"
  by (simp_all add: db_findOne_def findOne_def mongo_findOne_def sample_server_def
      sample_register_def sample_user_def fld_simps bson_eq_def)

lemma sample_register_no_duplicate:
  "\<not> duplicate_key (Unique ''_id'' # users_indexes) (users (sample_server False))
       (newUser_base (body sample_register) pw now @ [(''_id'', VOid ''65a000000000000000000005'')])"
  by (simp add: duplicate_key_def users_indexes_def sample_server_def sample_user_def
      sample_register_def newUser_base_def fld_simps opt_field_def fld_def)

lemma sample_register_status:
  "status (fst (register sample_platform (sample_server True) sample_register 1700000123456
                  ''salt'' ''u2'')) = 200"
  "status (fst (register_base sample_platform (sample_server False) sample_register 1700000123456
                  ''salt'' ''65a000000000000000000005'')) = 200"
  by (simp_all add: register_def register_base_def sample_register_schema Let_def checkRateLimit_def
      sample_server_fields sample_register_lookup sample_register_no_duplicate db_insertOne_def
      insertOne_def mongo_insertOne_def newUser_fields ok_response_def)

lemma match_session_query:
  "match d (session_query c now) \<Longrightarrow>
     fld d ''session_token'' = Some (VStr c) \<and> fld d ''is_active'' = Some (VBool True)"
  "mongo_match d (session_query c now) \<Longrightarrow>
     fld d ''session_token'' = Some (VStr c) \<and> fld d ''is_active'' = Some (VBool True)"
  by (auto simp: session_query_def strict_eq_VStr bson_eq_Some split: if_splits
      dest: strict_eq_imp_eq)

lemma find_update_irrelevant:
  "\<not> R (xs ! i) \<Longrightarrow> \<not> R y \<Longrightarrow> i < length xs \<Longrightarrow> List.find R (xs[i := y]) = List.find R xs"
proof (induction xs arbitrary: i)
  case Nil
  then show ?case by simp
next
  case (Cons x xs)
  then show ?case by (cases i) auto
qed

lemma db_updateOne_token:
  "db_updateOne mem coll [(''session_token'', QEq (Some (VStr t)))] set' =
     (case findIndex (\<lambda>d. fld d ''session_token'' = Some (VStr t)) coll of
        None \<Rightarrow> (0, coll)
      | Some i \<Rightarrow> (1, coll[i := spread (coll ! i) set']))"
  by (simp add: db_updateOne_def updateOne_def mongo_updateOne_def strict_eq_VStr bson_eq_Some)

lemma fld_spread_logout:
  "fld (spread d [(''is_active'', VBool False), (''updated_at'', VDate now)]) k =
     (if k = ''is_active'' then Some (VBool False)
      else if k = ''updated_at'' then Some (VDate now) else fld d k)"
  by (simp add: fld_spread fld_simps)

lemma revoked_sessions:
  assumes dist: "distinct (map (\<lambda>d. fld d ''session_token'') coll)"
    and upd: "coll' = snd (db_updateOne mem coll [(''session_token'', QEq (Some (VStr t)))]
                        [(''is_active'', VBool False), (''updated_at'', VDate now)])"
    and ex: "\<exists>d\<in>set coll. fld d ''session_token'' = Some (VStr t)"
  shows "\<forall>d\<in>set coll'. fld d ''session_token'' = Some (VStr t) \<longrightarrow> fld d ''is_active'' = Some (VBool False)"
    and "\<And>c now'. c \<noteq> t \<Longrightarrow> db_findOne mem coll' (session_query c now') = db_findOne mem coll (session_query c now')"
    and "\<forall>d\<in>set coll'. \<forall>c. (fld d ''session_token'' = Some (VStr c)) \<longrightarrow> (\<exists>e\<in>set coll. fld e ''session_token'' = Some (VStr c))"
proof -
  let ?Q = "\<lambda>d. fld d ''session_token'' = Some (VStr t)"
  let ?set = "[(''is_active'', VBool False), (''updated_at'', VDate now)]"
  from findIndex_ex[of coll ?Q] ex obtain i where i: "findIndex ?Q coll = Some i" by blast
  have lt: "i < length coll" and qi: "?Q (coll ! i)" using findIndex_Some[OF i] by simp_all
  define d' where "d' = spread (coll ! i) ?set"
  have c': "coll' = coll[i := d']"
    unfolding upd db_updateOne_token i d'_def by simp
  have tok: "fld d' ''session_token'' = Some (VStr t)"
    unfolding d'_def using qi by (simp add: fld_spread_logout)
  have act: "fld d' ''is_active'' = Some (VBool False)"
    unfolding d'_def by (simp add: fld_spread_logout)
  show "\<forall>d\<in>set coll'. fld d ''session_token'' = Some (VStr t) \<longrightarrow> fld d ''is_active'' = Some (VBool False)"
  proof (intro ballI impI)
    fix d assume d: "d \<in> set coll'" and q: "fld d ''session_token'' = Some (VStr t)"
    from d obtain j where j: "j < length coll" "d = coll' ! j"
      unfolding c' by (auto simp: in_set_conv_nth)
    show "fld d ''is_active'' = Some (VBool False)"
    proof (cases "j = i")
      case True
      then show ?thesis using j lt act by (simp add: c')
    next
      case False
      then have dj: "d = coll ! j" using j by (simp add: c')
      have e: "map (\<lambda>d. fld d ''session_token'') coll ! j = map (\<lambda>d. fld d ''session_token'') coll ! i"
        using q qi dj j lt by simp
      have "(map (\<lambda>d. fld d ''session_token'') coll ! j = map (\<lambda>d. fld d ''session_token'') coll ! i)
              = (j = i)"
        by (rule nth_eq_iff_index_eq[OF dist]) (simp_all add: j lt)
      with e have "j = i" by simp
      with False show ?thesis by simp
    qed
  qed
  show "db_findOne mem coll' (session_query c now') = db_findOne mem coll (session_query c now')"
    if "c \<noteq> t" for c now'
  proof -
    have n1: "\<not> match (coll ! i) (session_query c now')" "\<not> mongo_match (coll ! i) (session_query c now')"
      using qi that by (auto dest: match_session_query)
    have n2: "\<not> match d' (session_query c now')" "\<not> mongo_match d' (session_query c now')"
      using tok that by (auto dest: match_session_query)
    show ?thesis
      unfolding c' db_findOne_def findOne_def mongo_findOne_def
      using find_update_irrelevant[OF n1(1) n2(1) lt] find_update_irrelevant[OF n1(2) n2(2) lt]
      by simp
  qed
  show "\<forall>d\<in>set coll'. \<forall>c. (fld d ''session_token'' = Some (VStr c)) \<longrightarrow> (\<exists>e\<in>set coll. fld e ''session_token'' = Some (VStr c))"
  proof (intro ballI allI impI)
    fix d c assume d: "d \<in> set coll'" and q: "fld d ''session_token'' = Some (VStr c)"
    from d have "d = d' \<or> d \<in> set coll" unfolding c' using set_update_subset_insert[of coll i d'] by auto
    then show "\<exists>e\<in>set coll. fld e ''session_token'' = Some (VStr c)"
    proof
      assume "d = d'"
      with q tok have "c = t" by simp
      with ex show ?thesis by simp
    next
      assume "d \<in> set coll"
      with q show ?thesis by blast
    qed
  qed
qed

lemma session_lookup_None:
  assumes "\<forall>d\<in>set coll. fld d ''session_token'' = Some (VStr c) \<longrightarrow> fld d ''is_active'' \<noteq> Some (VBool True)"
  shows "db_findOne mem coll (session_query c now) = None"
proof -
  have "\<forall>d\<in>set coll. \<not> match d (session_query c now)"
    "\<forall>d\<in>set coll. \<not> mongo_match d (session_query c now)"
    using assms by (auto dest: match_session_query)
  then show ?thesis
    by (cases mem) (simp_all add: db_findOne_def findOne_def mongo_findOne_def find_None
        del: match.simps mongo_match.simps)
qed

lemma session_lookup_Some:
  assumes "db_findOne mem coll (session_query c now) = Some session"
  shows "session \<in> set coll \<and> fld session ''session_token'' = Some (VStr c)"
proof (cases mem)
  case True
  with assms have "List.find (\<lambda>d. match d (session_query c now)) coll = Some session"
    by (simp add: db_findOne_def findOne_def)
  from find_Some[OF this] show ?thesis by (auto dest: match_session_query)
next
  case False
  with assms have "List.find (\<lambda>d. mongo_match d (session_query c now)) coll = Some session"
    by (simp add: db_findOne_def mongo_findOne_def)
  from find_Some[OF this] show ?thesis by (auto dest: match_session_query)
qed

lemma authMiddleware_session_path:
  assumes "authMiddleware P s req now = Inr p"
    and "jwt_verify P (bearer_token (the (authorization req))) now = None"
  shows "has_bearer (authorization req)
       \<and> (\<exists>session\<in>set (user_sessions s).
             fld session ''session_token'' = Some (VStr (bearer_token (the (authorization req)))))"
proof -
  from assms(1) have hb: "has_bearer (authorization req)"
    unfolding authMiddleware_def by (auto split: if_splits)
  from assms hb obtain session where
    "db_findOne (inMemory s) (user_sessions s)
       (session_query (bearer_token (the (authorization req))) now) = Some session"
    unfolding authMiddleware_def by (auto simp: Let_def split: option.splits)
  from session_lookup_Some[OF this] hb show ?thesis by blast
qed

lemma authMiddleware_unfold:
  assumes "has_bearer (authorization req)"
    and "db_findOne (inMemory s) (user_sessions s)
           (session_query (bearer_token (the (authorization req))) now) = None"
  shows "authMiddleware P s req now =
     (case jwt_verify P (bearer_token (the (authorization req))) now of
        None \<Rightarrow> Inl (error_response 401 ''Invalid or expired session'')
      | Some sub \<Rightarrow>
          if \<not> truthy_str sub then Inl (error_response 401 ''Invalid token payload'')
          else case findUserById P s (the sub) of
                 None \<Rightarrow> Inl (error_response 401 ''User not found'')
               | Some user \<Rightarrow>
                   Inr (AList.update ''is_staff'' (VBool (truthy (fld user ''is_staff''))) user))"
  using assms by (simp add: authMiddleware_def Let_def)

lemma authMiddleware_sessions_cong:
  assumes "inMemory s' = inMemory s" and "users s' = users s"
    and "has_bearer (authorization req) \<Longrightarrow>
         db_findOne (inMemory s) (user_sessions s')
           (session_query (bearer_token (the (authorization req))) now)
         = db_findOne (inMemory s) (user_sessions s)
           (session_query (bearer_token (the (authorization req))) now)"
  shows "authMiddleware P s' req now = authMiddleware P s req now"
proof (cases "has_bearer (authorization req)")
  case True
  have fu: "\<And>i. findUserById P s' i = findUserById P s i"
    using assms(1,2) by (simp add: findUserById_def)
  show ?thesis
    unfolding authMiddleware_def using True assms(1) assms(3)[OF True] fu
    by (simp add: Let_def cong: option.case_cong if_cong)
next
  case False
  then show ?thesis by (simp add: authMiddleware_def)
qed

lemma bits_0: "bits n = 0 \<longleftrightarrow> n = 0"
  by (subst bits.simps) simp

lemma bits_le: "bits n \<le> k \<longleftrightarrow> n < 2 ^ k"
proof (induction k arbitrary: n)
  case 0
  show ?case using bits_0[of n] by simp
next
  case (Suc k)
  have "bits n \<le> Suc k \<longleftrightarrow> n = 0 \<or> bits (n div 2) \<le> k"
    by (subst bits.simps) simp
  also have "\<dots> \<longleftrightarrow> n = 0 \<or> n div 2 < 2 ^ k" using Suc.IH by simp
  also have "\<dots> \<longleftrightarrow> n < 2 ^ Suc k" by auto
  finally show ?case .
qed

lemma pow2_powi: "pow2 e = 2 powi e"
  by (simp add: pow2_def power_int_def inverse_eq_divide power_one_over)

lemma floor_log2_le:
  assumes "0 < a"
  shows "pow2 (floor_log2 a) \<le> a"
proof (cases "1 \<le> a")
  case True
  define n where "n = nat \<lfloor>a\<rfloor>"
  have "1 \<le> \<lfloor>a\<rfloor>" using True by linarith
  then have n1: "1 \<le> n" unfolding n_def by linarith
  then have b1: "1 \<le> bits n" using bits_0[of n] by simp
  have "\<not> bits n \<le> bits n - 1" using b1 by simp
  then have "2 ^ (bits n - 1) \<le> n" unfolding bits_le by simp
  then have "(2::rat) ^ (bits n - 1) \<le> of_nat n"
    by (metis of_nat_le_iff of_nat_numeral of_nat_power)
  also have "\<dots> \<le> a" using True by (simp add: n_def)
  finally have "(2::rat) ^ (bits n - 1) \<le> a" .
  moreover have "floor_log2 a = int (bits n - 1)"
    using True b1 by (simp add: floor_log2_def n_def)
  ultimately show ?thesis by (simp add: pow2_def)
next
  case False
  define n where "n = nat \<lceil>1 / a\<rceil>"
  define m where "m = bits (n - 1)"
  have inv: "1 < 1 / a" using False assms by simp
  then have "2 \<le> \<lceil>1 / a\<rceil>" by linarith
  then have n2: "2 \<le> n" unfolding n_def by linarith
  then have m1: "1 \<le> m" using bits_0[of "n - 1"] by (simp add: m_def)
  have "n - 1 < 2 ^ m" using bits_le[of "n - 1" m] by (simp add: m_def)
  then have "n \<le> 2 ^ m" using n2 by simp
  then have "of_nat n \<le> (2::rat) ^ m"
    by (metis of_nat_le_iff of_nat_numeral of_nat_power)
  moreover have "1 / a \<le> of_nat n"
    unfolding n_def using inv by (simp add: of_nat_ceiling)
  ultimately have "1 / a \<le> 2 ^ m" by (rule order_trans[rotated])
  then have "1 / 2 ^ m \<le> a" using assms
    by (simp add: field_simps)
  moreover have "floor_log2 a = - int m"
    using False by (simp add: floor_log2_def n_def m_def)
  ultimately show ?thesis using m1 by (simp add: pow2_def)
qed

lemma floor_log2_ge:
  assumes "1 / 64 \<le> a"
  shows "- 6 \<le> floor_log2 a"
proof (cases "1 \<le> a")
  case True
  then show ?thesis by (simp add: floor_log2_def)
next
  case False
  have a0: "0 < a" using assms by simp
  have "1 / a \<le> 64" using assms a0 by (simp add: field_simps)
  then have "\<lceil>1 / a\<rceil> \<le> 64" by (simp add: ceiling_le_iff)
  then have "nat \<lceil>1 / a\<rceil> \<le> 64" by linarith
  then have "nat \<lceil>1 / a\<rceil> - 1 < 2 ^ 6" by simp
  then have "bits (nat \<lceil>1 / a\<rceil> - 1) \<le> 6" unfolding bits_le .
  then show ?thesis using False by (simp add: floor_log2_def)
qed

lemma round_half_even_near: "\<bar>of_int (round_half_even q) - q\<bar> \<le> 1 / 2"
proof -
  have "of_int \<lfloor>q\<rfloor> \<le> q" "q < of_int \<lfloor>q\<rfloor> + 1" by linarith+
  then show ?thesis
    by (auto simp: round_half_even_def Let_def abs_le_iff)
qed

lemma round_double_near:
  assumes "1 / 64 \<le> x"
  shows "\<bar>round_double x - x\<bar> \<le> x / 2 ^ 53"
proof -
  have x0: "0 < x" using assms by simp
  define k where "k = floor_log2 x"
  define p where "p = pow2 (k - 52)"
  have e: "max (floor_log2 x - 52) (- 1074) = k - 52"
    using floor_log2_ge[OF assms] by (simp add: k_def)
  have p0: "0 < p" by (simp add: p_def pow2_powi)
  have "p = pow2 k / 2 ^ 52"
    by (simp add: p_def pow2_powi power_int_diff)
  then have pk: "p \<le> x / 2 ^ 52"
    using floor_log2_le[OF x0] by (simp add: k_def divide_right_mono)
  have rd: "round_double x = of_int (round_half_even (x / p)) * p"
    using x0 e by (simp add: round_double_def Let_def p_def k_def)
  have "\<bar>round_double x - x\<bar> = \<bar>of_int (round_half_even (x / p)) - x / p\<bar> * p"
    using p0 unfolding rd by (simp add: abs_mult_pos'[symmetric] field_simps)
  also have "\<dots> \<le> 1 / 2 * p"
    using round_half_even_near[of "x / p"] p0 by (intro mult_right_mono) simp_all
  also have "\<dots> \<le> x / 2 ^ 53" using pk by simp
  finally show ?thesis .
qed

lemma fee_near:
  assumes "1 \<le> a"
  shows "\<bar>js_mul a lit_0_02 - a * (2 / 100)\<bar> \<le> a * (2 / 100) / 2 ^ 52"
proof -
  let ?l = "5764607523034235 / 288230376151711744 :: rat"
  have l: "1 / 64 \<le> a * ?l"
  proof -
    have "1 / 64 \<le> 1 * ?l" by simp
    also have "\<dots> \<le> a * ?l" using assms by (intro mult_right_mono) simp_all
    finally show ?thesis .
  qed
  have "\<bar>js_mul a lit_0_02 - a * ?l\<bar> \<le> a * ?l / 2 ^ 53"
    unfolding js_mul_def lit_0_02_value by (rule round_double_near[OF l])
  moreover have "\<bar>a * ?l - a * (2 / 100)\<bar> = a * (?l - 2 / 100)"
  proof -
    have "a * ?l - a * (2 / 100) = a * (?l - 2 / 100)" by (simp add: algebra_simps)
    moreover have "0 \<le> a * (?l - 2 / 100)" using assms by simp
    ultimately show ?thesis by simp
  qed
  moreover have "a * ?l / 2 ^ 53 + a * (?l - 2 / 100) \<le> a * (2 / 100) / 2 ^ 52"
  proof -
    have "a * ?l / 2 ^ 53 + a * (?l - 2 / 100) = a * (?l / 2 ^ 53 + (?l - 2 / 100))"
      by (simp add: algebra_simps)
    also have "\<dots> \<le> a * ((2 / 100) / 2 ^ 52)"
      using assms by (intro mult_left_mono) simp_all
    finally show ?thesis by simp
  qed
  ultimately show ?thesis by linarith
qed

lemma fee_35: "js_mul 35 lit_0_02 = 6305039478318695 / 9007199254740992"
  by code_simp

lemma lit_0_7: "round_double (35 * (2 / 100)) = 6305039478318694 / 9007199254740992"
  by code_simp

lemma sample_schema_35:
  "CreatePaymentSchema (body sample_payment_35) = Inr (body sample_payment_35)"
  by (simp add: CreatePaymentSchema_def sample_payment_35_def zod_result_def zod_string_def
      zod_number_def zod_optional_def zod_strip_def fld_simps name_char_def account_char_def
      country_char_def is_letter_def is_lower_def is_upper_def is_digit_def is_space_def
      swift_pattern_def)

lemma sample_auth_35:
  "authMiddleware sample_platform (sample_server True) sample_payment_35 1700000123456
     = authMiddleware sample_platform (sample_server True) sample_payment 1700000123456"
  by (rule authMiddleware_cong) (simp_all add: sample_payment_35_def)

lemma sample_whitelist_35: "whitelist_error sample_platform (body sample_payment_35) = None"
  by (simp add: whitelist_error_def sample_payment_35_def fld_simps js_String_def
      whitelist_name_def whitelist_account_def whitelist_country_def name_char_def
      account_char_i_def country_char_def is_letter_def is_lower_def is_upper_def is_digit_def
      is_space_def)

lemma sample_fee_35:
  "transactionFee (body sample_payment_35) = 6305039478318695 / 9007199254740992"
  by (simp add: transactionFee_def sample_payment_35_def fld_simps fee_35)

lemma sum_caseI:
  "(\<And>a. x = Inl a \<Longrightarrow> Q (f a)) \<Longrightarrow> (\<And>b. x = Inr b \<Longrightarrow> Q (g b)) \<Longrightarrow> Q (case_sum f g x)"
  by (cases x) simp_all

lemma option_caseI:
  "(x = None \<Longrightarrow> Q a) \<Longrightarrow> (\<And>y. x = Some y \<Longrightarrow> Q (f y)) \<Longrightarrow> Q (case_option a f x)"
  by (cases x) simp_all

lemma prod_caseI: "(\<And>a b. x = (a, b) \<Longrightarrow> Q (f a b)) \<Longrightarrow> Q (case_prod f x)"
  by (cases x) simp_all

lemma LetI: "(\<And>y. y = x \<Longrightarrow> Q (f y)) \<Longrightarrow> Q (Let x f)"
  by simp

lemma ifI: "(c \<Longrightarrow> Q a) \<Longrightarrow> (\<not> c \<Longrightarrow> Q b) \<Longrightarrow> Q (if c then a else b)"
  by simp

lemma val_caseI:
  "(v = VNull \<Longrightarrow> Q a) \<Longrightarrow> (\<And>b. v = VBool b \<Longrightarrow> Q (f1 b)) \<Longrightarrow> (\<And>n. v = VNum n \<Longrightarrow> Q (f2 n))
   \<Longrightarrow> (\<And>s. v = VStr s \<Longrightarrow> Q (f3 s)) \<Longrightarrow> (\<And>t. v = VDate t \<Longrightarrow> Q (f4 t))
   \<Longrightarrow> (\<And>h. v = VOid h \<Longrightarrow> Q (f5 h)) \<Longrightarrow> Q (case_val a f1 f2 f3 f4 f5 v)"
  by (cases v) simp_all

lemmas caseI = sum_caseI option_caseI prod_caseI LetI ifI val_caseI

lemma login_users: "users (snd (login P s req now tok nid)) = users s"
  unfolding login_def
  by (intro caseI[where Q = "\<lambda>z. users (snd z) = users s"]) simp_all

lemma logout_users: "users (snd (logout P s req now)) = users s"
  by (simp add: logout_def Let_def split: sum.splits prod.splits)

lemma createPayment_users: "users (snd (createPayment P s req now draw nid)) = users s"
  by (simp add: createPayment_def Let_def split: sum.splits option.splits prod.splits)

lemma verifyTransaction_users: "users (snd (verifyTransaction P s req now)) = users s"
  by (simp add: verifyTransaction_def Let_def split: sum.splits option.splits prod.splits)

lemma register_users:
  "users (snd (register P s req now salt nid)) = users s
   \<or> (\<exists>b pw i. users (snd (register P s req now salt nid)) = users s @ [newUser b pw now @ [(''_id'', i)]])"
  by (auto simp: register_def Let_def db_insertOne_def insertOne_def mongo_insertOne_def
      newUser_fields split: sum.splits option.splits prod.splits if_splits)

lemma login_base_users: "users (snd (login_base P s req now tok nid)) = users s"
  unfolding login_base_def
  by (intro caseI[where Q = "\<lambda>z. users (snd z) = users s"]) simp_all

lemma newSession_is_staff:
  "fld (newSession u tok c a now) ''is_staff'' = None"
  "fld (newSession u tok c a now @ [(''_id'', i)]) ''is_staff'' = None"
  by (simp_all add: newSession_def fld_def opt_field_def split: option.splits)

lemma login_base_sessions:
  assumes "\<forall>se\<in>set (user_sessions s). \<not> truthy (fld se ''is_staff'')"
  shows "\<forall>se\<in>set (user_sessions (snd (login_base P s req now tok nid))). \<not> truthy (fld se ''is_staff'')"
  unfolding login_base_def
  apply (intro caseI[where Q = "\<lambda>z. \<forall>se\<in>set (user_sessions (snd z)). \<not> truthy (fld se ''is_staff'')"])
  using assms by (auto dest!: mongo_insertOne_Inr simp: newSession_is_staff)

lemma mongo_updateOne_sessions:
  assumes "\<forall>se\<in>set coll. \<not> truthy (fld se ''is_staff'')"
  shows "\<forall>se\<in>set (snd (mongo_updateOne coll q [(''is_active'', VBool False), (''updated_at'', VDate now)])).
           \<not> truthy (fld se ''is_staff'')"
proof (cases "findIndex (\<lambda>d. mongo_match d q) coll")
  case None
  then show ?thesis using assms by (simp add: mongo_updateOne_def)
next
  case (Some idx)
  let ?y = "spread (coll ! idx) [(''is_active'', VBool False), (''updated_at'', VDate now)]"
  have r: "snd (mongo_updateOne coll q [(''is_active'', VBool False), (''updated_at'', VDate now)])
             = coll[idx := ?y]"
    using Some by (simp add: mongo_updateOne_def)
  from findIndex_Some[OF Some] have "idx < length coll" by simp
  then have "\<not> truthy (fld (coll ! idx) ''is_staff'')" using assms by simp
  then have "\<not> truthy (fld ?y ''is_staff'')" by (simp add: fld_spread_logout)
  moreover have "set (coll[idx := ?y]) \<subseteq> insert ?y (set coll)" by (rule set_update_subset_insert)
  ultimately show ?thesis unfolding r using assms by blast
qed

lemma logout_base_state:
  "users (snd (logout_base s req now)) = users s"
  "\<forall>se\<in>set (user_sessions s). \<not> truthy (fld se ''is_staff'') \<Longrightarrow>
   \<forall>se\<in>set (user_sessions (snd (logout_base s req now))). \<not> truthy (fld se ''is_staff'')"
  using mongo_updateOne_sessions[of "user_sessions s"]
  by (auto simp: logout_base_def Let_def split_beta split: sum.splits)

lemma createPayment_base_state:
  "users (snd (createPayment_base P s req now draw nid)) = users s"
  "user_sessions (snd (createPayment_base P s req now draw nid)) = user_sessions s"
  by (simp_all add: createPayment_base_def Let_def split: sum.splits option.splits prod.splits)

lemma verifyTransaction_base_state:
  "users (snd (verifyTransaction_base P s req now)) = users s"
  "user_sessions (snd (verifyTransaction_base P s req now)) = user_sessions s"
  by (simp_all add: verifyTransaction_base_def Let_def split: sum.splits option.splits prod.splits)

lemma register_base_state:
  "users (snd (register_base P s req now salt nid)) = users s
   \<or> (\<exists>b pw i. users (snd (register_base P s req now salt nid))
         = users s @ [newUser_base b pw now @ [(''_id'', i)]])"
  "user_sessions (snd (register_base P s req now salt nid)) = user_sessions s"
  by (auto simp: register_base_def Let_def mongo_insertOne_def
      newUser_fields split: sum.splits option.splits prod.splits if_splits)

lemma serve_not_staff:
  assumes "\<forall>u\<in>set (users s). fld u ''_id'' = Some i \<longrightarrow> \<not> truthy (fld u ''is_staff'')"
  shows "\<forall>u\<in>set (users (serve P s c)). fld u ''_id'' = Some i \<longrightarrow> \<not> truthy (fld u ''is_staff'')"
proof (cases c)
  case (Register req now salt nid)
  with register_users[of P s req now salt nid] assms show ?thesis
    by (auto simp: newUser_fields)
qed (use assms in \<open>simp_all add: login_users logout_users createPayment_users verifyTransaction_users\<close>)

lemma run_not_staff:
  assumes "\<forall>u\<in>set (users s). fld u ''_id'' = Some i \<longrightarrow> \<not> truthy (fld u ''is_staff'')"
  shows "\<forall>u\<in>set (users (run P s cs)). fld u ''_id'' = Some i \<longrightarrow> \<not> truthy (fld u ''is_staff'')"
  using assms
proof (induction cs arbitrary: s)
  case Nil
  then show ?case by (simp add: run_def)
next
  case (Cons c cs)
  from Cons.IH[OF serve_not_staff[OF Cons.prems]] show ?case by (simp add: run_def)
qed

lemma serve_base_not_staff:
  assumes "\<forall>u\<in>set (users s). fld u ''_id'' \<noteq> None"
    and "\<forall>se\<in>set (user_sessions s). \<not> truthy (fld se ''is_staff'')"
    and "\<forall>u\<in>set (users s). fld u ''_id'' = Some i \<longrightarrow> \<not> truthy (fld u ''is_staff'')"
  shows "(\<forall>u\<in>set (users (serve_base P s c)). fld u ''_id'' \<noteq> None)
       \<and> (\<forall>se\<in>set (user_sessions (serve_base P s c)). \<not> truthy (fld se ''is_staff''))
       \<and> (\<forall>u\<in>set (users (serve_base P s c)). fld u ''_id'' = Some i \<longrightarrow> \<not> truthy (fld u ''is_staff''))"
proof (cases c)
  case (Register req now salt nid)
  with register_base_state[of P s req now salt nid] assms show ?thesis
    by (auto simp: newUser_fields)
next
  case (Login req now tok nid)
  with login_base_sessions[OF assms(2), of P req now tok nid] assms show ?thesis
    by (simp add: login_base_users)
next
  case (Logout req now)
  with logout_base_state(2)[OF assms(2), of req now] assms show ?thesis
    by (simp add: logout_base_state(1))
next
  case (CreatePayment req now draw nid)
  with assms show ?thesis by (simp add: createPayment_base_state)
next
  case (VerifyTransaction req now)
  with assms show ?thesis by (simp add: verifyTransaction_base_state)
qed

lemma run_base_not_staff:
  assumes "\<forall>u\<in>set (users s). fld u ''_id'' \<noteq> None"
    and "\<forall>se\<in>set (user_sessions s). \<not> truthy (fld se ''is_staff'')"
    and "\<forall>u\<in>set (users s). fld u ''_id'' = Some i \<longrightarrow> \<not> truthy (fld u ''is_staff'')"
  shows "(\<forall>u\<in>set (users (run_base P s cs)). fld u ''_id'' \<noteq> None)
       \<and> (\<forall>se\<in>set (user_sessions (run_base P s cs)). \<not> truthy (fld se ''is_staff''))
       \<and> (\<forall>u\<in>set (users (run_base P s cs)). fld u ''_id'' = Some i \<longrightarrow> \<not> truthy (fld u ''is_staff''))"
  using assms
proof (induction cs arbitrary: s)
  case Nil
  then show ?case by (simp add: run_base_def)
next
  case (Cons c cs)
  from serve_base_not_staff[OF Cons.prems, of P c]
  have a: "\<forall>u\<in>set (users (serve_base P s c)). fld u ''_id'' \<noteq> None"
    and b: "\<forall>se\<in>set (user_sessions (serve_base P s c)). \<not> truthy (fld se ''is_staff'')"
    and c: "\<forall>u\<in>set (users (serve_base P s c)). fld u ''_id'' = Some i \<longrightarrow> \<not> truthy (fld u ''is_staff'')"
    by blast+
  from Cons.IH[OF a b c] show ?case by (simp add: run_base_def)
qed

lemma register_accepted_id:
  assumes "register P s req now salt newid = (r, s1)" and "status r = 200"
  shows "\<exists>b pw i. i = (if inMemory s then VStr newid else VOid newid)
           \<and> users s1 = users s @ [newUser b pw now @ [(''_id'', i)]]
           \<and> r = ok_response (Some ''Registration successful'') (Some (JObj [(''userId'', JVal i)]))
           \<and> (\<not> inMemory s \<longrightarrow> (\<forall>u\<in>set (users s). fld u ''_id'' \<noteq> Some i))"
  using assms
  by (auto simp: register_def Let_def status_error_response db_insertOne_def insertOne_def
      mongo_insertOne_def newUser_fields duplicate_key_def
      split: sum.splits option.splits prod.splits if_splits) blast+

lemma register_base_accepted_id:
  assumes "register_base P s req now salt newid = (r, s1)" and "status r = 200"
  shows "\<exists>b pw. users s1 = users s @ [newUser_base b pw now @ [(''_id'', VOid newid)]]
           \<and> user_sessions s1 = user_sessions s
           \<and> r = ok_response (Some ''Registration successful'') (Some (JObj [(''userId'', JVal (VOid newid))]))
           \<and> (\<forall>u\<in>set (users s). fld u ''_id'' \<noteq> Some (VOid newid))"
  using assms
  by (auto simp: register_base_def Let_def status_error_response
      mongo_insertOne_def newUser_fields duplicate_key_def
      split: sum.splits option.splits prod.splits if_splits) blast+

lemma sample_platform_fields:
  "STRICT_BINDING sample_platform"
  "bcrypt_hash sample_platform pw salt = salt @ pw"
  "bcrypt_compare sample_platform pw h = (drop 4 h = pw)"
  by (simp_all add: sample_platform_def)

lemma sample_register_body:
  "fld (body sample_register) ''email'' = Some (VStr ''b@x.com'')"
  "fld (body sample_register) ''account_number'' = None"
  "fld (body sample_register) ''password'' = Some (VStr ''Abc12345!'')"
  by (simp_all add: sample_register_def fld_simps)

lemma sample_register_response:
  "fst (register sample_platform (sample_server True) sample_register 1700000123456 ''salt'' ''u2'')
     = ok_response (Some ''Registration successful'') (Some (JObj [(''userId'', JVal (VStr ''u2''))]))"
  "fst (register_base sample_platform (sample_server False) sample_register 1700000123456 ''salt''
          ''65a000000000000000000005'')
     = ok_response (Some ''Registration successful'')
         (Some (JObj [(''userId'', JVal (VOid ''65a000000000000000000005''))]))"
  by (simp_all add: register_def register_base_def sample_register_schema Let_def checkRateLimit_def
      sample_server_fields sample_register_lookup sample_register_no_duplicate db_insertOne_def
      insertOne_def mongo_insertOne_def newUser_fields)

lemma sample_registered_fields:
  "inMemory sample_registered = True"
  "users sample_registered =
     [sample_user (VStr ''u1''),
      [(''email'', VStr ''b@x.com''), (''password_hash'', VStr ''saltAbc12345!''),
       (''is_verified'', VBool False), (''is_active'', VBool True), (''is_staff'', VBool False),
       (''created_at'', VDate 1700000123456), (''updated_at'', VDate 1700000123456),
       (''_id'', VStr ''u2'')]]"
  "user_sessions sample_registered = [sample_session (VStr ''u1'') (VStr ''s1'')]"
  "rateLimitMap sample_registered ''login:203.0.113.4'' = None"
  unfolding sample_registered_def
     apply (simp_all add: register_def sample_register_schema Let_def checkRateLimit_def
      sample_server_fields sample_register_lookup db_insertOne_def insertOne_def newUser_fields)
    apply (simp_all add: sample_server_def newUser_def sample_register_body sample_platform_fields
      js_String_def opt_field_def clientIP_def truthy_str_def sample_register_def fld_simps)
  done

lemma sample_registered_base_fields:
  "users sample_registered_base =
     [sample_user (VOid ''65a000000000000000000001''),
      [(''email'', VStr ''b@x.com''), (''password_hash'', VStr ''saltAbc12345!''),
       (''is_verified'', VBool False), (''is_active'', VBool True),
       (''created_at'', VDate 1700000123456), (''updated_at'', VDate 1700000123456),
       (''_id'', VOid ''65a000000000000000000005'')]]"
  "user_sessions sample_registered_base =
     [sample_session (VOid ''65a000000000000000000001'') (VOid ''65a000000000000000000002'')]"
  "rateLimitMap sample_registered_base ''203.0.113.4'' = Some \<lparr>count = 1, resetTime = 1700000423456\<rparr>"
  unfolding sample_registered_base_def
     apply (simp_all add: register_base_def sample_register_schema Let_def checkRateLimit_def
      sample_server_fields sample_register_lookup sample_register_no_duplicate
      mongo_insertOne_def newUser_fields)
    apply (simp_all add: sample_server_def newUser_base_def sample_register_body sample_platform_fields
      js_String_def opt_field_def clientIP_def truthy_str_def sample_register_def fld_simps)
  done

lemma sample_register_fields:
  "ip sample_register = Some ''203.0.113.4''"
  "user_agent sample_register = Some ''curl''"
  by (simp_all add: sample_register_def)

lemma sample_login_schema:
  "LoginSchema sample_platform (body sample_register) = Inr (body sample_register)"
  by (simp add: LoginSchema_def sample_register_def sample_platform_def zod_result_def
      zod_string_def zod_optional_def zod_strip_def fld_simps Let_def)

lemma sample_logged_in_fields:
  "inMemory sample_logged_in = True"
  "users sample_logged_in = users sample_registered"
  "user_sessions sample_logged_in =
     [sample_session (VStr ''u1'') (VStr ''s1''),
      [(''user_id'', VStr ''u2''), (''session_token'', VStr ''70ken''),
       (''expires_at'', VDate 1700086600000), (''ip_address'', VStr ''203.0.113.4''),
       (''user_agent'', VStr ''curl''), (''is_active'', VBool True),
       (''created_at'', VDate 1700000200000), (''updated_at'', VDate 1700000200000),
       (''_id'', VStr ''s2'')]]"
  unfolding sample_logged_in_def run_def
  by (simp_all add: login_def sample_login_schema Let_def checkRateLimit_def
      sample_registered_fields sample_register_body sample_register_fields db_findOne_def
      findOne_def fld_simps sample_user_def sample_platform_fields js_String_def db_insertOne_def
      insertOne_def clientIP_def truthy_str_def opt_field_def)

lemma sample_logged_in_base_fields:
  "users sample_logged_in_base = users sample_registered_base"
  "user_sessions sample_logged_in_base =
     [sample_session (VOid ''65a000000000000000000001'') (VOid ''65a000000000000000000002''),
      [(''user_id'', VOid ''65a000000000000000000005''), (''session_token'', VStr ''70ken''),
       (''expires_at'', VDate 1700086600000), (''ip_address'', VStr ''203.0.113.4''),
       (''user_agent'', VStr ''curl''), (''is_active'', VBool True),
       (''created_at'', VDate 1700000200000), (''updated_at'', VDate 1700000200000),
       (''_id'', VOid ''65a000000000000000000006'')]]"
  unfolding sample_logged_in_base_def run_base_def
  by (simp_all add: login_base_def sample_login_schema Let_def checkRateLimit_def
      sample_registered_base_fields sample_register_body sample_register_fields mongo_findOne_def
      bson_eq_def fld_simps sample_user_def sample_session_def sample_platform_fields js_String_def
      mongo_insertOne_def duplicate_key_def user_sessions_indexes_def newSession_def
      clientIP_def truthy_str_def opt_field_def)

lemma sample_admin_auth:
  "\<exists>p. authMiddleware sample_platform sample_logged_in sample_admin 1700000300000 = Inr p
       \<and> fld p ''_id'' = Some (VStr ''u2'')"
  by (simp add: authMiddleware_def sample_admin_def has_bearer_def bearer_token_def db_findOne_def
      findOne_def session_query_def sample_logged_in_fields sample_registered_fields
      sample_session_def sample_user_def fld_simps js_gt_def js_String_def findUserById_def
      clientIP_def truthy_str_def Let_def sample_platform_fields fld_update fld_spread)

lemma sample_admin_auth_base:
  "\<exists>p. authMiddleware_base sample_logged_in_base sample_admin 1700000300000 = Inr p
       \<and> fld p ''_id'' = Some (VOid ''65a000000000000000000005'')"
  by (simp add: authMiddleware_base_def sample_admin_def has_bearer_def bearer_token_def
      mongo_findOne_def bson_eq_def session_query_def sample_logged_in_base_fields
      sample_registered_base_fields sample_session_def sample_user_def fld_simps js_gt_def
      Let_def fld_spread)

subsection \<open>C2: the fixed-window rate limiter\<close>

text \<open>
  C2. A call for a key that has no entry, or whose entry's \<open>resetTime\<close> lies before
  the clock, stores \<open>count = 1\<close>, \<open>resetTime = now + windowMs\<close> and allows. Any other
  call allows exactly when the incremented count stays at most \<open>maxRequests\<close>. So after
  a call that opens a window, each later call for the key inside the window (whatever
  calls for other keys come in between) is allowed exactly when it is at most the
  \<open>maxRequests\<close>-th call of the window, and a call after the window is allowed again.
\<close>

theorem checkRateLimit_fixed_window:
  assumes opens: "m key = None \<or> (\<exists>e. m key = Some e \<and> t0 > resetTime e)"
    and within: "\<forall>c\<in>set cs. call_key c = key \<longrightarrow>
                   call_now c \<le> t0 + windowMs \<and> call_max c = maxRequests"
    and later: "t1 > t0 + windowMs"
  shows "checkRateLimit m t0 key maxRequests windowMs
           = (True, m(key \<mapsto> \<lparr>count = 1, resetTime = t0 + windowMs\<rparr>))
       \<and> (\<forall>i<length cs. call_key (cs ! i) = key \<longrightarrow>
            fst (run_calls (snd (checkRateLimit m t0 key maxRequests windowMs)) cs) ! i
              = (int (calls_before key cs i) + 2 \<le> maxRequests))
       \<and> fst (checkRateLimit
                (snd (run_calls (snd (checkRateLimit m t0 key maxRequests windowMs)) cs))
                t1 key maxRequests windowMs) = True
       \<and> (\<forall>m' e now. m' key = Some e \<and> now \<le> resetTime e \<longrightarrow>
            checkRateLimit m' now key maxRequests windowMs
              = (if count e + 1 \<le> maxRequests
                 then (True, m'(key \<mapsto> e\<lparr>count := count e + 1\<rparr>)) else (False, m')))"
proof -
  let ?e0 = "\<lparr>count = 1, resetTime = t0 + windowMs\<rparr>"
  let ?m1 = "m(key \<mapsto> ?e0)"
  have first: "checkRateLimit m t0 key maxRequests windowMs = (True, ?m1)"
    using opens by (auto simp: checkRateLimit_def)
  have m1: "?m1 key = Some ?e0" by simp
  have win: "\<forall>c\<in>set cs. call_key c = key \<longrightarrow>
               call_now c \<le> resetTime ?e0 \<and> call_max c = maxRequests"
    using within by simp
  from run_calls_window[of ?m1 key ?e0 cs maxRequests, OF m1 win]
  have seq: "\<forall>i<length cs. call_key (cs ! i) = key \<longrightarrow>
            fst (run_calls ?m1 cs) ! i = (1 + int (calls_before key cs i) < maxRequests)"
    and fin: "\<exists>e'. snd (run_calls ?m1 cs) key = Some e' \<and> resetTime e' = t0 + windowMs"
    by simp_all
  from fin obtain e' where e': "snd (run_calls ?m1 cs) key = Some e'"
    "resetTime e' = t0 + windowMs" by blast
  have again: "fst (checkRateLimit (snd (run_calls ?m1 cs)) t1 key maxRequests windowMs) = True"
    using e' later by (simp add: checkRateLimit_def)
  have step: "\<forall>m' e now. m' key = Some e \<and> now \<le> resetTime e \<longrightarrow>
            checkRateLimit m' now key maxRequests windowMs
              = (if count e + 1 \<le> maxRequests
                 then (True, m'(key \<mapsto> e\<lparr>count := count e + 1\<rparr>)) else (False, m'))"
    by (auto simp: checkRateLimit_def)
  have seq': "\<forall>i<length cs. call_key (cs ! i) = key \<longrightarrow>
            fst (run_calls ?m1 cs) ! i = (int (calls_before key cs i) + 2 \<le> maxRequests)"
    using seq by auto
  show ?thesis
    unfolding first using seq' again step unfolding first by simp
qed

text \<open>Five login attempts are allowed, the sixth in the window is refused, the next window allows.\<close>

theorem checkRateLimit_fixed_window_witness:
  "fst (run_calls (snd (checkRateLimit Map.empty 1000 ''login:203.0.113.4'' 5 900000))
      [\<lparr>call_key = ''login:203.0.113.4'', call_max = 5, call_window = 900000, call_now = 2000\<rparr>,
       \<lparr>call_key = ''login:203.0.113.4'', call_max = 5, call_window = 900000, call_now = 3000\<rparr>,
       \<lparr>call_key = ''payments:203.0.113.4'', call_max = 10, call_window = 3600000, call_now = 3500\<rparr>,
       \<lparr>call_key = ''login:203.0.113.4'', call_max = 5, call_window = 900000, call_now = 4000\<rparr>,
       \<lparr>call_key = ''login:203.0.113.4'', call_max = 5, call_window = 900000, call_now = 5000\<rparr>,
       \<lparr>call_key = ''login:203.0.113.4'', call_max = 5, call_window = 900000, call_now = 901000\<rparr>]) ! 5
     = False
   \<and> fst (checkRateLimit (snd (run_calls (snd (checkRateLimit Map.empty 1000 ''login:203.0.113.4'' 5 900000))
      [\<lparr>call_key = ''login:203.0.113.4'', call_max = 5, call_window = 900000, call_now = 2000\<rparr>,
       \<lparr>call_key = ''login:203.0.113.4'', call_max = 5, call_window = 900000, call_now = 3000\<rparr>,
       \<lparr>call_key = ''payments:203.0.113.4'', call_max = 10, call_window = 3600000, call_now = 3500\<rparr>,
       \<lparr>call_key = ''login:203.0.113.4'', call_max = 5, call_window = 900000, call_now = 4000\<rparr>,
       \<lparr>call_key = ''login:203.0.113.4'', call_max = 5, call_window = 900000, call_now = 5000\<rparr>,
       \<lparr>call_key = ''login:203.0.113.4'', call_max = 5, call_window = 900000, call_now = 901000\<rparr>]))
       901001 ''login:203.0.113.4'' 5 900000) = True"
proof -
  let ?cs = "[\<lparr>call_key = ''login:203.0.113.4'', call_max = 5, call_window = 900000, call_now = 2000\<rparr>,
       \<lparr>call_key = ''login:203.0.113.4'', call_max = 5, call_window = 900000, call_now = 3000\<rparr>,
       \<lparr>call_key = ''payments:203.0.113.4'', call_max = 10, call_window = 3600000, call_now = 3500\<rparr>,
       \<lparr>call_key = ''login:203.0.113.4'', call_max = 5, call_window = 900000, call_now = 4000\<rparr>,
       \<lparr>call_key = ''login:203.0.113.4'', call_max = 5, call_window = 900000, call_now = 5000\<rparr>,
       \<lparr>call_key = ''login:203.0.113.4'', call_max = 5, call_window = 900000, call_now = (901000::int)\<rparr>]"
  have h1: "(Map.empty :: rateLimitMap) ''login:203.0.113.4'' = None
      \<or> (\<exists>e. (Map.empty :: rateLimitMap) ''login:203.0.113.4'' = Some e \<and> 1000 > resetTime e)"
    by simp
  have h2: "\<forall>c\<in>set ?cs. call_key c = ''login:203.0.113.4'' \<longrightarrow>
                   call_now c \<le> 1000 + 900000 \<and> call_max c = 5"
    by simp
  have h3: "(901001::int) > 1000 + 900000" by simp
  have cb: "calls_before ''login:203.0.113.4'' ?cs 5 = 4"
    by (simp add: calls_before_def)
  note T = checkRateLimit_fixed_window[OF h1 h2 h3]
  have A: "fst (run_calls (snd (checkRateLimit Map.empty 1000 ''login:203.0.113.4'' 5 900000)) ?cs) ! 5
             = False"
    using T[THEN conjunct2, THEN conjunct1, rule_format, of 5] cb by simp
  show ?thesis
    using A T[THEN conjunct2, THEN conjunct2, THEN conjunct1] by simp
qed

subsection \<open>C4: the format of reference numbers\<close>

text \<open>
  C4, as stated, fails: the random part is cut out of the printed draw and is shorter
  than six characters when the draw prints with fewer than six fractional digits. The
  draw one half prints as \<open>0.i\<close> and gives a reference number of ten characters.
\<close>

theorem generateReferenceNumber_short_draw:
  "generateReferenceNumber 1700000123456 [18] = ''INT123456I''
   \<and> \<not> reference_pattern (generateReferenceNumber 1700000123456 [18])"
  by (simp add: generateReferenceNumber_def int_toString_example slice_last_def substring_def
      random_toString36_def toUpperCase_def digit36_def upper_char_def reference_pattern_def)

text \<open>
  C4, amended. For every timestamp of at least six decimal digits and every draw that
  prints with at least six fractional digits in radix 36, the reference number is
  \<open>INT\<close>, the last six digits of the timestamp and the first six digits of the draw in
  upper case: fifteen characters matching \<open>INT\d{6}[A-Z0-9]{6}\<close>.
\<close>

theorem generateReferenceNumber_pattern:
  assumes "100000 \<le> now" and "6 \<le> length ds" and "\<forall>d\<in>set ds. d < 36"
  shows "reference_pattern (generateReferenceNumber now ds)
       \<and> generateReferenceNumber now ds
           = ''INT'' @ slice_last 6 (int_toString now) @ map (\<lambda>d. upper_char (digit36 d)) (take 6 ds)"
proof -
  let ?ts = "int_toString now"
  have ts: "?ts = nat_toString (nat now)" using assms(1) by (simp add: int_toString_def)
  have "10 ^ 5 \<le> nat now" using assms(1) by simp
  then have len: "5 < length ?ts" unfolding ts by (rule nat_toString_length)
  have dig: "list_all is_digit ?ts" unfolding ts by (rule nat_toString_digits)
  have l6: "length (slice_last 6 ?ts) = 6" using len by (simp add: slice_last_def)
  have d6: "list_all is_digit (slice_last 6 ?ts)"
    using dig unfolding slice_last_def list_all_iff by (meson in_set_dropD)
  have ne: "ds \<noteq> []" using assms(2) by auto
  have rnd: "toUpperCase (substring 2 8 (random_toString36 ds))
               = map (\<lambda>d. upper_char (digit36 d)) (take 6 ds)"
    using ne by (simp add: toUpperCase_def substring_def random_toString36_def take_map)
  have lr: "length (map (\<lambda>d. upper_char (digit36 d)) (take 6 ds)) = 6"
    using assms(2) by simp
  have ur: "list_all is_upper36 (map (\<lambda>d. upper_char (digit36 d)) (take 6 ds))"
    using assms(3) unfolding list_all_iff by (auto dest: in_set_takeD intro: upper_digit36)
  have eq: "generateReferenceNumber now ds
           = ''INT'' @ slice_last 6 ?ts @ map (\<lambda>d. upper_char (digit36 d)) (take 6 ds)"
    unfolding generateReferenceNumber_def Let_def rnd by simp
  have "reference_pattern (''INT'' @ slice_last 6 ?ts @ map (\<lambda>d. upper_char (digit36 d)) (take 6 ds))"
    unfolding reference_pattern_def using l6 d6 lr ur by simp
  with eq show ?thesis by simp
qed

theorem generateReferenceNumber_pattern_witness:
  "generateReferenceNumber 1700000123456 [10, 1, 35, 0, 18, 7, 3, 3] = ''INT123456A1Z0I7''
   \<and> reference_pattern (generateReferenceNumber 1700000123456 [10, 1, 35, 0, 18, 7, 3, 3])"
proof -
  have h1: "(100000::int) \<le> 1700000123456" by simp
  have h2: "6 \<le> length [10, 1, 35, 0, 18, 7, 3, 3::nat]" by simp
  have h3: "\<forall>d\<in>set [10, 1, 35, 0, 18, 7, 3, 3::nat]. d < 36" by simp
  have v: "generateReferenceNumber 1700000123456 [10, 1, 35, 0, 18, 7, 3, 3] = ''INT123456A1Z0I7''"
    by (simp add: generateReferenceNumber_def int_toString_example slice_last_def substring_def
        random_toString36_def toUpperCase_def digit36_def upper_char_def)
  from generateReferenceNumber_pattern[OF h1 h2 h3] have "reference_pattern (generateReferenceNumber 1700000123456 [10, 1, 35, 0, 18, 7, 3, 3])"
    by (rule conjunct1)
  with v show ?thesis by (rule conjI)
qed

subsection \<open>C10: the stored \<open>swift_code\<close>\<close>

text \<open>
  C10. When the base variant accepts a payment request (status 200), the request
  carries a valid \<open>swift_code\<close> and the one document appended to
  \<open>payment_transactions\<close> has no \<open>swift_code\<close> field. When the fallback variant
  accepts it, the appended document holds the submitted \<open>swift_code\<close>; its document
  literal stores \<open>paymentData.swift_code || null\<close>.
\<close>

theorem createPayment_swift_code:
  "(createPayment_base P s req now draw newid = (r, s') \<and> status r = 200 \<longrightarrow>
      (\<exists>d w. payment_transactions s' = payment_transactions s @ [d]
             \<and> fld (body req) ''swift_code'' = Some (VStr w) \<and> swift_pattern w
             \<and> fld d ''swift_code'' = None))
   \<and> (createPayment P s req now draw newid = (r, s') \<and> status r = 200 \<longrightarrow>
      (\<exists>d w. payment_transactions s' = payment_transactions s @ [d]
             \<and> fld (body req) ''swift_code'' = Some (VStr w) \<and> swift_pattern w
             \<and> fld d ''swift_code'' = Some (VStr w)))
   \<and> fld (transaction_doc user pd ref fee now) ''swift_code'' = Some (or_null (fld pd ''swift_code''))"
proof (intro conjI impI)
  assume a: "createPayment_base P s req now draw newid = (r, s') \<and> status r = 200"
  from createPayment_base_accepted[of P s req now draw newid r s'] a
  obtain user pd tid where sch: "CreatePaymentSchema (body req) = Inr pd"
    and st: "payment_transactions s' = payment_transactions s
                @ [transaction_doc_base user pd (generateReferenceNumber now draw) (transactionFee pd) now
                   @ [(''_id'', tid)]]"
    by blast
  from CreatePaymentSchema_Inr(2)[OF sch] obtain w
    where w: "fld (body req) ''swift_code'' = Some (VStr w)" "swift_pattern w" by blast
  have "fld (transaction_doc_base user pd (generateReferenceNumber now draw) (transactionFee pd) now
                   @ [(''_id'', tid)]) ''swift_code'' = None"
    by (simp add: fld_snoc_other transaction_doc_base_def fld_simps)
  with st w show "\<exists>d w. payment_transactions s' = payment_transactions s @ [d]
             \<and> fld (body req) ''swift_code'' = Some (VStr w) \<and> swift_pattern w
             \<and> fld d ''swift_code'' = None"
    by blast
next
  assume a: "createPayment P s req now draw newid = (r, s') \<and> status r = 200"
  from createPayment_accepted[of P s req now draw newid r s'] a
  obtain user pd tid where sch: "CreatePaymentSchema (body req) = Inr pd"
    and st: "payment_transactions s' = payment_transactions s
                @ [transaction_doc user pd (generateReferenceNumber now draw) (transactionFee pd) now
                   @ [(''_id'', tid)]]"
    by blast
  from CreatePaymentSchema_Inr(2)[OF sch] obtain w
    where w: "fld (body req) ''swift_code'' = Some (VStr w)" "swift_pattern w" by blast
  have ne: "w \<noteq> []" using w(2) by (auto simp: swift_pattern_def)
  have "fld pd ''swift_code'' = Some (VStr w)"
    using CreatePaymentSchema_Inr(1)[OF sch] w(1) by simp
  then have "fld (transaction_doc user pd (generateReferenceNumber now draw) (transactionFee pd) now
                   @ [(''_id'', tid)]) ''swift_code'' = Some (VStr w)"
    using ne by (simp add: fld_snoc_other transaction_doc_def fld_simps or_null_def)
  with st w show "\<exists>d w. payment_transactions s' = payment_transactions s @ [d]
             \<and> fld (body req) ''swift_code'' = Some (VStr w) \<and> swift_pattern w
             \<and> fld d ''swift_code'' = Some (VStr w)"
    by blast
next
  show "fld (transaction_doc user pd ref fee now) ''swift_code'' = Some (or_null (fld pd ''swift_code''))"
    by (simp add: transaction_doc_def fld_simps)
qed

text \<open>The sample payment on both variants.\<close>

theorem createPayment_swift_code_witness:
  "(\<exists>d. payment_transactions (snd (createPayment_base sample_platform (sample_server False)
            sample_payment 1700000123456 [10, 1, 35, 0, 18, 7, 3, 3] ''65a000000000000000000003'')) = [d]
        \<and> fld d ''swift_code'' = None)
   \<and> (\<exists>d. payment_transactions (snd (createPayment sample_platform (sample_server True)
            sample_payment 1700000123456 [10, 1, 35, 0, 18, 7, 3, 3] ''tx1'')) = [d]
        \<and> fld d ''swift_code'' = Some (VStr ''NWBKGB2L''))"
proof -
  let ?b = "createPayment_base sample_platform (sample_server False)
            sample_payment 1700000123456 [10, 1, 35, 0, 18, 7, 3, 3] ''65a000000000000000000003''"
  let ?f = "createPayment sample_platform (sample_server True)
            sample_payment 1700000123456 [10, 1, 35, 0, 18, 7, 3, 3] ''tx1''"
  have hb: "?b = (fst ?b, snd ?b) \<and> status (fst ?b) = 200"
    using sample_createPayment_base_status by simp
  have hf: "?f = (fst ?f, snd ?f) \<and> status (fst ?f) = 200"
    using sample_createPayment_status by simp
  have sw: "fld (body sample_payment) ''swift_code'' = Some (VStr ''NWBKGB2L'')"
    by (simp add: sample_payment_def fld_simps)
  have e: "payment_transactions (sample_server False) = []" "payment_transactions (sample_server True) = []"
    by (simp_all add: sample_server_def)
  from createPayment_swift_code[where P = sample_platform and s = "sample_server False"
      and req = sample_payment and now = 1700000123456 and draw = "[10, 1, 35, 0, 18, 7, 3, 3]"
      and newid = "''65a000000000000000000003''" and r = "fst ?b" and s' = "snd ?b",
      THEN conjunct1, rule_format, OF hb]
  have A: "\<exists>d. payment_transactions (snd ?b) = [d] \<and> fld d ''swift_code'' = None"
    using e by auto
  from createPayment_swift_code[where P = sample_platform and s = "sample_server True"
      and req = sample_payment and now = 1700000123456 and draw = "[10, 1, 35, 0, 18, 7, 3, 3]"
      and newid = "''tx1''" and r = "fst ?f" and s' = "snd ?f",
      THEN conjunct2, THEN conjunct1, rule_format, OF hf]
  have B: "\<exists>d. payment_transactions (snd ?f) = [d] \<and> fld d ''swift_code'' = Some (VStr ''NWBKGB2L'')"
    using e sw by auto
  from A B show ?thesis by (rule conjI)
qed

subsection \<open>C8: the transaction fee\<close>

text \<open>
  C8, as stated, fails: the fee is a binary64 product, not the exact product. For the
  sample payment with the amount 35 the fee returned is 6305039478318695 / 2^53, printed
  0.7000000000000001: it is not 35 \<times> 0.02 = 0.7, and not the binary64 value nearest to
  0.7 either.
\<close>

theorem createPayment_fee_inexact:
  "fst (createPayment sample_platform (sample_server True) sample_payment_35 1700000123456
          [10, 1, 35, 0, 18, 7, 3, 3] ''tx1'')
     = payment_response (VStr ''tx1'') (generateReferenceNumber 1700000123456 [10, 1, 35, 0, 18, 7, 3, 3])
         (6305039478318695 / 9007199254740992)
   \<and> (6305039478318695 / 9007199254740992 :: rat) \<noteq> 35 * (2 / 100)
   \<and> (6305039478318695 / 9007199254740992 :: rat) \<noteq> round_double (35 * (2 / 100))"
proof (intro conjI)
  show "fst (createPayment sample_platform (sample_server True) sample_payment_35 1700000123456
          [10, 1, 35, 0, 18, 7, 3, 3] ''tx1'')
     = payment_response (VStr ''tx1'') (generateReferenceNumber 1700000123456 [10, 1, 35, 0, 18, 7, 3, 3])
         (6305039478318695 / 9007199254740992)"
    by (simp add: createPayment_def sample_auth_35 sample_auth_mem sample_schema_35
        sample_whitelist_35 Let_def checkRateLimit_def db_insertOne_def insertOne_def
        transaction_doc_no_id sample_server_fields sample_fee_35)
  show "(6305039478318695 / 9007199254740992 :: rat) \<noteq> 35 * (2 / 100)" by simp
  show "(6305039478318695 / 9007199254740992 :: rat) \<noteq> round_double (35 * (2 / 100))"
    unfolding lit_0_7 by simp
qed

text \<open>
  C8, amended. When either variant accepts a payment request (status 200), the amount
  \<open>a\<close> of the request is a number between 1 and 50000, and the fee \<open>f\<close> in the response and
  the \<open>transaction_fee\<close> of the one stored document are both the binary64 product of \<open>a\<close>
  and the literal \<open>0.02\<close>, with no rounding to cents. This product differs from
  \<open>a \<times> 0.02\<close> by at most the relative error 2^-52, and for the amount 1500 it is exactly 30.
\<close>

theorem createPayment_fee:
  "(createPayment P s req now draw newid = (r, s') \<and> status r = 200 \<longrightarrow>
      (\<exists>a f d tid. fld (body req) ''amount'' = Some (VNum a) \<and> 1 \<le> a \<and> a \<le> 50000
          \<and> f = js_mul a lit_0_02
          \<and> payment_transactions s' = payment_transactions s @ [d]
          \<and> fld d ''transaction_fee'' = Some (VNum f)
          \<and> r = payment_response tid (generateReferenceNumber now draw) f
          \<and> \<bar>f - a * (2 / 100)\<bar> \<le> a * (2 / 100) / 2 ^ 52
          \<and> (a = 1500 \<longrightarrow> f = 30)))
   \<and> (createPayment_base P s req now draw newid = (r, s') \<and> status r = 200 \<longrightarrow>
      (\<exists>a f d tid. fld (body req) ''amount'' = Some (VNum a) \<and> 1 \<le> a \<and> a \<le> 50000
          \<and> f = js_mul a lit_0_02
          \<and> payment_transactions s' = payment_transactions s @ [d]
          \<and> fld d ''transaction_fee'' = Some (VNum f)
          \<and> r = payment_response tid (generateReferenceNumber now draw) f
          \<and> \<bar>f - a * (2 / 100)\<bar> \<le> a * (2 / 100) / 2 ^ 52
          \<and> (a = 1500 \<longrightarrow> f = 30)))"
proof (intro conjI impI)
  assume a: "createPayment P s req now draw newid = (r, s') \<and> status r = 200"
  from createPayment_accepted[of P s req now draw newid r s'] a
  obtain user pd tid where sch: "CreatePaymentSchema (body req) = Inr pd"
    and r: "r = payment_response tid (generateReferenceNumber now draw) (transactionFee pd)"
    and st: "payment_transactions s' = payment_transactions s
                @ [transaction_doc user pd (generateReferenceNumber now draw) (transactionFee pd) now
                   @ [(''_id'', tid)]]"
    by blast
  from CreatePaymentSchema_fee[OF sch] obtain a
    where a: "fld (body req) ''amount'' = Some (VNum a)" "1 \<le> a" "a \<le> 50000"
      "transactionFee pd = js_mul a lit_0_02" by blast
  have "a = 1500 \<longrightarrow> js_mul a lit_0_02 = 30" using fee_1500 by simp
  then show "\<exists>a f d tid. fld (body req) ''amount'' = Some (VNum a) \<and> 1 \<le> a \<and> a \<le> 50000
          \<and> f = js_mul a lit_0_02
          \<and> payment_transactions s' = payment_transactions s @ [d]
          \<and> fld d ''transaction_fee'' = Some (VNum f)
          \<and> r = payment_response tid (generateReferenceNumber now draw) f
          \<and> \<bar>f - a * (2 / 100)\<bar> \<le> a * (2 / 100) / 2 ^ 52
          \<and> (a = 1500 \<longrightarrow> f = 30)"
    using a r st fee_near[OF a(2)]
      fld_transaction_fee(1)[of user pd "generateReferenceNumber now draw" "transactionFee pd" now tid]
    by auto
next
  assume a: "createPayment_base P s req now draw newid = (r, s') \<and> status r = 200"
  from createPayment_base_accepted[of P s req now draw newid r s'] a
  obtain user pd tid where sch: "CreatePaymentSchema (body req) = Inr pd"
    and r: "r = payment_response tid (generateReferenceNumber now draw) (transactionFee pd)"
    and st: "payment_transactions s' = payment_transactions s
                @ [transaction_doc_base user pd (generateReferenceNumber now draw) (transactionFee pd) now
                   @ [(''_id'', tid)]]"
    by blast
  from CreatePaymentSchema_fee[OF sch] obtain a
    where a: "fld (body req) ''amount'' = Some (VNum a)" "1 \<le> a" "a \<le> 50000"
      "transactionFee pd = js_mul a lit_0_02" by blast
  have "a = 1500 \<longrightarrow> js_mul a lit_0_02 = 30" using fee_1500 by simp
  then show "\<exists>a f d tid. fld (body req) ''amount'' = Some (VNum a) \<and> 1 \<le> a \<and> a \<le> 50000
          \<and> f = js_mul a lit_0_02
          \<and> payment_transactions s' = payment_transactions s @ [d]
          \<and> fld d ''transaction_fee'' = Some (VNum f)
          \<and> r = payment_response tid (generateReferenceNumber now draw) f
          \<and> \<bar>f - a * (2 / 100)\<bar> \<le> a * (2 / 100) / 2 ^ 52
          \<and> (a = 1500 \<longrightarrow> f = 30)"
    using a r st fee_near[OF a(2)]
      fld_transaction_fee(2)[of user pd "generateReferenceNumber now draw" "transactionFee pd" now tid]
    by auto
qed

text \<open>The sample payment of 1500 USD: the fee returned and stored is 30.\<close>

theorem createPayment_fee_witness:
  "(\<exists>tid ref. fst (createPayment sample_platform (sample_server True) sample_payment
                     1700000123456 [10, 1, 35, 0, 18, 7, 3, 3] ''tx1'') = payment_response tid ref 30)
   \<and> (\<exists>d. payment_transactions (snd (createPayment sample_platform (sample_server True) sample_payment
                     1700000123456 [10, 1, 35, 0, 18, 7, 3, 3] ''tx1'')) = [d]
          \<and> fld d ''transaction_fee'' = Some (VNum 30))"
proof -
  let ?f = "createPayment sample_platform (sample_server True)
            sample_payment 1700000123456 [10, 1, 35, 0, 18, 7, 3, 3] ''tx1''"
  have hf: "?f = (fst ?f, snd ?f) \<and> status (fst ?f) = 200"
    using sample_createPayment_status by simp
  have am: "fld (body sample_payment) ''amount'' = Some (VNum 1500)"
    by (simp add: sample_payment_def fld_simps)
  have e: "payment_transactions (sample_server True) = []"
    by (simp add: sample_server_def)
  from createPayment_fee[where P = sample_platform and s = "sample_server True"
      and req = sample_payment and now = 1700000123456 and draw = "[10, 1, 35, 0, 18, 7, 3, 3]"
      and newid = "''tx1''" and r = "fst ?f" and s' = "snd ?f",
      THEN conjunct1, rule_format, OF hf]
  obtain a f d tid where *: "fld (body sample_payment) ''amount'' = Some (VNum a)"
    "payment_transactions (snd ?f) = payment_transactions (sample_server True) @ [d]"
    "fld d ''transaction_fee'' = Some (VNum f)"
    "fst ?f = payment_response tid (generateReferenceNumber 1700000123456 [10, 1, 35, 0, 18, 7, 3, 3]) f"
    "a = 1500 \<longrightarrow> f = 30"
    by blast
  from *(1) am have a: "a = 1500" by simp
  with *(5) have f: "f = 30" by simp
  show ?thesis using *(2,3,4) e unfolding f by auto
qed

subsection \<open>C5: a transaction of another user looks like no transaction\<close>

text \<open>
  C5. Take a principal with an id and a well-formed transaction id (any id on the
  in-memory store, one that \<open>ObjectId.isValid\<close> accepts on the durable store). In a
  store where a transaction with this id exists but every such transaction belongs to
  another user, and in a store with no transaction of this id, \<open>GET /api/payments/:id\<close>
  gives the same response: 404 with the body \<open>Transaction not found\<close>. This holds for
  the fallback variant on either store and for the base variant.
\<close>

theorem getPayment_not_owned_is_not_found:
  "(authMiddleware P s1 req now = Inr user \<and> authMiddleware P s2 req now = Inr user
      \<and> inMemory s1 = inMemory s2 \<and> (inMemory s1 \<or> ObjectId_isValid P (params_id req))
      \<and> tid = (if inMemory s1 then VStr (params_id req) else VOid (params_id req))
      \<and> (\<exists>u. fld user ''_id'' = Some u \<and> u \<noteq> VNull)
      \<and> (\<exists>d\<in>set (payment_transactions s1). fld d ''_id'' = Some tid)
      \<and> (\<forall>d\<in>set (payment_transactions s1).
            fld d ''_id'' = Some tid \<longrightarrow> fld d ''user_id'' \<noteq> fld user ''_id'')
      \<and> (\<forall>d\<in>set (payment_transactions s2). fld d ''_id'' \<noteq> Some tid)
    \<longrightarrow> getPayment P s1 req now = error_response 404 ''Transaction not found''
      \<and> getPayment P s2 req now = getPayment P s1 req now)
   \<and> (authMiddleware_base s1 req now = Inr user \<and> authMiddleware_base s2 req now = Inr user
      \<and> ObjectId_isValid P (params_id req)
      \<and> (\<exists>u. fld user ''_id'' = Some u \<and> u \<noteq> VNull)
      \<and> (\<exists>d\<in>set (payment_transactions s1). fld d ''_id'' = Some (VOid (params_id req)))
      \<and> (\<forall>d\<in>set (payment_transactions s1).
            fld d ''_id'' = Some (VOid (params_id req)) \<longrightarrow> fld d ''user_id'' \<noteq> fld user ''_id'')
      \<and> (\<forall>d\<in>set (payment_transactions s2). fld d ''_id'' \<noteq> Some (VOid (params_id req)))
    \<longrightarrow> getPayment_base P s1 req now = error_response 404 ''Transaction not found''
      \<and> getPayment_base P s2 req now = getPayment_base P s1 req now)"
proof (intro conjI impI)
  assume h: "authMiddleware P s1 req now = Inr user \<and> authMiddleware P s2 req now = Inr user
      \<and> inMemory s1 = inMemory s2 \<and> (inMemory s1 \<or> ObjectId_isValid P (params_id req))
      \<and> tid = (if inMemory s1 then VStr (params_id req) else VOid (params_id req))
      \<and> (\<exists>u. fld user ''_id'' = Some u \<and> u \<noteq> VNull)
      \<and> (\<exists>d\<in>set (payment_transactions s1). fld d ''_id'' = Some tid)
      \<and> (\<forall>d\<in>set (payment_transactions s1).
            fld d ''_id'' = Some tid \<longrightarrow> fld d ''user_id'' \<noteq> fld user ''_id'')
      \<and> (\<forall>d\<in>set (payment_transactions s2). fld d ''_id'' \<noteq> Some tid)"
  then obtain u where u: "fld user ''_id'' = Some u" "u \<noteq> VNull" by blast
  have r1: "getPayment P s1 req now = error_response 404 ''Transaction not found''"
  proof (cases "inMemory s1")
    case True
    have "\<forall>d\<in>set (payment_transactions s1).
            \<not> match d [(''_id'', QEq (Some (VStr (params_id req)))), (''user_id'', QEq (fld user ''_id''))]"
      using h True by (auto simp: strict_eq_VStr dest: strict_eq_imp_eq)
    then have "findOne (payment_transactions s1) [(''_id'', QEq (Some (VStr (params_id req)))), (''user_id'', QEq (fld user ''_id''))] = None"
      unfolding findOne_def find_None .
    then show ?thesis using h True by (auto simp add: getPayment_def Let_def simp del: match.simps)
  next
    case False
    have "\<forall>d\<in>set (payment_transactions s1).
            \<not> mongo_match d [(''_id'', QEq (Some (VOid (params_id req)))), (''user_id'', QEq (fld user ''_id''))]"
      using h False u by (auto simp: bson_eq_Some)
    then have "mongo_findOne (payment_transactions s1) [(''_id'', QEq (Some (VOid (params_id req)))), (''user_id'', QEq (fld user ''_id''))] = None"
      unfolding mongo_findOne_def find_None .
    then show ?thesis using h False by (auto simp add: getPayment_def Let_def simp del: mongo_match.simps)
  qed
  have r2: "getPayment P s2 req now = error_response 404 ''Transaction not found''"
  proof (cases "inMemory s2")
    case True
    have "\<forall>d\<in>set (payment_transactions s2).
            \<not> match d [(''_id'', QEq (Some (VStr (params_id req)))), (''user_id'', QEq (fld user ''_id''))]"
      using h True by (auto simp: strict_eq_VStr)
    then have "findOne (payment_transactions s2) [(''_id'', QEq (Some (VStr (params_id req)))), (''user_id'', QEq (fld user ''_id''))] = None"
      unfolding findOne_def find_None .
    then show ?thesis using h True by (auto simp add: getPayment_def Let_def simp del: match.simps)
  next
    case False
    have "\<forall>d\<in>set (payment_transactions s2).
            \<not> mongo_match d [(''_id'', QEq (Some (VOid (params_id req)))), (''user_id'', QEq (fld user ''_id''))]"
      using h False by (auto simp: bson_eq_Some)
    then have "mongo_findOne (payment_transactions s2) [(''_id'', QEq (Some (VOid (params_id req)))), (''user_id'', QEq (fld user ''_id''))] = None"
      unfolding mongo_findOne_def find_None .
    then show ?thesis using h False by (auto simp add: getPayment_def Let_def simp del: mongo_match.simps)
  qed
  show "getPayment P s1 req now = error_response 404 ''Transaction not found''" by (rule r1)
  show "getPayment P s2 req now = getPayment P s1 req now" using r1 r2 by simp
next
  assume h: "authMiddleware_base s1 req now = Inr user \<and> authMiddleware_base s2 req now = Inr user
      \<and> ObjectId_isValid P (params_id req)
      \<and> (\<exists>u. fld user ''_id'' = Some u \<and> u \<noteq> VNull)
      \<and> (\<exists>d\<in>set (payment_transactions s1). fld d ''_id'' = Some (VOid (params_id req)))
      \<and> (\<forall>d\<in>set (payment_transactions s1).
            fld d ''_id'' = Some (VOid (params_id req)) \<longrightarrow> fld d ''user_id'' \<noteq> fld user ''_id'')
      \<and> (\<forall>d\<in>set (payment_transactions s2). fld d ''_id'' \<noteq> Some (VOid (params_id req)))"
  then obtain u where u: "fld user ''_id'' = Some u" "u \<noteq> VNull" by blast
  have "\<forall>d\<in>set (payment_transactions s1).
            \<not> mongo_match d [(''_id'', QEq (Some (VOid (params_id req)))), (''user_id'', QEq (fld user ''_id''))]"
    using h u by (auto simp: bson_eq_Some)
  then have "mongo_findOne (payment_transactions s1) [(''_id'', QEq (Some (VOid (params_id req)))), (''user_id'', QEq (fld user ''_id''))] = None"
    unfolding mongo_findOne_def find_None .
  then have r1: "getPayment_base P s1 req now = error_response 404 ''Transaction not found''"
    using h by (auto simp add: getPayment_base_def Let_def simp del: mongo_match.simps)
  have "\<forall>d\<in>set (payment_transactions s2).
            \<not> mongo_match d [(''_id'', QEq (Some (VOid (params_id req)))), (''user_id'', QEq (fld user ''_id''))]"
    using h by (auto simp: bson_eq_Some)
  then have "mongo_findOne (payment_transactions s2) [(''_id'', QEq (Some (VOid (params_id req)))), (''user_id'', QEq (fld user ''_id''))] = None"
    unfolding mongo_findOne_def find_None .
  then have r2: "getPayment_base P s2 req now = error_response 404 ''Transaction not found''"
    using h by (auto simp add: getPayment_base_def Let_def simp del: mongo_match.simps)
  show "getPayment_base P s1 req now = error_response 404 ''Transaction not found''" by (rule r1)
  show "getPayment_base P s2 req now = getPayment_base P s1 req now" using r1 r2 by simp
qed

text \<open>
  The sample user asks for the transaction \<open>tx9\<close>, once in a store where it belongs
  to the user \<open>u2\<close> and once in a store without transactions.
\<close>

theorem getPayment_not_owned_is_not_found_witness:
  "getPayment sample_platform
     ((sample_server True)\<lparr>payment_transactions :=
         [sample_transaction (VStr ''u2'') (VStr ''tx9'') 1700000000500]\<rparr>)
     (sample_payment\<lparr>params_id := ''tx9''\<rparr>) 1700000123456
     = error_response 404 ''Transaction not found''
   \<and> getPayment sample_platform (sample_server True)
        (sample_payment\<lparr>params_id := ''tx9''\<rparr>) 1700000123456
     = getPayment sample_platform
        ((sample_server True)\<lparr>payment_transactions :=
            [sample_transaction (VStr ''u2'') (VStr ''tx9'') 1700000000500]\<rparr>)
        (sample_payment\<lparr>params_id := ''tx9''\<rparr>) 1700000123456"
proof -
  let ?s1 = "(sample_server True)\<lparr>payment_transactions :=
         [sample_transaction (VStr ''u2'') (VStr ''tx9'') 1700000000500]\<rparr>"
  let ?s2 = "sample_server True"
  let ?req = "sample_payment\<lparr>params_id := ''tx9''\<rparr>"
  let ?user = "AList.update ''is_staff'' (VBool False)
          (spread (sample_session (VStr ''u1'') (VStr ''s1'')) (sample_user (VStr ''u1'')))"
  have a1: "authMiddleware sample_platform ?s1 ?req 1700000123456 = Inr ?user"
    using authMiddleware_cong[of ?s1 "sample_server True" ?req sample_payment sample_platform 1700000123456]
      sample_auth_mem by simp
  have a2: "authMiddleware sample_platform ?s2 ?req 1700000123456 = Inr ?user"
    using authMiddleware_cong[of ?s2 "sample_server True" ?req sample_payment sample_platform 1700000123456]
      sample_auth_mem by simp
  have h: "authMiddleware sample_platform ?s1 ?req 1700000123456 = Inr ?user
      \<and> authMiddleware sample_platform ?s2 ?req 1700000123456 = Inr ?user
      \<and> inMemory ?s1 = inMemory ?s2 \<and> (inMemory ?s1 \<or> ObjectId_isValid sample_platform (params_id ?req))
      \<and> VStr ''tx9'' = (if inMemory ?s1 then VStr (params_id ?req) else VOid (params_id ?req))
      \<and> (\<exists>u. fld ?user ''_id'' = Some u \<and> u \<noteq> VNull)
      \<and> (\<exists>d\<in>set (payment_transactions ?s1). fld d ''_id'' = Some (VStr ''tx9''))
      \<and> (\<forall>d\<in>set (payment_transactions ?s1).
            fld d ''_id'' = Some (VStr ''tx9'') \<longrightarrow> fld d ''user_id'' \<noteq> fld ?user ''_id'')
      \<and> (\<forall>d\<in>set (payment_transactions ?s2). fld d ''_id'' \<noteq> Some (VStr ''tx9''))"
    unfolding sample_principal_id using a1 a2
    by (simp add: sample_server_fields sample_transaction_def fld_simps)
  from getPayment_not_owned_is_not_found[where P = sample_platform and ?s1.0 = ?s1 and ?s2.0 = ?s2
      and req = ?req and now = 1700000123456 and user = ?user and tid = "VStr ''tx9''",
      THEN conjunct1, rule_format, OF h]
  show ?thesis .
qed

subsection \<open>C6: verifying twice\<close>

text \<open>
  C6. Let a staff credential be valid at the times of two verify calls, and let a
  transaction with the given id exist (an id that \<open>ObjectId.isValid\<close> accepts on the
  durable store). Then both calls answer 200 with the updated transaction; after each
  call the transaction returned is in the store with \<open>status = completed\<close> and
  \<open>is_processed = true\<close>. The second call changes only \<open>processed_at\<close> and
  \<open>updated_at\<close>, which it sets to its own clock reading.
\<close>

theorem verifyTransaction_twice:
  assumes "authMiddleware P s req now1 = Inr staff1" and "truthy (fld staff1 ''is_staff'')"
    and "authMiddleware P s req now2 = Inr staff2" and "truthy (fld staff2 ''is_staff'')"
    and "inMemory s \<or> ObjectId_isValid P (params_id req)"
    and "tid = (if inMemory s then VStr (params_id req) else VOid (params_id req))"
    and "\<exists>d\<in>set (payment_transactions s). fld d ''_id'' = Some tid"
  shows "\<exists>d1 d2 s1 s2.
           verifyTransaction P s req now1 = (ok_response None (Some (json_doc d1)), s1)
         \<and> verifyTransaction P s1 req now2 = (ok_response None (Some (json_doc d2)), s2)
         \<and> d1 \<in> set (payment_transactions s1) \<and> fld d1 ''_id'' = Some tid
         \<and> fld d1 ''status'' = Some (VStr ''completed'') \<and> fld d1 ''is_processed'' = Some (VBool True)
         \<and> d2 \<in> set (payment_transactions s2) \<and> fld d2 ''_id'' = Some tid
         \<and> fld d2 ''status'' = Some (VStr ''completed'') \<and> fld d2 ''is_processed'' = Some (VBool True)
         \<and> (\<forall>k. k \<noteq> ''processed_at'' \<and> k \<noteq> ''updated_at'' \<longrightarrow> fld d2 k = fld d1 k)
         \<and> fld d2 ''processed_at'' = Some (VDate now2)
         \<and> length (payment_transactions s2) = length (payment_transactions s)"
proof -
  let ?txs = "payment_transactions s"
  let ?Q = "\<lambda>d. fld d ''_id'' = Some tid"
  from findIndex_ex[of ?txs ?Q] assms(7) obtain i where i: "findIndex ?Q ?txs = Some i" by blast
  have lt: "i < length ?txs" and q: "fld (?txs ! i) ''_id'' = Some tid"
    using findIndex_Some[OF i] by simp_all
  define d1 where "d1 = spread (?txs ! i) (verify_set now1)"
  define s1 where "s1 = s\<lparr>payment_transactions := ?txs[i := d1]\<rparr>"
  have v1: "verifyTransaction P s req now1 = (ok_response None (Some (json_doc d1)), s1)"
    unfolding d1_def s1_def by (rule verify_step[OF assms(1,2,5,6) i])
  have id1: "fld d1 ''_id'' = Some tid"
    unfolding d1_def using q by (simp add: fld_spread_verify_set)
  have i1: "findIndex ?Q (payment_transactions s1) = Some i"
    unfolding s1_def using findIndex_update[OF i, of d1] id1 by simp
  have auth1: "authMiddleware P s1 req now2 = Inr staff2"
    using authMiddleware_cong[of s1 s req req P now2] assms(3) by (simp add: s1_def)
  have wf1: "inMemory s1 \<or> ObjectId_isValid P (params_id req)"
    using assms(5) by (simp add: s1_def)
  have tid1: "tid = (if inMemory s1 then VStr (params_id req) else VOid (params_id req))"
    using assms(6) by (simp add: s1_def)
  define d2 where "d2 = spread (payment_transactions s1 ! i) (verify_set now2)"
  define s2 where "s2 = s1\<lparr>payment_transactions := (payment_transactions s1)[i := d2]\<rparr>"
  have v2: "verifyTransaction P s1 req now2 = (ok_response None (Some (json_doc d2)), s2)"
    unfolding d2_def s2_def by (rule verify_step[OF auth1 assms(4) wf1 tid1 i1])
  have at1: "payment_transactions s1 ! i = d1" using lt by (simp add: s1_def)
  have d2: "d2 = spread d1 (verify_set now2)" unfolding d2_def at1 ..
  have in1: "d1 \<in> set (payment_transactions s1)"
    using lt by (simp add: s1_def set_update_memI)
  have in2: "d2 \<in> set (payment_transactions s2)"
    using lt by (simp add: s2_def s1_def set_update_memI)
  have len: "length (payment_transactions s2) = length ?txs" by (simp add: s2_def s1_def)
  have f1: "fld d1 ''status'' = Some (VStr ''completed'')" "fld d1 ''is_processed'' = Some (VBool True)"
    unfolding d1_def by (simp_all add: fld_spread_verify_set)
  have f2: "fld d2 ''status'' = Some (VStr ''completed'')" "fld d2 ''is_processed'' = Some (VBool True)"
    "fld d2 ''processed_at'' = Some (VDate now2)" "fld d2 ''_id'' = Some tid"
    unfolding d2 using id1 by (simp_all add: fld_spread_verify_set)
  have same: "\<forall>k. k \<noteq> ''processed_at'' \<and> k \<noteq> ''updated_at'' \<longrightarrow> fld d2 k = fld d1 k"
    unfolding d2 using f1 by (simp add: fld_spread_verify_set)
  show ?thesis
    using v1 v2 in1 in2 id1 f1 f2 same len by blast
qed

text \<open>A staff member verifies the sample transaction \<open>tx9\<close> twice.\<close>

theorem verifyTransaction_twice_witness:
  "\<exists>d1 d2 s1 s2.
      verifyTransaction sample_platform sample_staff_server sample_verify 1700000123456
        = (ok_response None (Some (json_doc d1)), s1)
    \<and> verifyTransaction sample_platform s1 sample_verify 1700000200000
        = (ok_response None (Some (json_doc d2)), s2)
    \<and> fld d1 ''status'' = Some (VStr ''completed'') \<and> fld d1 ''is_processed'' = Some (VBool True)
    \<and> fld d2 ''status'' = Some (VStr ''completed'') \<and> fld d2 ''is_processed'' = Some (VBool True)
    \<and> d2 \<in> set (payment_transactions s2)"
proof -
  let ?staff = "AList.update ''is_staff'' (VBool True) (spread sample_staff_session sample_staff)"
  have st: "truthy (fld ?staff ''is_staff'')"
    by (simp add: fld_def update_conv')
  have wf: "inMemory sample_staff_server \<or> ObjectId_isValid sample_platform (params_id sample_verify)"
    by (simp add: sample_staff_server_def)
  have tid: "VStr ''tx9'' = (if inMemory sample_staff_server then VStr (params_id sample_verify)
                              else VOid (params_id sample_verify))"
    by (simp add: sample_staff_server_def sample_verify_def)
  have ex: "\<exists>d\<in>set (payment_transactions sample_staff_server). fld d ''_id'' = Some (VStr ''tx9'')"
    by (simp add: sample_staff_server_def sample_transaction_def fld_simps)
  from verifyTransaction_twice[OF sample_staff_auth(1) st sample_staff_auth(2) st wf tid ex]
  obtain d1 d2 s1 s2 where
    "verifyTransaction sample_platform sample_staff_server sample_verify 1700000123456
        = (ok_response None (Some (json_doc d1)), s1)"
    "verifyTransaction sample_platform s1 sample_verify 1700000200000
        = (ok_response None (Some (json_doc d2)), s2)"
    "fld d1 ''status'' = Some (VStr ''completed'')" "fld d1 ''is_processed'' = Some (VBool True)"
    "fld d2 ''status'' = Some (VStr ''completed'')" "fld d2 ''is_processed'' = Some (VBool True)"
    "d2 \<in> set (payment_transactions s2)"
    by (elim exE conjE)
  then show ?thesis by (intro exI conjI)
qed

subsection \<open>C7: the transaction history\<close>

text \<open>
  C7, as stated, fails on the in-memory store, whose \<open>sort\<close> and \<open>limit\<close> return the
  cursor unchanged: the history of the sample user comes back in insertion order,
  oldest first, and a history of 51 transactions comes back whole.
\<close>

theorem history_in_memory_unsorted_uncapped:
  "history sample_platform
     ((sample_server True)\<lparr>payment_transactions :=
        [sample_transaction (VStr ''u1'') (VStr ''tx1'') 1700000000500,
         sample_transaction (VStr ''u1'') (VStr ''tx2'') 1700000000900]\<rparr>)
     sample_payment 1700000123456
   = ok_response None (Some (JArr (map json_doc
        [sample_transaction (VStr ''u1'') (VStr ''tx1'') 1700000000500,
         sample_transaction (VStr ''u1'') (VStr ''tx2'') 1700000000900])))
   \<and> created_at (sample_transaction (VStr ''u1'') (VStr ''tx1'') 1700000000500)
       < created_at (sample_transaction (VStr ''u1'') (VStr ''tx2'') 1700000000900)
   \<and> history sample_platform
       ((sample_server True)\<lparr>payment_transactions :=
          map (\<lambda>n. sample_transaction (VStr ''u1'') (VStr (nat_toString n)) (1700000000000 + int n)) [0..<51]\<rparr>)
       sample_payment 1700000123456
     = ok_response None (Some (JArr (map json_doc
          (map (\<lambda>n. sample_transaction (VStr ''u1'') (VStr (nat_toString n)) (1700000000000 + int n)) [0..<51]))))
   \<and> length (map (\<lambda>n. sample_transaction (VStr ''u1'') (VStr (nat_toString n)) (1700000000000 + int n)) [0..<51]) = 51"
proof -
  let ?user = "AList.update ''is_staff'' (VBool False)
          (spread (sample_session (VStr ''u1'') (VStr ''s1'')) (sample_user (VStr ''u1'')))"
  have auth: "\<And>txs. authMiddleware sample_platform ((sample_server True)\<lparr>payment_transactions := txs\<rparr>)
                 sample_payment 1700000123456 = Inr ?user"
    using authMiddleware_cong[of "(sample_server True)\<lparr>payment_transactions := txs\<rparr>" "sample_server True"
        sample_payment sample_payment sample_platform 1700000123456 for txs]
      sample_auth_mem by simp
  have mem: "\<And>txs. inMemory ((sample_server True)\<lparr>payment_transactions := txs\<rparr>)"
    by (simp add: sample_server_fields)
  have hist: "\<And>txs. history sample_platform ((sample_server True)\<lparr>payment_transactions := txs\<rparr>)
                 sample_payment 1700000123456
               = ok_response None (Some (JArr (map json_doc
                   (filter (\<lambda>d. fld d ''user_id'' = Some (VStr ''u1'')) txs))))"
    using history_in_memory[OF auth mem] sample_principal_id by auto
  have A: "filter (\<lambda>d. fld d ''user_id'' = Some (VStr ''u1''))
             [sample_transaction (VStr ''u1'') (VStr ''tx1'') 1700000000500,
              sample_transaction (VStr ''u1'') (VStr ''tx2'') 1700000000900]
           = [sample_transaction (VStr ''u1'') (VStr ''tx1'') 1700000000500,
              sample_transaction (VStr ''u1'') (VStr ''tx2'') 1700000000900]"
    by (simp add: sample_transaction_def fld_simps)
  have B: "filter (\<lambda>d. fld d ''user_id'' = Some (VStr ''u1''))
             (map (\<lambda>n. sample_transaction (VStr ''u1'') (VStr (nat_toString n)) (1700000000000 + int n)) [0..<51])
           = map (\<lambda>n. sample_transaction (VStr ''u1'') (VStr (nat_toString n)) (1700000000000 + int n)) [0..<51]"
    by (rule filter_True) (auto simp: sample_transaction_def fld_simps)
  have C: "created_at (sample_transaction (VStr ''u1'') (VStr ''tx1'') 1700000000500)
       < created_at (sample_transaction (VStr ''u1'') (VStr ''tx2'') 1700000000900)"
    by (simp add: created_at_def sample_transaction_def fld_simps)
  show ?thesis
    unfolding hist A B using C by simp
qed

text \<open>
  C7, amended. On the durable store the history is the requesting principal's
  transactions sorted by \<open>created_at\<close> descending and cut to the first 50: it is
  sorted, has at most 50 entries, holds only transactions of the principal, and holds
  all of them when there are at most 50. On the in-memory store it is all transactions
  of the principal in insertion order.
\<close>

theorem history_result:
  assumes "authMiddleware P s req now = Inr user"
  shows "\<exists>uid res. fld user ''_id'' = Some uid
         \<and> history P s req now = ok_response None (Some (JArr (map json_doc res)))
         \<and> (inMemory s \<longrightarrow>
               res = filter (\<lambda>d. fld d ''user_id'' = Some uid) (payment_transactions s))
         \<and> (\<not> inMemory s \<longrightarrow>
               res = take 50 (sort_created_desc
                       (filter (\<lambda>d. fld d ''user_id'' = Some uid) (payment_transactions s)))
             \<and> length res \<le> 50
             \<and> sorted_wrt (\<lambda>a b. created_at a \<ge> created_at b) res
             \<and> set res \<subseteq> {d \<in> set (payment_transactions s). fld d ''user_id'' = Some uid}
             \<and> (length (filter (\<lambda>d. fld d ''user_id'' = Some uid) (payment_transactions s)) \<le> 50
                  \<longrightarrow> set res = {d \<in> set (payment_transactions s). fld d ''user_id'' = Some uid}
                     \<and> length res
                         = length (filter (\<lambda>d. fld d ''user_id'' = Some uid) (payment_transactions s))))"
proof (cases "inMemory s")
  case True
  from history_in_memory[OF assms True] show ?thesis using True by auto
next
  case False
  from history_durable[OF assms False] obtain uid where uid: "fld user ''_id'' = Some uid"
    and h: "history P s req now = ok_response None (Some (JArr (map json_doc
                 (take 50 (sort_created_desc
                    (filter (\<lambda>d. fld d ''user_id'' = Some uid) (payment_transactions s)))))))"
    by blast
  let ?own = "filter (\<lambda>d. fld d ''user_id'' = Some uid) (payment_transactions s)"
  let ?res = "take 50 (sort_created_desc ?own)"
  have l: "length ?res \<le> 50" by simp
  have so: "sorted_wrt (\<lambda>a b. created_at a \<ge> created_at b) ?res"
    by (rule sorted_wrt_take) (rule sort_created_desc_props(3))
  have sub: "set ?res \<subseteq> {d \<in> set (payment_transactions s). fld d ''user_id'' = Some uid}"
    using set_take_subset[of 50 "sort_created_desc ?own"] by (auto simp: sort_created_desc_props(1))
  have all: "length ?own \<le> 50 \<longrightarrow>
               set ?res = {d \<in> set (payment_transactions s). fld d ''user_id'' = Some uid}
             \<and> length ?res = length ?own"
    by (auto simp: sort_created_desc_props)
  show ?thesis
    using uid h False l so sub all by blast
qed

text \<open>On the durable store the two sample transactions come back newest first.\<close>

theorem history_result_witness:
  "history sample_platform
     ((sample_server False)\<lparr>payment_transactions :=
        [sample_transaction (VOid ''65a000000000000000000001'') (VOid ''65a000000000000000000011'') 1700000000500,
         sample_transaction (VOid ''65a000000000000000000001'') (VOid ''65a000000000000000000012'') 1700000000900]\<rparr>)
     sample_payment 1700000123456
   = ok_response None (Some (JArr (map json_doc
        [sample_transaction (VOid ''65a000000000000000000001'') (VOid ''65a000000000000000000012'') 1700000000900,
         sample_transaction (VOid ''65a000000000000000000001'') (VOid ''65a000000000000000000011'') 1700000000500])))"
proof -
  let ?s = "(sample_server False)\<lparr>payment_transactions :=
        [sample_transaction (VOid ''65a000000000000000000001'') (VOid ''65a000000000000000000011'') 1700000000500,
         sample_transaction (VOid ''65a000000000000000000001'') (VOid ''65a000000000000000000012'') 1700000000900]\<rparr>"
  from history_result[OF sample_auth_durable]
  obtain uid res where uid: "fld (AList.update ''is_staff'' (VBool False)
          (spread (sample_session (VOid ''65a000000000000000000001'') (VOid ''65a000000000000000000002''))
                (sample_user (VOid ''65a000000000000000000001'')))) ''_id'' = Some uid"
    and h: "history sample_platform ?s sample_payment 1700000123456
              = ok_response None (Some (JArr (map json_doc res)))"
    and r: "\<not> inMemory ?s \<longrightarrow>
               res = take 50 (sort_created_desc
                       (filter (\<lambda>d. fld d ''user_id'' = Some uid) (payment_transactions ?s)))"
    by blast
  from uid have u: "uid = VOid ''65a000000000000000000001''"
    unfolding sample_principal_durable_id by simp
  have "res = [sample_transaction (VOid ''65a000000000000000000001'') (VOid ''65a000000000000000000012'') 1700000000900,
         sample_transaction (VOid ''65a000000000000000000001'') (VOid ''65a000000000000000000011'') 1700000000500]"
    using r unfolding u
    by (simp add: sample_server_fields sort_created_desc_def created_at_def sample_transaction_def fld_simps)
  with h show ?thesis by simp
qed

subsection \<open>C3: uniqueness of e-mail, session token and reference number\<close>

text \<open>
  C3, as stated, fails on the in-memory store: \<open>createIndex\<close> is a no-op there and
  \<open>insertOne\<close> appends whatever it is given. A second user document with the e-mail of
  the sample user is stored beside the first.
\<close>

theorem insertOne_in_memory_duplicate:
  "db_insertOne True users_indexes [sample_user (VStr ''u1'')]
     [(''email'', VStr ''a@x.com''), (''password_hash'', VStr ''saltXyz98765!'')] ''u2''
   = Inr (VStr ''u2'',
          [sample_user (VStr ''u1''),
           [(''email'', VStr ''a@x.com''), (''password_hash'', VStr ''saltXyz98765!''), (''_id'', VStr ''u2'')]])
   \<and> fld (sample_user (VStr ''u1'')) ''email'' = Some (VStr ''a@x.com'')"
  by (simp add: db_insertOne_def insertOne_def fld_simps sample_user_def)

text \<open>
  C3, amended. The durable store is declared with unique indexes on \<open>users.email\<close>,
  \<open>user_sessions.session_token\<close> and \<open>payment_transactions.reference_number\<close>. There an
  insert whose key under a declared index equals the key of a stored document fails
  with a duplicate-key error, a successful insert appends one document and keeps every
  declared index unique, and so does any sequence of inserts. On the in-memory store
  an insert never fails and appends the document, whatever its fields.
\<close>

theorem insertOne_uniqueness:
  "Unique ''email'' \<in> set users_indexes
   \<and> Unique ''session_token'' \<in> set user_sessions_indexes
   \<and> Unique ''reference_number'' \<in> set payment_transactions_indexes
   \<and> (Unique f \<in> set ixs \<and> f \<noteq> ''_id'' \<and> e \<in> set coll \<and> fld d f \<noteq> None \<and> fld e f = fld d f
        \<longrightarrow> db_insertOne False ixs coll d oid = Inl DuplicateKey)
   \<and> (ix \<in> set ixs \<and> unique_on ix coll \<and> db_insertOne False ixs coll d oid = Inr (i, coll')
        \<longrightarrow> unique_on ix coll' \<and> (\<exists>d'. coll' = coll @ [d']))
   \<and> (ix \<in> set ixs \<and> unique_on ix coll \<longrightarrow> unique_on ix (run_inserts ixs coll ds))
   \<and> (\<exists>d'. db_insertOne True ixs coll d uuid = Inr (case fld d ''_id'' of None \<Rightarrow> VStr uuid | Some v \<Rightarrow> v, coll @ [d'])
          \<and> (\<forall>k. k \<noteq> ''_id'' \<longrightarrow> fld d' k = fld d k))"
proof (intro conjI impI)
  show "Unique ''email'' \<in> set users_indexes" by (simp add: users_indexes_def)
  show "Unique ''session_token'' \<in> set user_sessions_indexes" by (simp add: user_sessions_indexes_def)
  show "Unique ''reference_number'' \<in> set payment_transactions_indexes"
    by (simp add: payment_transactions_indexes_def)
next
  assume h: "Unique f \<in> set ixs \<and> f \<noteq> ''_id'' \<and> e \<in> set coll \<and> fld d f \<noteq> None \<and> fld e f = fld d f"
  let ?d' = "if fld d ''_id'' = None then d @ [(''_id'', VOid oid)] else d"
  let ?ix = "Unique f"
  have key: "index_key ?ix ?d' = index_key ?ix d"
    using h by (simp add: fld_snoc_other)
  have eq: "index_key ?ix e = index_key ?ix d" using h by simp
  have "duplicate_key (Unique ''_id'' # ixs) coll ?d'"
    unfolding duplicate_key_def using h key eq by (intro bexI[of _ ?ix] bexI[of _ e]) auto
  then show "db_insertOne False ixs coll d oid = Inl DuplicateKey"
    by (simp add: db_insertOne_def mongo_insertOne_def Let_def)
next
  assume h: "ix \<in> set ixs \<and> unique_on ix coll \<and> db_insertOne False ixs coll d oid = Inr (i, coll')"
  then have ins: "mongo_insertOne ixs coll d oid = Inr (i, coll')" by (simp add: db_insertOne_def)
  from mongo_insertOne_unique[OF ins] h show "unique_on ix coll'" by blast
  from mongo_insertOne_Inr[OF ins] show "\<exists>d'. coll' = coll @ [d']" by blast
next
  assume "ix \<in> set ixs \<and> unique_on ix coll"
  then show "unique_on ix (run_inserts ixs coll ds)" using run_inserts_unique by blast
next
  show "\<exists>d'. db_insertOne True ixs coll d uuid = Inr (case fld d ''_id'' of None \<Rightarrow> VStr uuid | Some v \<Rightarrow> v, coll @ [d'])
          \<and> (\<forall>k. k \<noteq> ''_id'' \<longrightarrow> fld d' k = fld d k)"
    by (cases "fld d ''_id''") (auto simp: db_insertOne_def insertOne_def fld_snoc_other)
qed

text \<open>
  On the durable store a second user document with the e-mail of the sample user is
  rejected, and inserting both into the empty collection leaves the e-mail unique.
\<close>

theorem insertOne_uniqueness_witness:
  "db_insertOne False users_indexes [sample_user (VOid ''65a000000000000000000001'')]
     [(''email'', VStr ''a@x.com''), (''password_hash'', VStr ''saltXyz98765!'')]
     ''65a000000000000000000004'' = Inl DuplicateKey
   \<and> unique_on (Unique ''email'')
        (run_inserts users_indexes []
           [([(''email'', VStr ''a@x.com''), (''password_hash'', VStr ''saltAbc12345!'')],
             ''65a000000000000000000001''),
            ([(''email'', VStr ''a@x.com''), (''password_hash'', VStr ''saltXyz98765!'')],
             ''65a000000000000000000004'')])"
proof -
  let ?d = "[(''email'', VStr ''a@x.com''), (''password_hash'', VStr ''saltXyz98765!'')]"
  let ?u = "sample_user (VOid ''65a000000000000000000001'')"
  have h1: "Unique ''email'' \<in> set users_indexes \<and> ''email'' \<noteq> ''_id'' \<and> ?u \<in> set [?u]
              \<and> fld ?d ''email'' \<noteq> None \<and> fld ?u ''email'' = fld ?d ''email''"
    by (simp add: users_indexes_def sample_user_def fld_simps)
  have h2: "Unique ''email'' \<in> set users_indexes \<and> unique_on (Unique ''email'') []"
    by (simp add: users_indexes_def unique_on_def map_filter_def)
  note T = insertOne_uniqueness[where f = "''email''" and ixs = users_indexes and e = ?u
      and coll = "[?u]" and d = ?d and oid = "''65a000000000000000000004''"]
  note U = insertOne_uniqueness[where ix = "Unique ''email''" and ixs = users_indexes and coll = "[]"]
  from T[THEN conjunct2, THEN conjunct2, THEN conjunct2, THEN conjunct1, rule_format, OF h1]
    U[THEN conjunct2, THEN conjunct2, THEN conjunct2, THEN conjunct2, THEN conjunct2, THEN conjunct1,
      rule_format, OF h2]
  show ?thesis by (rule conjI)
qed

subsection \<open>C9: registered users are not staff\<close>

text \<open>
  C9. A successful registration answers with the id \<open>i\<close> of one new user document: in
  the fallback variant its \<open>is_staff\<close> is \<open>false\<close>, in the base variant it has no
  \<open>is_staff\<close> field. From then on, after any sequence of registrations, logins, logouts,
  payments and verifications served by the same server, every request whose credential
  resolves to the principal with the id \<open>i\<close> is answered 403 \<open>Forbidden\<close> by both staff
  endpoints, which leave the state unchanged. The in-memory store takes the id from
  \<open>crypto.randomUUID()\<close>, assumed not to repeat the id of a stored user; the durable
  store rejects a repeated id itself. In the base variant, where the principal merges the
  session record, the store before the registration holds only users with an id and
  sessions without a true \<open>is_staff\<close>: every handler preserves this, and it holds in every
  state that the base server reaches from a store without users and sessions. A change
  of the store that is no request to the server, such as an operator setting the flag, is
  not covered.
\<close>

theorem registered_user_is_denied:
  "(register P s req now salt newid = (r, s') \<and> status r = 200
      \<and> (inMemory s \<longrightarrow> (\<forall>u\<in>set (users s). fld u ''_id'' \<noteq> Some (VStr newid)))
    \<longrightarrow> (\<exists>u i. r = ok_response (Some ''Registration successful'') (Some (JObj [(''userId'', JVal i)]))
          \<and> users s' = users s @ [u] \<and> fld u ''_id'' = Some i
          \<and> fld u ''is_staff'' = Some (VBool False)
          \<and> (\<forall>cs req' now' p.
                authMiddleware P (run P s' cs) req' now' = Inr p \<and> fld p ''_id'' = Some i
                \<longrightarrow> adminTransactions P (run P s' cs) req' now' = error_response 403 ''Forbidden''
                  \<and> verifyTransaction P (run P s' cs) req' now'
                      = (error_response 403 ''Forbidden'', run P s' cs))))
   \<and> (register_base P s req now salt newid = (r, s') \<and> status r = 200
      \<and> (\<forall>u\<in>set (users s). fld u ''_id'' \<noteq> None)
      \<and> (\<forall>se\<in>set (user_sessions s). \<not> truthy (fld se ''is_staff''))
    \<longrightarrow> (\<exists>u i. r = ok_response (Some ''Registration successful'') (Some (JObj [(''userId'', JVal i)]))
          \<and> users s' = users s @ [u] \<and> fld u ''_id'' = Some i
          \<and> fld u ''is_staff'' = None
          \<and> (\<forall>cs req' now' p.
                authMiddleware_base (run_base P s' cs) req' now' = Inr p \<and> fld p ''_id'' = Some i
                \<longrightarrow> adminTransactions_base (run_base P s' cs) req' now' = error_response 403 ''Forbidden''
                  \<and> verifyTransaction_base P (run_base P s' cs) req' now'
                      = (error_response 403 ''Forbidden'', run_base P s' cs))))
   \<and> (users s = [] \<and> user_sessions s = []
    \<longrightarrow> (\<forall>u\<in>set (users (run_base P s cs)). fld u ''_id'' \<noteq> None)
      \<and> (\<forall>se\<in>set (user_sessions (run_base P s cs)). \<not> truthy (fld se ''is_staff'')))"
proof (intro conjI impI)
  assume h: "register P s req now salt newid = (r, s') \<and> status r = 200
      \<and> (inMemory s \<longrightarrow> (\<forall>u\<in>set (users s). fld u ''_id'' \<noteq> Some (VStr newid)))"
  from register_accepted_id[of P s req now salt newid r s'] h
  obtain b pw i where i: "i = (if inMemory s then VStr newid else VOid newid)"
    and us: "users s' = users s @ [newUser b pw now @ [(''_id'', i)]]"
    and r: "r = ok_response (Some ''Registration successful'') (Some (JObj [(''userId'', JVal i)]))"
    and fresh: "\<not> inMemory s \<longrightarrow> (\<forall>u\<in>set (users s). fld u ''_id'' \<noteq> Some i)"
    by blast
  let ?u = "newUser b pw now @ [(''_id'', i)]"
  have old: "\<forall>u\<in>set (users s). fld u ''_id'' \<noteq> Some i"
    using h i fresh by (cases "inMemory s") simp_all
  have inv: "\<forall>u\<in>set (users s'). fld u ''_id'' = Some i \<longrightarrow> \<not> truthy (fld u ''is_staff'')"
    unfolding us using old by (auto simp: newUser_fields)
  have den: "adminTransactions P (run P s' cs) req' now' = error_response 403 ''Forbidden''
           \<and> verifyTransaction P (run P s' cs) req' now' = (error_response 403 ''Forbidden'', run P s' cs)"
    if a: "authMiddleware P (run P s' cs) req' now' = Inr p \<and> fld p ''_id'' = Some i"
    for cs req' now' p
  proof -
    from authMiddleware_principal[of P "run P s' cs" req' now' p] a
    obtain u where u: "u \<in> set (users (run P s' cs))" "fld p ''_id'' = fld u ''_id''"
      "fld p ''is_staff'' = Some (VBool (truthy (fld u ''is_staff'')))" by blast
    from run_not_staff[OF inv, of P cs] u(1,2) a have "\<not> truthy (fld u ''is_staff'')" by simp
    with u(3) have ns: "\<not> truthy (fld p ''is_staff'')" by simp
    show ?thesis using a ns by (simp add: adminTransactions_def verifyTransaction_def)
  qed
  show "\<exists>u i. r = ok_response (Some ''Registration successful'') (Some (JObj [(''userId'', JVal i)]))
          \<and> users s' = users s @ [u] \<and> fld u ''_id'' = Some i
          \<and> fld u ''is_staff'' = Some (VBool False)
          \<and> (\<forall>cs req' now' p.
                authMiddleware P (run P s' cs) req' now' = Inr p \<and> fld p ''_id'' = Some i
                \<longrightarrow> adminTransactions P (run P s' cs) req' now' = error_response 403 ''Forbidden''
                  \<and> verifyTransaction P (run P s' cs) req' now'
                      = (error_response 403 ''Forbidden'', run P s' cs))"
    using r us newUser_fields(2,3)[of b pw now i] den by blast
next
  assume h: "register_base P s req now salt newid = (r, s') \<and> status r = 200
      \<and> (\<forall>u\<in>set (users s). fld u ''_id'' \<noteq> None)
      \<and> (\<forall>se\<in>set (user_sessions s). \<not> truthy (fld se ''is_staff''))"
  from register_base_accepted_id[of P s req now salt newid r s'] h
  obtain b pw where us: "users s' = users s @ [newUser_base b pw now @ [(''_id'', VOid newid)]]"
    and ss: "user_sessions s' = user_sessions s"
    and r: "r = ok_response (Some ''Registration successful'')
                  (Some (JObj [(''userId'', JVal (VOid newid))]))"
    and old: "\<forall>u\<in>set (users s). fld u ''_id'' \<noteq> Some (VOid newid)"
    by blast
  let ?i = "VOid newid"
  have k: "\<forall>u\<in>set (users s'). fld u ''_id'' \<noteq> None"
    unfolding us using h by (auto simp: newUser_fields)
  have j: "\<forall>se\<in>set (user_sessions s'). \<not> truthy (fld se ''is_staff'')"
    unfolding ss using h by simp
  have inv: "\<forall>u\<in>set (users s'). fld u ''_id'' = Some ?i \<longrightarrow> \<not> truthy (fld u ''is_staff'')"
    unfolding us using old by (auto simp: newUser_fields)
  have den: "adminTransactions_base (run_base P s' cs) req' now' = error_response 403 ''Forbidden''
           \<and> verifyTransaction_base P (run_base P s' cs) req' now'
               = (error_response 403 ''Forbidden'', run_base P s' cs)"
    if a: "authMiddleware_base (run_base P s' cs) req' now' = Inr p \<and> fld p ''_id'' = Some ?i"
    for cs req' now' p
  proof -
    let ?t = "run_base P s' cs"
    from run_base_not_staff[OF k j inv, of P cs]
    have k': "\<forall>u\<in>set (users ?t). fld u ''_id'' \<noteq> None"
      and j': "\<forall>se\<in>set (user_sessions ?t). \<not> truthy (fld se ''is_staff'')"
      and inv': "\<forall>u\<in>set (users ?t). fld u ''_id'' = Some ?i \<longrightarrow> \<not> truthy (fld u ''is_staff'')"
      by blast+
    from authMiddleware_base_principal[of ?t req' now' p] a
    obtain session u where su: "session \<in> set (user_sessions ?t)" "u \<in> set (users ?t)"
      "p = spread session u" by blast
    from k' su(2) obtain i where i: "fld u ''_id'' = Some i" by auto
    have pid: "fld p ''_id'' = fld u ''_id''" unfolding su(3) by (simp add: fld_spread i)
    from inv' su(2) pid a have nu: "\<not> truthy (fld u ''is_staff'')" by simp
    from j' su(1) have nse: "\<not> truthy (fld session ''is_staff'')" by simp
    have ns: "\<not> truthy (fld p ''is_staff'')"
      unfolding su(3) using nu nse by (cases "fld u ''is_staff''") (simp_all add: fld_spread)
    show ?thesis using a ns by (simp add: adminTransactions_base_def verifyTransaction_base_def)
  qed
  show "\<exists>u i. r = ok_response (Some ''Registration successful'') (Some (JObj [(''userId'', JVal i)]))
          \<and> users s' = users s @ [u] \<and> fld u ''_id'' = Some i
          \<and> fld u ''is_staff'' = None
          \<and> (\<forall>cs req' now' p.
                authMiddleware_base (run_base P s' cs) req' now' = Inr p \<and> fld p ''_id'' = Some i
                \<longrightarrow> adminTransactions_base (run_base P s' cs) req' now' = error_response 403 ''Forbidden''
                  \<and> verifyTransaction_base P (run_base P s' cs) req' now'
                      = (error_response 403 ''Forbidden'', run_base P s' cs))"
    using r us newUser_fields(5,6)[of b pw now ?i] den by blast
next
  assume h: "users s = [] \<and> user_sessions s = []"
  from run_base_not_staff[of s VNull P cs] h
  show "\<forall>u\<in>set (users (run_base P s cs)). fld u ''_id'' \<noteq> None"
    and "\<forall>se\<in>set (user_sessions (run_base P s cs)). \<not> truthy (fld se ''is_staff'')"
    by simp_all
qed

text \<open>
  The sample registration of \<open>b@x.com\<close>, followed by a login with the same password: the
  session token of that login authenticates, and both staff endpoints refuse it, on the
  fallback server with the in-memory store and on the base server.
\<close>

theorem registered_user_is_denied_witness:
  "adminTransactions sample_platform sample_logged_in sample_admin 1700000300000
     = error_response 403 ''Forbidden''
   \<and> verifyTransaction sample_platform sample_logged_in sample_admin 1700000300000
     = (error_response 403 ''Forbidden'', sample_logged_in)
   \<and> adminTransactions_base sample_logged_in_base sample_admin 1700000300000
     = error_response 403 ''Forbidden''
   \<and> verifyTransaction_base sample_platform sample_logged_in_base sample_admin 1700000300000
     = (error_response 403 ''Forbidden'', sample_logged_in_base)
   \<and> list_all (\<lambda>u. fld u ''_id'' \<noteq> None)
        (users (run_base sample_platform ((sample_server False)\<lparr>users := [], user_sessions := []\<rparr>)
           [Register sample_register 1700000123456 ''salt'' ''65a000000000000000000005'',
            Login sample_register 1700000200000 ''70ken'' ''65a000000000000000000006'']))
   \<and> list_all (\<lambda>se. \<not> truthy (fld se ''is_staff''))
        (user_sessions (run_base sample_platform ((sample_server False)\<lparr>users := [], user_sessions := []\<rparr>)
           [Register sample_register 1700000123456 ''salt'' ''65a000000000000000000005'',
            Login sample_register 1700000200000 ''70ken'' ''65a000000000000000000006'']))"
proof -
  let ?f = "register sample_platform (sample_server True) sample_register 1700000123456 ''salt'' ''u2''"
  let ?g = "register_base sample_platform (sample_server False) sample_register 1700000123456 ''salt''
              ''65a000000000000000000005''"
  let ?cs = "[Login sample_register 1700000200000 ''70ken'' ''s2'']"
  let ?ds = "[Login sample_register 1700000200000 ''70ken'' ''65a000000000000000000006'']"
  have h1: "?f = (fst ?f, snd ?f) \<and> status (fst ?f) = 200
      \<and> (inMemory (sample_server True)
           \<longrightarrow> (\<forall>u\<in>set (users (sample_server True)). fld u ''_id'' \<noteq> Some (VStr ''u2'')))"
    using sample_register_status(1) by (simp add: sample_server_def sample_user_def fld_simps)
  have h2: "?g = (fst ?g, snd ?g) \<and> status (fst ?g) = 200
      \<and> (\<forall>u\<in>set (users (sample_server False)). fld u ''_id'' \<noteq> None)
      \<and> (\<forall>se\<in>set (user_sessions (sample_server False)). \<not> truthy (fld se ''is_staff''))"
    using sample_register_status(2)
    by (simp add: sample_server_def sample_user_def sample_session_def fld_simps)
  note T = registered_user_is_denied[where P = sample_platform and req = sample_register
      and now = 1700000123456 and salt = "''salt''"]
  from T[where s = "sample_server True" and newid = "''u2''" and r = "fst ?f" and s' = "snd ?f",
      THEN conjunct1, rule_format, OF h1]
  obtain i where i: "fst ?f = ok_response (Some ''Registration successful'')
                              (Some (JObj [(''userId'', JVal i)]))"
    and A: "\<forall>cs req' now' p.
              authMiddleware sample_platform (run sample_platform (snd ?f) cs) req' now' = Inr p
                \<and> fld p ''_id'' = Some i
              \<longrightarrow> adminTransactions sample_platform (run sample_platform (snd ?f) cs) req' now'
                    = error_response 403 ''Forbidden''
                \<and> verifyTransaction sample_platform (run sample_platform (snd ?f) cs) req' now'
                    = (error_response 403 ''Forbidden'', run sample_platform (snd ?f) cs)"
    by blast
  from i have i': "i = VStr ''u2''" by (simp add: sample_register_response(1) ok_response_def)
  from sample_admin_auth obtain p where
    p: "authMiddleware sample_platform (run sample_platform (snd ?f) ?cs) sample_admin 1700000300000 = Inr p
          \<and> fld p ''_id'' = Some i"
    unfolding i' sample_logged_in_def sample_registered_def by blast
  from T[where s = "sample_server False" and newid = "''65a000000000000000000005''"
      and r = "fst ?g" and s' = "snd ?g", THEN conjunct2, THEN conjunct1, rule_format, OF h2]
  obtain j where j: "fst ?g = ok_response (Some ''Registration successful'')
                              (Some (JObj [(''userId'', JVal j)]))"
    and B: "\<forall>cs req' now' p.
              authMiddleware_base (run_base sample_platform (snd ?g) cs) req' now' = Inr p
                \<and> fld p ''_id'' = Some j
              \<longrightarrow> adminTransactions_base (run_base sample_platform (snd ?g) cs) req' now'
                    = error_response 403 ''Forbidden''
                \<and> verifyTransaction_base sample_platform (run_base sample_platform (snd ?g) cs) req' now'
                    = (error_response 403 ''Forbidden'', run_base sample_platform (snd ?g) cs)"
    by blast
  from j have j': "j = VOid ''65a000000000000000000005''"
    by (simp add: sample_register_response(2) ok_response_def)
  from sample_admin_auth_base obtain q where
    q: "authMiddleware_base (run_base sample_platform (snd ?g) ?ds) sample_admin 1700000300000 = Inr q
          \<and> fld q ''_id'' = Some j"
    unfolding j' sample_logged_in_base_def sample_registered_base_def by blast
  have h3: "users ((sample_server False)\<lparr>users := [], user_sessions := []\<rparr>) = []
      \<and> user_sessions ((sample_server False)\<lparr>users := [], user_sessions := []\<rparr>) = []"
    by simp
  note C = registered_user_is_denied[where P = sample_platform
      and s = "(sample_server False)\<lparr>users := [], user_sessions := []\<rparr>"
      and cs = "[Register sample_register 1700000123456 ''salt'' ''65a000000000000000000005'',
                 Login sample_register 1700000200000 ''70ken'' ''65a000000000000000000006'']",
      THEN conjunct2, THEN conjunct2, rule_format, OF h3]
  from A[rule_format, OF p] B[rule_format, OF q] C show ?thesis
    unfolding sample_logged_in_def sample_registered_def sample_logged_in_base_def
      sample_registered_base_def list_all_iff by blast
qed

subsection \<open>C1: logout revokes the session, not the signed token\<close>

text \<open>
  C1. Let a request be authenticated by its session token \<open>t\<close>: \<open>authMiddleware\<close>
  accepts it, the principal carries \<open>t\<close> as its \<open>session_token\<close>, and \<open>t\<close> is not itself a
  token that \<open>jwt.verify\<close> accepts. Let session tokens be unique in the store. After the
  logout of this request, every request that presents \<open>t\<close>, at any time, is answered
  401; every request that presents another credential, or none, is answered exactly as
  before the logout; in particular a signed token that \<open>jwt.verify\<close> accepts at the
  time of the request, for a user who exists, and that is no session token of the
  store, still resolves to that user.
\<close>

theorem logout_revokes_session_only:
  assumes auth: "authMiddleware P s req now = Inr p"
    and t: "t = bearer_token (the (authorization req))"
    and tok: "fld p ''session_token'' = Some (VStr t)"
    and nojwt: "\<forall>now'. jwt_verify P t now' = None"
    and dist: "distinct (map (\<lambda>d. fld d ''session_token'') (user_sessions s))"
    and out: "logout P s req now = (r, s')"
  shows "r = ok_response (Some ''Logged out successfully'') None
       \<and> (\<forall>req' now'. has_bearer (authorization req') \<and> bearer_token (the (authorization req')) = t
            \<longrightarrow> authMiddleware P s' req' now' = Inl (error_response 401 ''Invalid or expired session''))
       \<and> (\<forall>req' now'. \<not> (has_bearer (authorization req') \<and> bearer_token (the (authorization req')) = t)
            \<longrightarrow> authMiddleware P s' req' now' = authMiddleware P s req' now')
       \<and> (\<forall>req' now' uid u.
              has_bearer (authorization req')
            \<and> jwt_verify P (bearer_token (the (authorization req'))) now' = Some (Some uid) \<and> uid \<noteq> []
            \<and> (\<forall>d\<in>set (user_sessions s).
                  fld d ''session_token'' \<noteq> Some (VStr (bearer_token (the (authorization req')))))
            \<and> findUserById P s uid = Some u
            \<longrightarrow> authMiddleware P s' req' now'
                  = Inr (AList.update ''is_staff'' (VBool (truthy (fld u ''is_staff''))) u))"
proof -
  let ?set = "[(''is_active'', VBool False), (''updated_at'', VDate now)]"
  define coll' where "coll' = snd (db_updateOne (inMemory s) (user_sessions s)
                        [(''session_token'', QEq (Some (VStr t)))] ?set)"
  have res: "r = ok_response (Some ''Logged out successfully'') None"
    and s': "s' = s\<lparr>user_sessions := coll'\<rparr>"
    using out auth tok unfolding logout_def coll'_def
    by (auto simp: Let_def split: prod.splits)
  from authMiddleware_session_path[OF auth] nojwt t
  have ex: "\<exists>d\<in>set (user_sessions s). fld d ''session_token'' = Some (VStr t)" by simp
  note R = revoked_sessions[OF dist coll'_def ex]
  have mem: "inMemory s' = inMemory s" and us: "users s' = users s"
    and ss: "user_sessions s' = coll'"
    by (simp_all add: s')
  have A: "authMiddleware P s' req' now' = Inl (error_response 401 ''Invalid or expired session'')"
    if h: "has_bearer (authorization req') \<and> bearer_token (the (authorization req')) = t" for req' now'
  proof -
    have "\<forall>d\<in>set coll'. fld d ''session_token'' = Some (VStr t) \<longrightarrow> fld d ''is_active'' \<noteq> Some (VBool True)"
      using R(1) by auto
    from session_lookup_None[OF this, of "inMemory s'" now']
    have none: "db_findOne (inMemory s') (user_sessions s')
           (session_query (bearer_token (the (authorization req'))) now') = None"
      using h ss by simp
    show ?thesis
      using authMiddleware_unfold[OF conjunct1[OF h] none, of P] h nojwt by simp
  qed
  have B: "authMiddleware P s' req' now' = authMiddleware P s req' now'"
    if h: "\<not> (has_bearer (authorization req') \<and> bearer_token (the (authorization req')) = t)"
    for req' now'
  proof (rule authMiddleware_sessions_cong[OF mem us])
    assume "has_bearer (authorization req')"
    with h have "bearer_token (the (authorization req')) \<noteq> t" by simp
    from R(2)[OF this] show "db_findOne (inMemory s) (user_sessions s')
           (session_query (bearer_token (the (authorization req'))) now')
         = db_findOne (inMemory s) (user_sessions s)
           (session_query (bearer_token (the (authorization req'))) now')"
      by (simp add: ss)
  qed
  have C: "authMiddleware P s' req' now'
             = Inr (AList.update ''is_staff'' (VBool (truthy (fld u ''is_staff''))) u)"
    if h: "has_bearer (authorization req')
            \<and> jwt_verify P (bearer_token (the (authorization req'))) now' = Some (Some uid) \<and> uid \<noteq> []
            \<and> (\<forall>d\<in>set (user_sessions s).
                  fld d ''session_token'' \<noteq> Some (VStr (bearer_token (the (authorization req')))))
            \<and> findUserById P s uid = Some u" for req' now' uid u
  proof -
    let ?j = "bearer_token (the (authorization req'))"
    have "\<forall>d\<in>set coll'. fld d ''session_token'' \<noteq> Some (VStr ?j)"
      using R(3) h by blast
    then have "\<forall>d\<in>set coll'. fld d ''session_token'' = Some (VStr ?j) \<longrightarrow> fld d ''is_active'' \<noteq> Some (VBool True)"
      by simp
    from session_lookup_None[OF this, of "inMemory s'" now']
    have none: "db_findOne (inMemory s') (user_sessions s') (session_query ?j now') = None"
      using ss by simp
    have "findUserById P s' uid = findUserById P s uid"
      using mem us by (simp add: findUserById_def)
    with h have fu: "findUserById P s' uid = Some u" by simp
    show ?thesis
      using authMiddleware_unfold[OF conjunct1[OF h] none, of P] h fu
      by (simp add: truthy_str_def)
  qed
  from res A B C show ?thesis by blast
qed

text \<open>
  The sample user logs out. Afterwards the session token \<open>5e55\<close> is refused, and the
  signed token \<open>jwt-u1\<close> issued for the same user still resolves to that user.
\<close>

theorem logout_revokes_session_only_witness:
  "authMiddleware sample_platform
     (snd (logout sample_platform (sample_server True) sample_payment 1700000123456))
     sample_payment 1700000200000
   = Inl (error_response 401 ''Invalid or expired session'')
   \<and> authMiddleware sample_platform
       (snd (logout sample_platform (sample_server True) sample_payment 1700000123456))
       (sample_payment\<lparr>authorization := Some ''Bearer jwt-u1''\<rparr>) 1700000200000
     = Inr (AList.update ''is_staff'' (VBool False) (sample_user (VStr ''u1'')))"
proof -
  let ?out = "logout sample_platform (sample_server True) sample_payment 1700000123456"
  let ?p = "AList.update ''is_staff'' (VBool False)
              (spread (sample_session (VStr ''u1'') (VStr ''s1'')) (sample_user (VStr ''u1'')))"
  let ?jreq = "sample_payment\<lparr>authorization := Some ''Bearer jwt-u1''\<rparr>"
  have t: "''5e55'' = bearer_token (the (authorization sample_payment))"
    by (simp add: sample_payment_def bearer_token_def)
  have tok: "fld ?p ''session_token'' = Some (VStr ''5e55'')"
    by (simp add: fld_update fld_spread sample_user_def sample_session_def fld_simps)
  have nojwt: "\<forall>now'. jwt_verify sample_platform ''5e55'' now' = None"
    by (simp add: sample_platform_def)
  have dist: "distinct (map (\<lambda>d. fld d ''session_token'') (user_sessions (sample_server True)))"
    by (simp add: sample_server_def)
  have out: "?out = (fst ?out, snd ?out)" by simp
  note T = logout_revokes_session_only[OF sample_auth_mem t tok nojwt dist out]
  have h1: "has_bearer (authorization sample_payment)
              \<and> bearer_token (the (authorization sample_payment)) = ''5e55''"
    by (simp add: sample_payment_def has_bearer_def bearer_token_def)
  have h2: "has_bearer (authorization ?jreq)
            \<and> jwt_verify sample_platform (bearer_token (the (authorization ?jreq))) 1700000200000
                = Some (Some ''u1'') \<and> ''u1'' \<noteq> []
            \<and> (\<forall>d\<in>set (user_sessions (sample_server True)).
                  fld d ''session_token'' \<noteq> Some (VStr (bearer_token (the (authorization ?jreq)))))
            \<and> findUserById sample_platform (sample_server True) ''u1'' = Some (sample_user (VStr ''u1''))"
    by (simp add: has_bearer_def bearer_token_def sample_platform_def sample_server_def
        sample_session_def sample_user_def fld_simps findUserById_def findOne_def)
  have u: "truthy (fld (sample_user (VStr ''u1'')) ''is_staff'') = False"
    by (simp add: sample_user_def fld_simps)
  from T[THEN conjunct2, THEN conjunct1, rule_format, OF h1]
    T[THEN conjunct2, THEN conjunct2, THEN conjunct2, rule_format, OF h2]
  show ?thesis unfolding u by (rule conjI)
qed

end
